theory Spec2Isabelle
  imports Main
begin

section \<open>Strings and path values\<close>

text \<open>
  Python strings are modelled as \<open>string\<close>.  \<open>str.startswith\<close>, \<open>str.endswith\<close> and
  \<open>str.lower\<close> are written out; \<open>lower\<close> acts on the letters \<open>A\<close> to \<open>Z\<close> (the ASCII part
  of Python's case mapping).
\<close>

definition startswith :: "string \<Rightarrow> string \<Rightarrow> bool" where
  "startswith s t = (take (length t) s = t)"

definition endswith :: "string \<Rightarrow> string \<Rightarrow> bool" where
  "endswith s t = (length t \<le> length s \<and> drop (length s - length t) s = t)"

definition lower_char :: "char \<Rightarrow> char" where
  "lower_char c =
     (case map_of (zip ''ABCDEFGHIJKLMNOPQRSTUVWXYZ'' ''abcdefghijklmnopqrstuvwxyz'') c of
        Some l \<Rightarrow> l
      | None \<Rightarrow> c)"

definition lower :: "string \<Rightarrow> string" where
  "lower s = map lower_char s"

text \<open>
  The path type that \<open>BaseRestrictedPath\<close> extends (\<open>AnyPath\<close>, on top of \<open>pathlib\<close>) is
  not part of the two source files.  A path value is the POSIX flavour of a pure path:
  a flag for the root and the sequence of components after the root.  Equality is
  structural, as \<open>pathlib\<close>'s is, and does not look at the class of the instance.
\<close>

record path =
  is_absolute :: bool
  comps :: "string list"

text \<open>\<open>self.parts\<close>: the root, when there is one, followed by the components.\<close>

definition parts :: "path \<Rightarrow> string list" where
  "parts p = (if is_absolute p then [''/''] else []) @ comps p"

text \<open>\<open>self.name\<close>: the last component, the empty string when there is none.\<close>

definition name :: "path \<Rightarrow> string" where
  "name p = (if comps p = [] then [] else last (comps p))"

text \<open>\<open>self.parent\<close>: the path without its last component; the root and the empty path are
  their own parents.\<close>

definition parent :: "path \<Rightarrow> path" where
  "parent p = p\<lparr>comps := butlast (comps p)\<rparr>"

text \<open>\<open>self.is_relative_to(other)\<close>: \<open>other\<close> is \<open>self\<close> or one of its parents.\<close>

definition is_relative_to :: "path \<Rightarrow> path \<Rightarrow> bool" where
  "is_relative_to p q =
     (is_absolute p = is_absolute q \<and> length (comps q) \<le> length (comps p) \<and>
      take (length (comps q)) (comps p) = comps q)"

fun join_sep :: "string list \<Rightarrow> string" where
  "join_sep [] = []"
| "join_sep [c] = c"
| "join_sep (c # d # cs) = c @ ''/'' @ join_sep (d # cs)"

text \<open>\<open>self.as_posix()\<close>: the text of the path, \<open>.\<close> for the empty relative path.\<close>

definition as_posix :: "path \<Rightarrow> string" where
  "as_posix p =
     (if is_absolute p then ''/'' @ join_sep (comps p)
      else if comps p = [] then ''.'' else join_sep (comps p))"

fun split_sep :: "string \<Rightarrow> string list" where
  "split_sep [] = [[]]"
| "split_sep (c # cs) =
     (if c = CHR ''/'' then [] # split_sep cs
      else (case split_sep cs of [] \<Rightarrow> [[c]] | w # ws \<Rightarrow> (c # w) # ws))"

text \<open>\<open>cls(text)\<close>: the path constructor on a string.  Empty components and \<open>.\<close>
  components are dropped, \<open>..\<close> is kept.\<close>

definition path_of_str :: "string \<Rightarrow> path" where
  "path_of_str t =
     \<lparr>is_absolute = startswith t ''/'',
      comps = filter (\<lambda>c. c \<noteq> [] \<and> c \<noteq> ''.'') (split_sep t)\<rparr>"

section \<open>Configuration, classes and policy attributes\<close>

text \<open>
  \<open>latex_config\<close> is imported from a module outside the two source files; the values
  the code reads from it are the fields of this record.
\<close>

record latex_config =
  cfg_tex_cwd :: string
  cfg_TEXMFOUTPUT :: "string option"
  cfg_TEXMF_OUTPUT_DIRECTORY :: "string option"
  cfg_can_read_anywhere :: bool
  cfg_can_read_dotfiles :: bool
  cfg_can_write_anywhere :: bool
  cfg_can_write_dotfiles :: bool
  cfg_prohibited_write_file_extensions :: "string list"

text \<open>The classes of the module \<open>_restricted_pathlib\<close>, and the base class of each.\<close>

datatype variant =
    BaseRestrictedPath
  | StringRestrictedPath
  | SafeStringRestrictedPath
  | SafeWriteStringRestrictedPath
  | ResolvedRestrictedPath
  | SafeResolvedRestrictedPath
  | SafeWriteResolvedRestrictedPath

fun mro :: "variant \<Rightarrow> variant list" where
  "mro BaseRestrictedPath = [BaseRestrictedPath]"
| "mro StringRestrictedPath = [StringRestrictedPath, BaseRestrictedPath]"
| "mro SafeStringRestrictedPath =
     [SafeStringRestrictedPath, StringRestrictedPath, BaseRestrictedPath]"
| "mro SafeWriteStringRestrictedPath =
     [SafeWriteStringRestrictedPath, StringRestrictedPath, BaseRestrictedPath]"
| "mro ResolvedRestrictedPath = [ResolvedRestrictedPath, BaseRestrictedPath]"
| "mro SafeResolvedRestrictedPath =
     [SafeResolvedRestrictedPath, ResolvedRestrictedPath, BaseRestrictedPath]"
| "mro SafeWriteResolvedRestrictedPath =
     [SafeWriteResolvedRestrictedPath, ResolvedRestrictedPath, BaseRestrictedPath]"

text \<open>
  The policy attributes.  \<open>BaseRestrictedPath\<close> takes them from \<open>latex_config\<close>; the
  \<open>Safe\<close> classes set all four booleans to \<open>False\<close>, the \<open>SafeWrite\<close> classes the two
  write booleans; no class redefines the prohibited extensions.
\<close>

fun tex_can_read_anywhere :: "latex_config \<Rightarrow> variant \<Rightarrow> bool" where
  "tex_can_read_anywhere cfg SafeStringRestrictedPath = False"
| "tex_can_read_anywhere cfg SafeResolvedRestrictedPath = False"
| "tex_can_read_anywhere cfg c = cfg_can_read_anywhere cfg"

fun tex_can_read_dotfiles :: "latex_config \<Rightarrow> variant \<Rightarrow> bool" where
  "tex_can_read_dotfiles cfg SafeStringRestrictedPath = False"
| "tex_can_read_dotfiles cfg SafeResolvedRestrictedPath = False"
| "tex_can_read_dotfiles cfg c = cfg_can_read_dotfiles cfg"

fun tex_can_write_anywhere :: "latex_config \<Rightarrow> variant \<Rightarrow> bool" where
  "tex_can_write_anywhere cfg SafeStringRestrictedPath = False"
| "tex_can_write_anywhere cfg SafeWriteStringRestrictedPath = False"
| "tex_can_write_anywhere cfg SafeResolvedRestrictedPath = False"
| "tex_can_write_anywhere cfg SafeWriteResolvedRestrictedPath = False"
| "tex_can_write_anywhere cfg c = cfg_can_write_anywhere cfg"

fun tex_can_write_dotfiles :: "latex_config \<Rightarrow> variant \<Rightarrow> bool" where
  "tex_can_write_dotfiles cfg SafeStringRestrictedPath = False"
| "tex_can_write_dotfiles cfg SafeWriteStringRestrictedPath = False"
| "tex_can_write_dotfiles cfg SafeResolvedRestrictedPath = False"
| "tex_can_write_dotfiles cfg SafeWriteResolvedRestrictedPath = False"
| "tex_can_write_dotfiles cfg c = cfg_can_write_dotfiles cfg"

definition tex_prohibited_write_file_extensions :: "latex_config \<Rightarrow> variant \<Rightarrow> string list" where
  "tex_prohibited_write_file_extensions cfg c = cfg_prohibited_write_file_extensions cfg"

text \<open>\<open>_access_file_system_with_resolved_paths\<close>: only annotated in the base class, so
  reading it there raises \<open>AttributeError\<close> (\<open>None\<close> here).\<close>

fun access_file_system_with_resolved_paths :: "variant \<Rightarrow> bool option" where
  "access_file_system_with_resolved_paths BaseRestrictedPath = None"
| "access_file_system_with_resolved_paths StringRestrictedPath = Some False"
| "access_file_system_with_resolved_paths SafeStringRestrictedPath = Some False"
| "access_file_system_with_resolved_paths SafeWriteStringRestrictedPath = Some False"
| "access_file_system_with_resolved_paths ResolvedRestrictedPath = Some True"
| "access_file_system_with_resolved_paths SafeResolvedRestrictedPath = Some True"
| "access_file_system_with_resolved_paths SafeWriteResolvedRestrictedPath = Some True"

section \<open>The state of the process\<close>

datatype error =
    NotImplementedError
  | AttributeError
  | KeyError
  | PathSecurityError string

text \<open>An access decision is the Python pair \<open>(is_accessible, reason_not_accessible)\<close>.\<close>

type_synonym decision = "bool \<times> string option"

text \<open>The calls that reach the underlying path class and change the file system, or
  open a file.\<close>

datatype fs_call =
    Fs_mkdir path
  | Fs_open path string
  | Fs_read_bytes path
  | Fs_read_text path
  | Fs_rename path path
  | Fs_replace path path
  | Fs_rmdir path
  | Fs_touch path
  | Fs_unlink path
  | Fs_write_bytes path
  | Fs_write_text path

text \<open>
  The mutable state: the four decision caches (class attributes of \<open>BaseRestrictedPath\<close>,
  one dictionary each, shared by all subclasses, keyed by \<open>cache_key\<close>); the lazily set
  class attributes, each a partial map from the class that holds the attribute to its
  value; the current directory of the process and the stack of \<open>_cd_tex_cwd\<close>; the number
  of calls of \<open>resolve\<close>; and the calls made to the underlying path class.  Python sets
  are kept as lists without repetition, in insertion order, because the code iterates
  over one of them with an effect per element.
\<close>

record world =
  tex_readable_dir_cache :: "variant \<times> path \<rightharpoonup> decision"
  tex_readable_file_cache :: "variant \<times> path \<rightharpoonup> decision"
  tex_writable_dir_cache :: "variant \<times> path \<rightharpoonup> decision"
  tex_writable_file_cache :: "variant \<times> path \<rightharpoonup> decision"
  attr_tex_cwd :: "variant \<rightharpoonup> path"
  attr_TEXMFOUTPUT :: "variant \<rightharpoonup> path option"
  attr_TEXMF_OUTPUT_DIRECTORY :: "variant \<rightharpoonup> path option"
  attr_tex_openout_roots :: "variant \<rightharpoonup> path list"
  attr_tex_paranoid_roots :: "variant \<rightharpoonup> path list"
  attr_tex_paranoid_roots_resolved :: "variant \<rightharpoonup> path list"
  attr_tex_paranoid_roots_with_resolved :: "variant \<rightharpoonup> path list"
  attr_tex_texmfoutput_roots :: "variant \<rightharpoonup> path list"
  os_cwd :: string
  cwd_stack :: "string option list"
  resolve_calls :: nat
  fs_log :: "fs_call list"

text \<open>
  What the file system answers.  \<open>fs_resolve\<close> is the result of \<open>resolve()\<close> of the
  underlying path class, taken from the TeX working directory; \<open>fs_is_resolved\<close> is
  \<open>AnyPath.is_resolved()\<close>.  Both belong to code outside the two source files and are
  parameters; a later call may see a different file system.
\<close>

record filesystem =
  fs_resolve :: "path \<Rightarrow> path"
  fs_is_resolved :: "path \<Rightarrow> bool"

text \<open>Modelled from the spec: \<open>AnyPath.cache_key\<close> is not in the source files; the
  caches are keyed by (validator-variant identity, path value).\<close>

definition cache_key :: "variant \<Rightarrow> path \<Rightarrow> variant \<times> path" where
  "cache_key c p = (c, p)"

text \<open>The state after the module has been imported, in a process whose current
  directory is \<open>d\<close>.\<close>

definition initial_world :: "string \<Rightarrow> world" where
  "initial_world d =
     \<lparr>tex_readable_dir_cache = Map.empty, tex_readable_file_cache = Map.empty,
      tex_writable_dir_cache = Map.empty, tex_writable_file_cache = Map.empty,
      attr_tex_cwd = Map.empty, attr_TEXMFOUTPUT = Map.empty,
      attr_TEXMF_OUTPUT_DIRECTORY = Map.empty, attr_tex_openout_roots = Map.empty,
      attr_tex_paranoid_roots = Map.empty, attr_tex_paranoid_roots_resolved = Map.empty,
      attr_tex_paranoid_roots_with_resolved = Map.empty, attr_tex_texmfoutput_roots = Map.empty,
      os_cwd = d, cwd_stack = [], resolve_calls = 0, fs_log = []\<rparr>"

subsection \<open>The working-directory context \<open>_cd_tex_cwd\<close>\<close>

definition cd_enter :: "latex_config \<Rightarrow> world \<Rightarrow> world" where
  "cd_enter cfg s =
     (let cwd = os_cwd s in
      if cwd = cfg_tex_cwd cfg then s\<lparr>cwd_stack := cwd_stack s @ [None]\<rparr>
      else s\<lparr>cwd_stack := cwd_stack s @ [Some cwd], os_cwd := cfg_tex_cwd cfg\<rparr>)"

text \<open>\<open>__exit__\<close> pops the entry that the matching \<open>__enter__\<close> pushed.\<close>

definition cd_exit :: "world \<Rightarrow> world" where
  "cd_exit s =
     (case rev (cwd_stack s) of
        [] \<Rightarrow> s
      | last_cwd # rest \<Rightarrow>
          (case last_cwd of
             None \<Rightarrow> s\<lparr>cwd_stack := rev rest\<rparr>
           | Some d \<Rightarrow> s\<lparr>cwd_stack := rev rest, os_cwd := d\<rparr>))"

text \<open>\<open>with _cd_tex_cwd: body\<close>; the exit runs whether the body returns or raises.\<close>

definition with_cd_tex_cwd :: "latex_config \<Rightarrow> (world \<Rightarrow> 'a \<times> world) \<Rightarrow> world \<Rightarrow> 'a \<times> world" where
  "with_cd_tex_cwd cfg body s = (case body (cd_enter cfg s) of (r, s') \<Rightarrow> (r, cd_exit s'))"

text \<open>\<open>BaseRestrictedPath.resolve\<close>.\<close>

definition resolve :: "filesystem \<Rightarrow> latex_config \<Rightarrow> path \<Rightarrow> world \<Rightarrow> path \<times> world" where
  "resolve fs cfg p s =
     with_cd_tex_cwd cfg
       (\<lambda>s1. (fs_resolve fs p, s1\<lparr>resolve_calls := Suc (resolve_calls s1)\<rparr>)) s"

section \<open>Root directories: the class methods of \<open>BaseRestrictedPath\<close>\<close>

text \<open>\<open>cls.attr\<close>: the attribute of the first class of the method resolution order that
  has it, \<open>AttributeError\<close> when none has.\<close>

fun lookup_mro :: "(variant \<rightharpoonup> 'a) \<Rightarrow> variant list \<Rightarrow> 'a option" where
  "lookup_mro attr [] = None"
| "lookup_mro attr (k # ks) =
     (case attr k of Some x \<Rightarrow> Some x | None \<Rightarrow> lookup_mro attr ks)"

definition class_getattr :: "(variant \<rightharpoonup> 'a) \<Rightarrow> variant \<Rightarrow> error + 'a" where
  "class_getattr attr c =
     (case lookup_mro attr (mro c) of None \<Rightarrow> Inl AttributeError | Some x \<Rightarrow> Inr x)"

text \<open>\<open>cls.attr = value\<close> sets the attribute on \<open>cls\<close> itself: in the map of the
  attribute, the entry of \<open>cls\<close>.\<close>

definition set_add :: "'a \<Rightarrow> 'a list \<Rightarrow> 'a list" where
  "set_add x xs = (if x \<in> set xs then xs else xs @ [x])"

definition set_union :: "'a list \<Rightarrow> 'a list \<Rightarrow> 'a list" where
  "set_union xs ys = fold set_add ys xs"

definition tex_cwd :: "latex_config \<Rightarrow> variant \<Rightarrow> world \<Rightarrow> path \<times> world" where
  "tex_cwd cfg c s =
     (case class_getattr (attr_tex_cwd s) c of
        Inr p \<Rightarrow> (p, s)
      | Inl e \<Rightarrow>
          (let p = path_of_str (cfg_tex_cwd cfg)
           in (p, s\<lparr>attr_tex_cwd := (attr_tex_cwd s)(c \<mapsto> p)\<rparr>)))"

definition TEXMFOUTPUT :: "latex_config \<Rightarrow> variant \<Rightarrow> world \<Rightarrow> path option \<times> world" where
  "TEXMFOUTPUT cfg c s =
     (case class_getattr (attr_TEXMFOUTPUT s) c of
        Inr v \<Rightarrow> (v, s)
      | Inl e \<Rightarrow>
          (let v = (case cfg_TEXMFOUTPUT cfg of None \<Rightarrow> None | Some t \<Rightarrow> Some (path_of_str t))
           in (v, s\<lparr>attr_TEXMFOUTPUT := (attr_TEXMFOUTPUT s)(c \<mapsto> v)\<rparr>)))"

definition TEXMF_OUTPUT_DIRECTORY :: "latex_config \<Rightarrow> variant \<Rightarrow> world \<Rightarrow> path option \<times> world" where
  "TEXMF_OUTPUT_DIRECTORY cfg c s =
     (case class_getattr (attr_TEXMF_OUTPUT_DIRECTORY s) c of
        Inr v \<Rightarrow> (v, s)
      | Inl e \<Rightarrow>
          (let v = (case cfg_TEXMF_OUTPUT_DIRECTORY cfg of
                      None \<Rightarrow> None | Some t \<Rightarrow> Some (path_of_str t))
           in (v, s\<lparr>attr_TEXMF_OUTPUT_DIRECTORY := (attr_TEXMF_OUTPUT_DIRECTORY s)(c \<mapsto> v)\<rparr>)))"

text \<open>
  In the methods below the attribute is first set to an empty list or set, which is
  then filled in place; \<open>if X:\<close> on a path or \<open>None\<close> tests for \<open>None\<close>, the path class
  defining no truth value of its own.
\<close>

definition tex_openout_roots :: "latex_config \<Rightarrow> variant \<Rightarrow> world \<Rightarrow> path list \<times> world" where
  "tex_openout_roots cfg c s =
     (case class_getattr (attr_tex_openout_roots s) c of
        Inr r \<Rightarrow> (r, s)
      | Inl e \<Rightarrow>
          (let put = (\<lambda>r s'. s'\<lparr>attr_tex_openout_roots := (attr_tex_openout_roots s')(c \<mapsto> r)\<rparr>);
               s1 = put [] s
           in case TEXMF_OUTPUT_DIRECTORY cfg c s1 of (od, s2) \<Rightarrow>
              (case (case od of
                       Some d \<Rightarrow> ([d], put [d] s2)
                     | None \<Rightarrow> (case tex_cwd cfg c s2 of (w, s') \<Rightarrow> ([w], put [w] s'))) of
                 (r1, s3) \<Rightarrow>
                   (case TEXMFOUTPUT cfg c s3 of (fb, s4) \<Rightarrow>
                      (case fb of
                         Some m \<Rightarrow>
                           if m \<notin> set r1 then (r1 @ [m], put (r1 @ [m]) s4) else (r1, s4)
                       | None \<Rightarrow> (r1, s4))))))"

definition tex_paranoid_roots :: "latex_config \<Rightarrow> variant \<Rightarrow> world \<Rightarrow> path list \<times> world" where
  "tex_paranoid_roots cfg c s =
     (case class_getattr (attr_tex_paranoid_roots s) c of
        Inr r \<Rightarrow> (r, s)
      | Inl e \<Rightarrow>
          (let put = (\<lambda>r s'. s'\<lparr>attr_tex_paranoid_roots := (attr_tex_paranoid_roots s')(c \<mapsto> r)\<rparr>);
               s1 = put [] s
           in case tex_cwd cfg c s1 of (w, s2) \<Rightarrow>
              (let r1 = set_add w []; s3 = put r1 s2
               in case TEXMF_OUTPUT_DIRECTORY cfg c s3 of (od, s4) \<Rightarrow>
                  (case (case od of
                           Some d \<Rightarrow> (set_add d r1, put (set_add d r1) s4)
                         | None \<Rightarrow> (r1, s4)) of
                     (r2, s5) \<Rightarrow>
                       (case TEXMFOUTPUT cfg c s5 of (fb, s6) \<Rightarrow>
                          (case fb of
                             Some m \<Rightarrow> (set_add m r2, put (set_add m r2) s6)
                           | None \<Rightarrow> (r2, s6)))))))"

text \<open>\<open>set(p.resolve() for p in roots)\<close>: one call of \<open>resolve\<close> per element.\<close>

fun resolve_all :: "filesystem \<Rightarrow> latex_config \<Rightarrow> path list \<Rightarrow> path list \<Rightarrow> world \<Rightarrow> path list \<times> world" where
  "resolve_all fs cfg [] acc s = (acc, s)"
| "resolve_all fs cfg (p # ps) acc s =
     (case resolve fs cfg p s of (r, s1) \<Rightarrow> resolve_all fs cfg ps (set_add r acc) s1)"

definition tex_paranoid_roots_resolved :: "filesystem \<Rightarrow> latex_config \<Rightarrow> variant \<Rightarrow> world \<Rightarrow> path list \<times> world" where
  "tex_paranoid_roots_resolved fs cfg c s =
     (case class_getattr (attr_tex_paranoid_roots_resolved s) c of
        Inr r \<Rightarrow> (r, s)
      | Inl e \<Rightarrow>
          (case tex_paranoid_roots cfg c s of (roots, s1) \<Rightarrow>
             (case resolve_all fs cfg roots [] s1 of (r, s2) \<Rightarrow>
                (r, s2\<lparr>attr_tex_paranoid_roots_resolved := (attr_tex_paranoid_roots_resolved s2)(c \<mapsto> r)\<rparr>))))"

text \<open>The handler of this method is \<open>except KeyError\<close>; every other exception of the
  attribute access leaves the method.\<close>

definition tex_paranoid_roots_with_resolved :: "filesystem \<Rightarrow> latex_config \<Rightarrow> variant \<Rightarrow> world \<Rightarrow> (error + path list) \<times> world" where
  "tex_paranoid_roots_with_resolved fs cfg c s =
     (case class_getattr (attr_tex_paranoid_roots_with_resolved s) c of
        Inr r \<Rightarrow> (Inr r, s)
      | Inl e \<Rightarrow>
          (case e of
             KeyError \<Rightarrow>
               (case tex_paranoid_roots cfg c s of (a, s1) \<Rightarrow>
                  (case tex_paranoid_roots_resolved fs cfg c s1 of (b, s2) \<Rightarrow>
                     (Inr (set_union a b),
                      s2\<lparr>attr_tex_paranoid_roots_with_resolved :=
                           (attr_tex_paranoid_roots_with_resolved s2)(c \<mapsto> set_union a b)\<rparr>)))
           | _ \<Rightarrow> (Inl e, s)))"

definition tex_texmfoutput_roots :: "latex_config \<Rightarrow> variant \<Rightarrow> world \<Rightarrow> path list \<times> world" where
  "tex_texmfoutput_roots cfg c s =
     (case class_getattr (attr_tex_texmfoutput_roots s) c of
        Inr r \<Rightarrow> (r, s)
      | Inl e \<Rightarrow>
          (let put = (\<lambda>r s'. s'\<lparr>attr_tex_texmfoutput_roots := (attr_tex_texmfoutput_roots s')(c \<mapsto> r)\<rparr>);
               s1 = put [] s
           in case TEXMF_OUTPUT_DIRECTORY cfg c s1 of (od, s2) \<Rightarrow>
              (case (case od of
                       Some d \<Rightarrow> (set_add d [], put (set_add d []) s2)
                     | None \<Rightarrow> ([], s2)) of
                 (r1, s3) \<Rightarrow>
                   (case TEXMFOUTPUT cfg c s3 of (fb, s4) \<Rightarrow>
                      (case fb of
                         Some m \<Rightarrow> (set_add m r1, put (set_add m r1) s4)
                       | None \<Rightarrow> (r1, s4))))))"

section \<open>The access predicates\<close>

definition reason_dotdot :: string where
  "reason_dotdot = ''security settings do not permit paths containing \"..\"''"

definition reason_location :: string where
  "reason_location = ''security settings do not permit access to this location''"

definition reason_dotfiles :: string where
  "reason_dotfiles = ''security settings do not permit access to dotfiles''"

definition reason_extension :: "string \<Rightarrow> string" where
  "reason_extension ext =
     ''security settings prevent writing files with extension \"'' @ ext @ ''\"''"

text \<open>\<open>cache[self.cache_key] = d\<close> followed by \<open>return cache[self.cache_key]\<close>, for each
  of the four caches.\<close>

definition put_readable_dir :: "variant \<Rightarrow> path \<Rightarrow> decision \<Rightarrow> world \<Rightarrow> decision \<times> world" where
  "put_readable_dir c p d s =
     (d, s\<lparr>tex_readable_dir_cache := (tex_readable_dir_cache s)(cache_key c p \<mapsto> d)\<rparr>)"

definition put_readable_file :: "variant \<Rightarrow> path \<Rightarrow> decision \<Rightarrow> world \<Rightarrow> decision \<times> world" where
  "put_readable_file c p d s =
     (d, s\<lparr>tex_readable_file_cache := (tex_readable_file_cache s)(cache_key c p \<mapsto> d)\<rparr>)"

definition put_writable_dir :: "variant \<Rightarrow> path \<Rightarrow> decision \<Rightarrow> world \<Rightarrow> decision \<times> world" where
  "put_writable_dir c p d s =
     (d, s\<lparr>tex_writable_dir_cache := (tex_writable_dir_cache s)(cache_key c p \<mapsto> d)\<rparr>)"

definition put_writable_file :: "variant \<Rightarrow> path \<Rightarrow> decision \<Rightarrow> world \<Rightarrow> decision \<times> world" where
  "put_writable_file c p d s =
     (d, s\<lparr>tex_writable_file_cache := (tex_writable_file_cache s)(cache_key c p \<mapsto> d)\<rparr>)"

subsection \<open>\<open>StringRestrictedPath\<close>\<close>

definition String_tex_readable_dir :: "latex_config \<Rightarrow> variant \<Rightarrow> path \<Rightarrow> world \<Rightarrow> decision \<times> world" where
  "String_tex_readable_dir cfg c p s =
     (case tex_readable_dir_cache s (cache_key c p) of
        Some d \<Rightarrow> (d, s)
      | None \<Rightarrow>
          if tex_can_read_anywhere cfg c then put_readable_dir c p (True, None) s
          else if ''..'' \<in> set (parts p) then put_readable_dir c p (False, Some reason_dotdot) s
          else if is_absolute p then
            (case tex_texmfoutput_roots cfg c s of (roots, s1) \<Rightarrow>
               if \<not> (\<exists>r \<in> set roots. is_relative_to p r)
               then put_readable_dir c p (False, Some reason_location) s1
               else put_readable_dir c p (True, None) s1)
          else put_readable_dir c p (True, None) s)"

definition String_tex_readable_file :: "latex_config \<Rightarrow> variant \<Rightarrow> path \<Rightarrow> world \<Rightarrow> decision \<times> world" where
  "String_tex_readable_file cfg c p s =
     (case tex_readable_file_cache s (cache_key c p) of
        Some d \<Rightarrow> (d, s)
      | None \<Rightarrow>
          if tex_can_read_dotfiles cfg c \<or> \<not> startswith (name p) ''.'' then
            (case String_tex_readable_dir cfg c (parent p) s of (d, s1) \<Rightarrow>
               put_readable_file c p d s1)
          else put_readable_file c p (False, Some reason_dotfiles) s)"

definition String_tex_writable_dir :: "latex_config \<Rightarrow> variant \<Rightarrow> path \<Rightarrow> world \<Rightarrow> decision \<times> world" where
  "String_tex_writable_dir cfg c p s =
     (case tex_writable_dir_cache s (cache_key c p) of
        Some d \<Rightarrow> (d, s)
      | None \<Rightarrow>
          if tex_can_write_anywhere cfg c then put_writable_dir c p (True, None) s
          else if ''..'' \<in> set (parts p) then put_writable_dir c p (False, Some reason_dotdot) s
          else if is_absolute p then
            (case tex_texmfoutput_roots cfg c s of (roots, s1) \<Rightarrow>
               if \<not> (\<exists>r \<in> set roots. is_relative_to p r)
               then put_writable_dir c p (False, Some reason_location) s1
               else put_writable_dir c p (True, None) s1)
          else put_writable_dir c p (True, None) s)"

text \<open>The \<open>for ... else\<close> loop stops at the first extension that matches.\<close>

definition String_tex_writable_file :: "latex_config \<Rightarrow> variant \<Rightarrow> path \<Rightarrow> world \<Rightarrow> decision \<times> world" where
  "String_tex_writable_file cfg c p s =
     (case tex_writable_file_cache s (cache_key c p) of
        Some d \<Rightarrow> (d, s)
      | None \<Rightarrow>
          (let name_lower = lower (name p)
           in case List.find (\<lambda>ext. endswith name_lower ext)
                     (tex_prohibited_write_file_extensions cfg c) of
                Some ext \<Rightarrow> put_writable_file c p (False, Some (reason_extension ext)) s
              | None \<Rightarrow>
                  if tex_can_write_dotfiles cfg c \<or> \<not> startswith (name p) ''.'' then
                    (case String_tex_writable_dir cfg c (parent p) s of (d, s1) \<Rightarrow>
                       put_writable_file c p d s1)
                  else put_writable_file c p (False, Some reason_dotfiles) s))"

subsection \<open>\<open>ResolvedRestrictedPath\<close>\<close>

definition Resolved_tex_readable_dir :: "filesystem \<Rightarrow> latex_config \<Rightarrow> variant \<Rightarrow> path \<Rightarrow> world \<Rightarrow> decision \<times> world" where
  "Resolved_tex_readable_dir fs cfg c p s =
     (case tex_readable_dir_cache s (cache_key c p) of
        Some d \<Rightarrow> (d, s)
      | None \<Rightarrow>
          if tex_can_read_anywhere cfg c then put_readable_dir c p (True, None) s
          else
            (case resolve fs cfg p s of (resolved, s1) \<Rightarrow>
               (case tex_paranoid_roots_resolved fs cfg c s1 of (roots, s2) \<Rightarrow>
                  if \<exists>r \<in> set roots. is_relative_to resolved r
                  then put_readable_dir c p (True, None) s2
                  else put_readable_dir c p (False, Some reason_location) s2)))"

definition Resolved_tex_readable_file :: "filesystem \<Rightarrow> latex_config \<Rightarrow> variant \<Rightarrow> path \<Rightarrow> world \<Rightarrow> decision \<times> world" where
  "Resolved_tex_readable_file fs cfg c p s =
     (case tex_readable_file_cache s (cache_key c p) of
        Some d \<Rightarrow> (d, s)
      | None \<Rightarrow>
          (case resolve fs cfg p s of (resolved, s1) \<Rightarrow>
             if tex_can_read_dotfiles cfg c
                \<or> \<not> (startswith (name p) ''.'' \<or> startswith (name resolved) ''.'') then
               (case Resolved_tex_readable_dir fs cfg c (parent resolved) s1 of (d, s2) \<Rightarrow>
                  put_readable_file c p d s2)
             else put_readable_file c p (False, Some reason_dotfiles) s1))"

definition Resolved_tex_writable_dir :: "filesystem \<Rightarrow> latex_config \<Rightarrow> variant \<Rightarrow> path \<Rightarrow> world \<Rightarrow> decision \<times> world" where
  "Resolved_tex_writable_dir fs cfg c p s =
     (case tex_writable_dir_cache s (cache_key c p) of
        Some d \<Rightarrow> (d, s)
      | None \<Rightarrow>
          if tex_can_write_anywhere cfg c then put_writable_dir c p (True, None) s
          else
            (case resolve fs cfg p s of (resolved, s1) \<Rightarrow>
               (case tex_paranoid_roots_resolved fs cfg c s1 of (roots, s2) \<Rightarrow>
                  if \<exists>r \<in> set roots. is_relative_to resolved r
                  then put_writable_dir c p (True, None) s2
                  else put_writable_dir c p (False, Some reason_location) s2)))"

definition Resolved_tex_writable_file :: "filesystem \<Rightarrow> latex_config \<Rightarrow> variant \<Rightarrow> path \<Rightarrow> world \<Rightarrow> decision \<times> world" where
  "Resolved_tex_writable_file fs cfg c p s =
     (case tex_writable_file_cache s (cache_key c p) of
        Some d \<Rightarrow> (d, s)
      | None \<Rightarrow>
          (case resolve fs cfg p s of (resolved, s1) \<Rightarrow>
             (let name_lower = lower (name p);
                  resolved_name_lower = lower (name resolved)
              in case List.find
                        (\<lambda>ext. endswith name_lower ext \<or> endswith resolved_name_lower ext)
                        (tex_prohibited_write_file_extensions cfg c) of
                   Some ext \<Rightarrow> put_writable_file c p (False, Some (reason_extension ext)) s1
                 | None \<Rightarrow>
                     if tex_can_write_dotfiles cfg c
                        \<or> \<not> (startswith (name p) ''.'' \<or> startswith (name resolved) ''.'') then
                       (case Resolved_tex_writable_dir fs cfg c (parent resolved) s1 of
                          (d, s2) \<Rightarrow> put_writable_file c p d s2)
                     else put_writable_file c p (False, Some reason_dotfiles) s1)))"

subsection \<open>Method dispatch\<close>

text \<open>The class whose definition of the four predicates an instance of \<open>c\<close> runs: the
  \<open>Safe\<close> and \<open>SafeWrite\<close> classes define none of their own, and the base class raises
  \<open>NotImplementedError\<close>.\<close>

datatype predicates = Base_predicates | String_predicates | Resolved_predicates

fun predicates_of :: "variant \<Rightarrow> predicates" where
  "predicates_of BaseRestrictedPath = Base_predicates"
| "predicates_of StringRestrictedPath = String_predicates"
| "predicates_of SafeStringRestrictedPath = String_predicates"
| "predicates_of SafeWriteStringRestrictedPath = String_predicates"
| "predicates_of ResolvedRestrictedPath = Resolved_predicates"
| "predicates_of SafeResolvedRestrictedPath = Resolved_predicates"
| "predicates_of SafeWriteResolvedRestrictedPath = Resolved_predicates"

definition returned :: "'a \<times> world \<Rightarrow> (error + 'a) \<times> world" where
  "returned r = (Inr (fst r), snd r)"

definition tex_readable_dir :: "filesystem \<Rightarrow> latex_config \<Rightarrow> variant \<Rightarrow> path \<Rightarrow> world \<Rightarrow> (error + decision) \<times> world" where
  "tex_readable_dir fs cfg c p s =
     (case predicates_of c of
        Base_predicates \<Rightarrow> (Inl NotImplementedError, s)
      | String_predicates \<Rightarrow> returned (String_tex_readable_dir cfg c p s)
      | Resolved_predicates \<Rightarrow> returned (Resolved_tex_readable_dir fs cfg c p s))"

definition tex_readable_file :: "filesystem \<Rightarrow> latex_config \<Rightarrow> variant \<Rightarrow> path \<Rightarrow> world \<Rightarrow> (error + decision) \<times> world" where
  "tex_readable_file fs cfg c p s =
     (case predicates_of c of
        Base_predicates \<Rightarrow> (Inl NotImplementedError, s)
      | String_predicates \<Rightarrow> returned (String_tex_readable_file cfg c p s)
      | Resolved_predicates \<Rightarrow> returned (Resolved_tex_readable_file fs cfg c p s))"

definition tex_writable_dir :: "filesystem \<Rightarrow> latex_config \<Rightarrow> variant \<Rightarrow> path \<Rightarrow> world \<Rightarrow> (error + decision) \<times> world" where
  "tex_writable_dir fs cfg c p s =
     (case predicates_of c of
        Base_predicates \<Rightarrow> (Inl NotImplementedError, s)
      | String_predicates \<Rightarrow> returned (String_tex_writable_dir cfg c p s)
      | Resolved_predicates \<Rightarrow> returned (Resolved_tex_writable_dir fs cfg c p s))"

definition tex_writable_file :: "filesystem \<Rightarrow> latex_config \<Rightarrow> variant \<Rightarrow> path \<Rightarrow> world \<Rightarrow> (error + decision) \<times> world" where
  "tex_writable_file fs cfg c p s =
     (case predicates_of c of
        Base_predicates \<Rightarrow> (Inl NotImplementedError, s)
      | String_predicates \<Rightarrow> returned (String_tex_writable_file cfg c p s)
      | Resolved_predicates \<Rightarrow> returned (Resolved_tex_writable_file fs cfg c p s))"

section \<open>The operations that reach the file system\<close>

text \<open>\<open>{reason}\<close> inside an f-string.\<close>

definition str_of_reason :: "string option \<Rightarrow> string" where
  "str_of_reason r = (case r of None \<Rightarrow> ''None'' | Some t \<Rightarrow> t)"

text \<open>
  The methods on one path share their body: inside \<open>with _cd_tex_cwd\<close>, call one
  predicate; raise \<open>PathSecurityError\<close> with the method's message when it denies;
  otherwise call the method of the underlying path class, on \<open>self.resolve()\<close> when the
  class accesses the file system with resolved paths and \<open>self\<close> is not resolved, and on
  \<open>self\<close> otherwise.  \<open>checked\<close> is that body after the \<open>with\<close>; \<open>what\<close> is the start of
  the message and \<open>call\<close> the underlying method.
\<close>

definition checked :: "((error + decision) \<times> world) \<Rightarrow> filesystem \<Rightarrow> latex_config \<Rightarrow> variant \<Rightarrow> path \<Rightarrow> string \<Rightarrow> (path \<Rightarrow> fs_call) \<Rightarrow> (error + unit) \<times> world" where
  "checked verdict fs cfg c p what call =
     (case verdict of
        (Inl e, s1) \<Rightarrow> (Inl e, s1)
      | (Inr (is_accessible, reason), s1) \<Rightarrow>
          if \<not> is_accessible then
            (Inl (PathSecurityError
                    (what @ '' \"'' @ as_posix p @ ''\":  '' @ str_of_reason reason)), s1)
          else
            (case access_file_system_with_resolved_paths c of
               None \<Rightarrow> (Inl AttributeError, s1)
             | Some with_resolved \<Rightarrow>
                 if with_resolved \<and> \<not> fs_is_resolved fs p then
                   (case resolve fs cfg p s1 of (r, s2) \<Rightarrow>
                      (Inr (), s2\<lparr>fs_log := fs_log s2 @ [call r]\<rparr>))
                 else (Inr (), s1\<lparr>fs_log := fs_log s1 @ [call p]\<rparr>)))"

definition mkdir :: "filesystem \<Rightarrow> latex_config \<Rightarrow> variant \<Rightarrow> path \<Rightarrow> world \<Rightarrow> (error + unit) \<times> world" where
  "mkdir fs cfg c p =
     with_cd_tex_cwd cfg (\<lambda>s.
       checked (tex_writable_dir fs cfg c p s) fs cfg c p ''Cannot create directory'' Fs_mkdir)"

definition open_path :: "filesystem \<Rightarrow> latex_config \<Rightarrow> variant \<Rightarrow> path \<Rightarrow> string \<Rightarrow> world \<Rightarrow> (error + unit) \<times> world" where
  "open_path fs cfg c p mode =
     with_cd_tex_cwd cfg (\<lambda>s.
       if CHR ''r'' \<in> set mode then
         checked (tex_readable_file fs cfg c p s) fs cfg c p ''Cannot read file''
           (\<lambda>q. Fs_open q mode)
       else if \<exists>char \<in> set ''wxa''. char \<in> set mode then
         checked (tex_writable_file fs cfg c p s) fs cfg c p ''Cannot write file''
           (\<lambda>q. Fs_open q mode)
       else (Inl NotImplementedError, s))"

definition read_bytes :: "filesystem \<Rightarrow> latex_config \<Rightarrow> variant \<Rightarrow> path \<Rightarrow> world \<Rightarrow> (error + unit) \<times> world" where
  "read_bytes fs cfg c p =
     with_cd_tex_cwd cfg (\<lambda>s.
       checked (tex_readable_file fs cfg c p s) fs cfg c p ''Cannot read file'' Fs_read_bytes)"

definition read_text :: "filesystem \<Rightarrow> latex_config \<Rightarrow> variant \<Rightarrow> path \<Rightarrow> world \<Rightarrow> (error + unit) \<times> world" where
  "read_text fs cfg c p =
     with_cd_tex_cwd cfg (\<lambda>s.
       checked (tex_readable_file fs cfg c p s) fs cfg c p ''Cannot read file'' Fs_read_text)"

text \<open>\<open>rename\<close> and \<open>replace\<close> take a second path, an instance of a class \<open>tc\<close> of its
  own, and call its predicate as well.\<close>

definition rename :: "filesystem \<Rightarrow> latex_config \<Rightarrow> variant \<Rightarrow> path \<Rightarrow> variant \<Rightarrow> path \<Rightarrow> world \<Rightarrow> (error + unit) \<times> world" where
  "rename fs cfg c p tc target =
     with_cd_tex_cwd cfg (\<lambda>s.
       case tex_writable_file fs cfg c p s of
         (Inl e, s1) \<Rightarrow> (Inl e, s1)
       | (Inr (is_writable, reason), s1) \<Rightarrow>
           if \<not> is_writable then
             (Inl (PathSecurityError
                     (''Cannot rename file \"'' @ as_posix p @ ''\":  '' @ str_of_reason reason)), s1)
           else
             (case tex_writable_file fs cfg tc target s1 of
                (Inl e, s2) \<Rightarrow> (Inl e, s2)
              | (Inr (target_is_writable, target_reason), s2) \<Rightarrow>
                  if \<not> target_is_writable then
                    (Inl (PathSecurityError
                            (''Cannot create renamed file \"'' @ as_posix target @ ''\":  ''
                             @ str_of_reason target_reason)), s2)
                  else
                    (case access_file_system_with_resolved_paths c of
                       None \<Rightarrow> (Inl AttributeError, s2)
                     | Some with_resolved \<Rightarrow>
                         if with_resolved \<and> \<not> (fs_is_resolved fs p \<and> fs_is_resolved fs target)
                         then
                           (case resolve fs cfg p s2 of (rp, s3) \<Rightarrow>
                              (case resolve fs cfg target s3 of (rt, s4) \<Rightarrow>
                                 (Inr (), s4\<lparr>fs_log := fs_log s4 @ [Fs_rename rp rt]\<rparr>)))
                         else (Inr (), s2\<lparr>fs_log := fs_log s2 @ [Fs_rename p target]\<rparr>))))"

definition replace :: "filesystem \<Rightarrow> latex_config \<Rightarrow> variant \<Rightarrow> path \<Rightarrow> variant \<Rightarrow> path \<Rightarrow> world \<Rightarrow> (error + unit) \<times> world" where
  "replace fs cfg c p tc target =
     with_cd_tex_cwd cfg (\<lambda>s.
       case tex_writable_file fs cfg c p s of
         (Inl e, s1) \<Rightarrow> (Inl e, s1)
       | (Inr (is_writable, reason), s1) \<Rightarrow>
           if \<not> is_writable then
             (Inl (PathSecurityError
                     (''Cannot replace file \"'' @ as_posix p @ ''\":  '' @ str_of_reason reason)), s1)
           else
             (case tex_writable_file fs cfg tc target s1 of
                (Inl e, s2) \<Rightarrow> (Inl e, s2)
              | (Inr (target_is_writable, target_reason), s2) \<Rightarrow>
                  if \<not> target_is_writable then
                    (Inl (PathSecurityError
                            (''Cannot create replacement file \"'' @ as_posix target @ ''\":  ''
                             @ str_of_reason target_reason)), s2)
                  else
                    (case access_file_system_with_resolved_paths c of
                       None \<Rightarrow> (Inl AttributeError, s2)
                     | Some with_resolved \<Rightarrow>
                         if with_resolved \<and> \<not> (fs_is_resolved fs p \<and> fs_is_resolved fs target)
                         then
                           (case resolve fs cfg p s2 of (rp, s3) \<Rightarrow>
                              (case resolve fs cfg target s3 of (rt, s4) \<Rightarrow>
                                 (Inr (), s4\<lparr>fs_log := fs_log s4 @ [Fs_replace rp rt]\<rparr>)))
                         else (Inr (), s2\<lparr>fs_log := fs_log s2 @ [Fs_replace p target]\<rparr>))))"

definition rmdir :: "filesystem \<Rightarrow> latex_config \<Rightarrow> variant \<Rightarrow> path \<Rightarrow> world \<Rightarrow> (error + unit) \<times> world" where
  "rmdir fs cfg c p =
     with_cd_tex_cwd cfg (\<lambda>s.
       checked (tex_writable_dir fs cfg c p s) fs cfg c p ''Cannot delete directory'' Fs_rmdir)"

definition touch :: "filesystem \<Rightarrow> latex_config \<Rightarrow> variant \<Rightarrow> path \<Rightarrow> world \<Rightarrow> (error + unit) \<times> world" where
  "touch fs cfg c p =
     with_cd_tex_cwd cfg (\<lambda>s.
       checked (tex_writable_file fs cfg c p s) fs cfg c p ''Cannot create file'' Fs_touch)"

definition unlink :: "filesystem \<Rightarrow> latex_config \<Rightarrow> variant \<Rightarrow> path \<Rightarrow> world \<Rightarrow> (error + unit) \<times> world" where
  "unlink fs cfg c p =
     with_cd_tex_cwd cfg (\<lambda>s.
       checked (tex_writable_file fs cfg c p s) fs cfg c p ''Cannot delete file'' Fs_unlink)"

definition write_bytes :: "filesystem \<Rightarrow> latex_config \<Rightarrow> variant \<Rightarrow> path \<Rightarrow> world \<Rightarrow> (error + unit) \<times> world" where
  "write_bytes fs cfg c p =
     with_cd_tex_cwd cfg (\<lambda>s.
       checked (tex_writable_file fs cfg c p s) fs cfg c p ''Cannot write file'' Fs_write_bytes)"

definition write_text :: "filesystem \<Rightarrow> latex_config \<Rightarrow> variant \<Rightarrow> path \<Rightarrow> world \<Rightarrow> (error + unit) \<times> world" where
  "write_text fs cfg c p =
     with_cd_tex_cwd cfg (\<lambda>s.
       checked (tex_writable_file fs cfg c p s) fs cfg c p ''Cannot write file'' Fs_write_text)"

text \<open>\<open>chmod\<close>, \<open>copy\<close>, \<open>copytree\<close>, \<open>lchmod\<close>, \<open>symlink_to\<close> and \<open>hardlink_to\<close> raise
  \<open>NotImplementedError\<close> at once.\<close>

definition unsupported :: "world \<Rightarrow> (error + unit) \<times> world" where
  "unsupported s = (Inl NotImplementedError, s)"

section \<open>The states a run can reach\<close>

text \<open>
  One step of a run is one call of a method above, on any class and path; every call
  may see another file system.  A run starts from the state after import.
\<close>

inductive step :: "latex_config \<Rightarrow> world \<Rightarrow> world \<Rightarrow> bool" for cfg :: latex_config where
  s_resolve: "step cfg s (snd (resolve fs cfg p s))"
| s_tex_cwd: "step cfg s (snd (tex_cwd cfg c s))"
| s_TEXMFOUTPUT: "step cfg s (snd (TEXMFOUTPUT cfg c s))"
| s_TEXMF_OUTPUT_DIRECTORY: "step cfg s (snd (TEXMF_OUTPUT_DIRECTORY cfg c s))"
| s_tex_openout_roots: "step cfg s (snd (tex_openout_roots cfg c s))"
| s_tex_paranoid_roots: "step cfg s (snd (tex_paranoid_roots cfg c s))"
| s_tex_paranoid_roots_resolved: "step cfg s (snd (tex_paranoid_roots_resolved fs cfg c s))"
| s_tex_paranoid_roots_with_resolved:
    "step cfg s (snd (tex_paranoid_roots_with_resolved fs cfg c s))"
| s_tex_texmfoutput_roots: "step cfg s (snd (tex_texmfoutput_roots cfg c s))"
| s_tex_readable_dir: "step cfg s (snd (tex_readable_dir fs cfg c p s))"
| s_tex_readable_file: "step cfg s (snd (tex_readable_file fs cfg c p s))"
| s_tex_writable_dir: "step cfg s (snd (tex_writable_dir fs cfg c p s))"
| s_tex_writable_file: "step cfg s (snd (tex_writable_file fs cfg c p s))"
| s_mkdir: "step cfg s (snd (mkdir fs cfg c p s))"
| s_open: "step cfg s (snd (open_path fs cfg c p mode s))"
| s_read_bytes: "step cfg s (snd (read_bytes fs cfg c p s))"
| s_read_text: "step cfg s (snd (read_text fs cfg c p s))"
| s_rename: "step cfg s (snd (rename fs cfg c p tc target s))"
| s_replace: "step cfg s (snd (replace fs cfg c p tc target s))"
| s_rmdir: "step cfg s (snd (rmdir fs cfg c p s))"
| s_touch: "step cfg s (snd (touch fs cfg c p s))"
| s_unlink: "step cfg s (snd (unlink fs cfg c p s))"
| s_write_bytes: "step cfg s (snd (write_bytes fs cfg c p s))"
| s_write_text: "step cfg s (snd (write_text fs cfg c p s))"
| s_unsupported: "step cfg s (snd (unsupported s))"

inductive run :: "latex_config \<Rightarrow> world \<Rightarrow> world \<Rightarrow> bool" for cfg :: latex_config where
  run_refl: "run cfg s s"
| run_step: "run cfg s s1 \<Longrightarrow> step cfg s1 s2 \<Longrightarrow> run cfg s s2"

definition reachable :: "latex_config \<Rightarrow> world \<Rightarrow> bool" where
  "reachable cfg s = (\<exists>d. run cfg (initial_world d) s)"

section \<open>What the root methods compute\<close>

definition tex_cwd_value :: "latex_config \<Rightarrow> path" where
  "tex_cwd_value cfg = path_of_str (cfg_tex_cwd cfg)"

definition TEXMFOUTPUT_value :: "latex_config \<Rightarrow> path option" where
  "TEXMFOUTPUT_value cfg = map_option path_of_str (cfg_TEXMFOUTPUT cfg)"

definition TEXMF_OUTPUT_DIRECTORY_value :: "latex_config \<Rightarrow> path option" where
  "TEXMF_OUTPUT_DIRECTORY_value cfg = map_option path_of_str (cfg_TEXMF_OUTPUT_DIRECTORY cfg)"

definition openout_roots_value :: "latex_config \<Rightarrow> path list" where
  "openout_roots_value cfg =
     (let first = (case TEXMF_OUTPUT_DIRECTORY_value cfg of
                     Some d \<Rightarrow> d | None \<Rightarrow> tex_cwd_value cfg)
      in first # (case TEXMFOUTPUT_value cfg of
                    Some m \<Rightarrow> if m \<noteq> first then [m] else []
                  | None \<Rightarrow> []))"

definition paranoid_roots_value :: "latex_config \<Rightarrow> path list" where
  "paranoid_roots_value cfg =
     (let r1 = [tex_cwd_value cfg];
          r2 = (case TEXMF_OUTPUT_DIRECTORY_value cfg of Some d \<Rightarrow> set_add d r1 | None \<Rightarrow> r1)
      in case TEXMFOUTPUT_value cfg of Some m \<Rightarrow> set_add m r2 | None \<Rightarrow> r2)"

definition texmfoutput_roots_value :: "latex_config \<Rightarrow> path list" where
  "texmfoutput_roots_value cfg =
     (let r1 = (case TEXMF_OUTPUT_DIRECTORY_value cfg of Some d \<Rightarrow> [d] | None \<Rightarrow> [])
      in case TEXMFOUTPUT_value cfg of Some m \<Rightarrow> set_add m r1 | None \<Rightarrow> r1)"

text \<open>The lazily set attributes of every class hold the values above, when they are
  set; \<open>_tex_paranoid_roots_with_resolved\<close> is set on no class.\<close>

definition holds :: "'a option \<Rightarrow> 'a \<Rightarrow> bool" where
  "holds a v = (a = None \<or> a = Some v)"

definition cls_ok :: "latex_config \<Rightarrow> world \<Rightarrow> bool" where
  "cls_ok cfg s =
     ((\<forall>k. holds (attr_tex_cwd s k) (tex_cwd_value cfg))
      \<and> (\<forall>k. holds (attr_TEXMFOUTPUT s k) (TEXMFOUTPUT_value cfg))
      \<and> (\<forall>k. holds (attr_TEXMF_OUTPUT_DIRECTORY s k) (TEXMF_OUTPUT_DIRECTORY_value cfg))
      \<and> (\<forall>k. holds (attr_tex_openout_roots s k) (openout_roots_value cfg))
      \<and> (\<forall>k. holds (attr_tex_paranoid_roots s k) (paranoid_roots_value cfg))
      \<and> (\<forall>k. attr_tex_paranoid_roots_with_resolved s k = None)
      \<and> (\<forall>k. holds (attr_tex_texmfoutput_roots s k) (texmfoutput_roots_value cfg)))"

section \<open>The decision rules in the words of the specification\<close>

text \<open>The absolute-access roots: the output directory and the output-fallback
  directory, each when configured.\<close>

definition absolute_access_roots :: "latex_config \<Rightarrow> path set" where
  "absolute_access_roots cfg =
     (case cfg_TEXMF_OUTPUT_DIRECTORY cfg of None \<Rightarrow> {} | Some t \<Rightarrow> {path_of_str t})
     \<union> (case cfg_TEXMFOUTPUT cfg of None \<Rightarrow> {} | Some t \<Rightarrow> {path_of_str t})"

text \<open>The directory rule of the lexical validator: allow under the anywhere policy; else
  deny a path with a component \<open>..\<close>; else allow an absolute path exactly under one of the
  roots; else (a relative path) allow.\<close>

definition lexical_dir_rule :: "bool \<Rightarrow> path set \<Rightarrow> path \<Rightarrow> decision" where
  "lexical_dir_rule anywhere roots p =
     (if anywhere then (True, None)
      else if \<exists>x \<in> set (comps p). x = ''..'' then (False, Some reason_dotdot)
      else if is_absolute p then
        (if \<exists>r \<in> roots. is_relative_to p r then (True, None)
         else (False, Some reason_location))
      else (True, None))"

definition lexical_readable_file_rule :: "latex_config \<Rightarrow> variant \<Rightarrow> path \<Rightarrow> decision" where
  "lexical_readable_file_rule cfg c p =
     (if \<not> tex_can_read_dotfiles cfg c \<and> startswith (name p) ''.''
      then (False, Some reason_dotfiles)
      else lexical_dir_rule (tex_can_read_anywhere cfg c) (absolute_access_roots cfg) (parent p))"

definition lexical_writable_file_rule :: "latex_config \<Rightarrow> variant \<Rightarrow> path \<Rightarrow> decision" where
  "lexical_writable_file_rule cfg c p =
     (case List.find (\<lambda>ext. endswith (lower (name p)) ext)
             (tex_prohibited_write_file_extensions cfg c) of
        Some ext \<Rightarrow> (False, Some (reason_extension ext))
      | None \<Rightarrow>
          if \<not> tex_can_write_dotfiles cfg c \<and> startswith (name p) ''.''
          then (False, Some reason_dotfiles)
          else lexical_dir_rule (tex_can_write_anywhere cfg c) (absolute_access_roots cfg)
                 (parent p))"

text \<open>The file rules of the resolved validator, given the original and the resolved
  file name and the decision of the directory predicate on the resolved parent.  The
  rule for writing takes the comparison of a file name with a prohibited extension as
  its first argument.\<close>

definition resolved_readable_file_rule :: "bool \<Rightarrow> string \<Rightarrow> string \<Rightarrow> 'a \<Rightarrow> 'a \<Rightarrow> 'a" where
  "resolved_readable_file_rule read_dotfiles original resolved deny_dotfile of_parent =
     (if \<not> read_dotfiles \<and> (startswith original ''.'' \<or> startswith resolved ''.'')
      then deny_dotfile else of_parent)"

definition resolved_writable_file_rule :: "(string \<Rightarrow> string \<Rightarrow> bool) \<Rightarrow> string list \<Rightarrow> bool \<Rightarrow> string \<Rightarrow> string \<Rightarrow> (string \<Rightarrow> 'a) \<Rightarrow> 'a \<Rightarrow> 'a \<Rightarrow> 'a" where
  "resolved_writable_file_rule ends extensions write_dotfiles original resolved deny_extension
       deny_dotfile of_parent =
     (case List.find (\<lambda>ext. ends original ext \<or> ends resolved ext) extensions of
        Some ext \<Rightarrow> deny_extension ext
      | None \<Rightarrow>
          if \<not> write_dotfiles \<and> (startswith original ''.'' \<or> startswith resolved ''.'')
          then deny_dotfile else of_parent)"

text \<open>The comparison in the words of the specification: a file name ends
  case-insensitively with an extension when it ends with it once the case of the letters
  of both is ignored.\<close>

definition ends_case_insensitively :: "string \<Rightarrow> string \<Rightarrow> bool" where
  "ends_case_insensitively file_name ext = endswith (lower file_name) (lower ext)"

text \<open>The comparison of the source (\<open>name_lower.endswith(ext)\<close>): the file name in lower
  case, the extension as it is configured.\<close>

definition lower_name_endswith :: "string \<Rightarrow> string \<Rightarrow> bool" where
  "lower_name_endswith file_name ext = endswith (lower file_name) ext"

text \<open>The cached decisions of the classes that run the lexical predicates agree with
  the rules.\<close>

definition lexical_caches_ok :: "latex_config \<Rightarrow> world \<Rightarrow> bool" where
  "lexical_caches_ok cfg s =
     (\<forall>c p. predicates_of c = String_predicates \<longrightarrow>
        holds (tex_readable_dir_cache s (c, p))
          (lexical_dir_rule (tex_can_read_anywhere cfg c) (absolute_access_roots cfg) p)
        \<and> holds (tex_readable_file_cache s (c, p)) (lexical_readable_file_rule cfg c p)
        \<and> holds (tex_writable_dir_cache s (c, p))
          (lexical_dir_rule (tex_can_write_anywhere cfg c) (absolute_access_roots cfg) p)
        \<and> holds (tex_writable_file_cache s (c, p)) (lexical_writable_file_rule cfg c p))"

text \<open>The reasons the code can give, and the shape of a decision.\<close>

definition reason_templates :: "latex_config \<Rightarrow> string set" where
  "reason_templates cfg =
     {reason_dotdot, reason_location, reason_dotfiles}
     \<union> reason_extension ` set (cfg_prohibited_write_file_extensions cfg)"

definition decision_ok :: "latex_config \<Rightarrow> decision \<Rightarrow> bool" where
  "decision_ok cfg d =
     (d = (True, None) \<or> (\<exists>r \<in> reason_templates cfg. d = (False, Some r)))"

definition cached_decisions_ok :: "latex_config \<Rightarrow> world \<Rightarrow> bool" where
  "cached_decisions_ok cfg s =
     (\<forall>k d. (tex_readable_dir_cache s k = Some d \<longrightarrow> decision_ok cfg d)
          \<and> (tex_readable_file_cache s k = Some d \<longrightarrow> decision_ok cfg d)
          \<and> (tex_writable_dir_cache s k = Some d \<longrightarrow> decision_ok cfg d)
          \<and> (tex_writable_file_cache s k = Some d \<longrightarrow> decision_ok cfg d))"

text \<open>The templates as section 6 of the specification writes them: the first has
  \<open>..\<close> between single quotes (character \<open>0x27\<close>).\<close>

definition spec_reason_dotdot :: string where
  "spec_reason_dotdot =
     ''security settings do not permit paths containing '' @ [CHR 0x27] @ ''..'' @ [CHR 0x27]"

definition spec_reason_templates :: "string set" where
  "spec_reason_templates =
     {spec_reason_dotdot, reason_location, reason_dotfiles} \<union> range reason_extension"

section \<open>The package's import statement\<close>

text \<open>
  \<open>__init__.py\<close> runs \<open>from ._restricted_pathlib import (...)\<close>.  Python binds each
  listed name to the attribute of that name of the module and raises \<open>ImportError\<close> at
  the first name the module does not define.  \<open>restricted_pathlib_names\<close> are the names
  the module \<open>_restricted_pathlib\<close> binds at top level, \<open>init_imports\<close> the names the
  statement lists, both in source order.
\<close>

definition restricted_pathlib_names :: "string list" where
  "restricted_pathlib_names =
     [''annotations'', ''os'', ''AbstractContextManager'', ''Literal'', ''Self'',
      ''PathSecurityError'', ''AnyPath'', ''latex_config'', ''_CdTeXCwd'', ''_cd_tex_cwd'',
      ''BaseRestrictedPath'', ''StringRestrictedPath'', ''SafeStringRestrictedPath'',
      ''SafeWriteStringRestrictedPath'', ''ResolvedRestrictedPath'',
      ''SafeResolvedRestrictedPath'', ''SafeWriteResolvedRestrictedPath'']"

definition init_imports :: "string list" where
  "init_imports =
     [''BaseRestrictedPath'', ''StringRestrictedPath'', ''SafeStringRestrictedPath'',
      ''SafeOutputStringRestrictedPath'', ''ResolvedRestrictedPath'',
      ''SafeResolvedRestrictedPath'', ''SafeOutputResolvedRestrictedPath'']"

datatype import_error = ImportError string

fun import_from :: "string list \<Rightarrow> string list \<Rightarrow> import_error + string list" where
  "import_from defined [] = Inr []"
| "import_from defined (n # ns) =
     (if n \<in> set defined then
        (case import_from defined ns of Inl e \<Rightarrow> Inl e | Inr bound \<Rightarrow> Inr (n # bound))
      else Inl (ImportError n))"

text \<open>The names of the package after \<open>import latexrestricted\<close>, or the error of the
  import.\<close>

definition import_latexrestricted :: "import_error + string list" where
  "import_latexrestricted = import_from restricted_pathlib_names init_imports"

text \<open>The class of the module for a strategy (resolved or lexical) and a strictness
  (strict or ambient), and the configuration with the four policy booleans false.\<close>

fun variant_for :: "bool \<Rightarrow> bool \<Rightarrow> variant" where
  "variant_for False False = StringRestrictedPath"
| "variant_for False True = SafeStringRestrictedPath"
| "variant_for True False = ResolvedRestrictedPath"
| "variant_for True True = SafeResolvedRestrictedPath"

definition strict_config :: "latex_config \<Rightarrow> latex_config" where
  "strict_config cfg =
     cfg\<lparr>cfg_can_read_anywhere := False, cfg_can_read_dotfiles := False,
         cfg_can_write_anywhere := False, cfg_can_write_dotfiles := False\<rparr>"

section \<open>Notions used in the proofs\<close>

subsection \<open>Independence of the current directory\<close>

text \<open>A computation is independent of the current directory of the process and of the
  stack of \<open>_cd_tex_cwd\<close> when it carries any value of the two through unchanged.  Run
  inside \<open>with _cd_tex_cwd\<close>, such a computation finds the stack non-empty at the exit,
  and the context restores both.\<close>

definition cwd_free :: "(world \<Rightarrow> 'a \<times> world) \<Rightarrow> bool" where
  "cwd_free body =
     (\<forall>s st d. body (s\<lparr>os_cwd := d, cwd_stack := st\<rparr>)
        = (case body s of (r, s') \<Rightarrow> (r, s'\<lparr>os_cwd := d, cwd_stack := st\<rparr>)))"

definition at_cwd :: "string \<Rightarrow> string option list \<Rightarrow> world \<Rightarrow> world" where
  "at_cwd d st s = s\<lparr>os_cwd := d, cwd_stack := st\<rparr>"

subsection \<open>What a call may change\<close>

text \<open>\<open>only_attrs s s'\<close>: the two states differ in the class attributes at most.
  \<open>keeps_caches s s'\<close>: in addition the number of calls of \<open>resolve\<close> may have grown.\<close>

definition only_attrs :: "world \<Rightarrow> world \<Rightarrow> bool" where
  "only_attrs s s' =
     (tex_readable_dir_cache s' = tex_readable_dir_cache s
      \<and> tex_readable_file_cache s' = tex_readable_file_cache s
      \<and> tex_writable_dir_cache s' = tex_writable_dir_cache s
      \<and> tex_writable_file_cache s' = tex_writable_file_cache s
      \<and> os_cwd s' = os_cwd s \<and> cwd_stack s' = cwd_stack s
      \<and> resolve_calls s' = resolve_calls s \<and> fs_log s' = fs_log s)"

definition keeps_caches :: "world \<Rightarrow> world \<Rightarrow> bool" where
  "keeps_caches s s' =
     (tex_readable_dir_cache s' = tex_readable_dir_cache s
      \<and> tex_readable_file_cache s' = tex_readable_file_cache s
      \<and> tex_writable_dir_cache s' = tex_writable_dir_cache s
      \<and> tex_writable_file_cache s' = tex_writable_file_cache s
      \<and> os_cwd s' = os_cwd s \<and> cwd_stack s' = cwd_stack s
      \<and> resolve_calls s \<le> resolve_calls s' \<and> fs_log s' = fs_log s)"

text \<open>\<open>frame rd rf wd wfl s s'\<close>: a cache whose flag is set may have gained entries and
  has lost or changed none; a cache whose flag is not set is as before; the current
  directory and the log of file-system calls are as before.\<close>

definition frame :: "bool \<Rightarrow> bool \<Rightarrow> bool \<Rightarrow> bool \<Rightarrow> world \<Rightarrow> world \<Rightarrow> bool" where
  "frame rd rf wd wfl s s' =
     ((if rd then tex_readable_dir_cache s \<subseteq>\<^sub>m tex_readable_dir_cache s'
       else tex_readable_dir_cache s' = tex_readable_dir_cache s)
      \<and> (if rf then tex_readable_file_cache s \<subseteq>\<^sub>m tex_readable_file_cache s'
          else tex_readable_file_cache s' = tex_readable_file_cache s)
      \<and> (if wd then tex_writable_dir_cache s \<subseteq>\<^sub>m tex_writable_dir_cache s'
          else tex_writable_dir_cache s' = tex_writable_dir_cache s)
      \<and> (if wfl then tex_writable_file_cache s \<subseteq>\<^sub>m tex_writable_file_cache s'
          else tex_writable_file_cache s' = tex_writable_file_cache s)
      \<and> os_cwd s' = os_cwd s \<and> cwd_stack s' = cwd_stack s
      \<and> resolve_calls s \<le> resolve_calls s' \<and> fs_log s' = fs_log s)"

text \<open>\<open>caches_grow s s'\<close>: every cached decision of \<open>s\<close> is a cached decision of \<open>s'\<close>.\<close>

definition caches_grow :: "world \<Rightarrow> world \<Rightarrow> bool" where
  "caches_grow s s' =
     (tex_readable_dir_cache s \<subseteq>\<^sub>m tex_readable_dir_cache s'
      \<and> tex_readable_file_cache s \<subseteq>\<^sub>m tex_readable_file_cache s'
      \<and> tex_writable_dir_cache s \<subseteq>\<^sub>m tex_writable_dir_cache s'
      \<and> tex_writable_file_cache s \<subseteq>\<^sub>m tex_writable_file_cache s')"

subsection \<open>The invariant of a run\<close>

definition inv :: "latex_config \<Rightarrow> world \<Rightarrow> bool" where
  "inv cfg s = (cls_ok cfg s \<and> lexical_caches_ok cfg s \<and> cached_decisions_ok cfg s)"

text \<open>The map of a lazily set attribute after the method of the attribute has run for
  class \<open>c\<close>: the class gets the entry unless the attribute was found.\<close>

definition ensure :: "variant \<Rightarrow> 'a \<Rightarrow> (variant \<rightharpoonup> 'a) \<Rightarrow> (variant \<rightharpoonup> 'a)" where
  "ensure c v m = (if lookup_mro m (mro c) = None then m(c \<mapsto> v) else m)"

subsection \<open>The last part of \<open>rename\<close> and \<open>replace\<close>\<close>

text \<open>What \<open>rename\<close> and \<open>replace\<close> do after both predicates have allowed, with the two
  calls of \<open>resolve\<close> written as their effect on the state.\<close>

definition move :: "(path \<Rightarrow> path \<Rightarrow> fs_call) \<Rightarrow> filesystem \<Rightarrow> latex_config \<Rightarrow> variant \<Rightarrow> path \<Rightarrow> path \<Rightarrow> world \<Rightarrow> (error + unit) \<times> world" where
  "move call fs cfg c p target s =
     (case access_file_system_with_resolved_paths c of
        None \<Rightarrow> (Inl AttributeError, s)
      | Some with_resolved \<Rightarrow>
          if with_resolved \<and> \<not> (fs_is_resolved fs p \<and> fs_is_resolved fs target) then
            (Inr (), s\<lparr>resolve_calls := Suc (Suc (resolve_calls s)),
                       fs_log := fs_log s @ [call (fs_resolve fs p) (fs_resolve fs target)]\<rparr>)
          else (Inr (), s\<lparr>fs_log := fs_log s @ [call p target]\<rparr>))"

subsection \<open>Other configurations and the names of the classes\<close>

text \<open>The configuration with other write settings.\<close>

definition with_write_policy :: "bool \<Rightarrow> bool \<Rightarrow> string list \<Rightarrow> latex_config \<Rightarrow> latex_config" where
  "with_write_policy anywhere dotfiles extensions cfg =
     cfg\<lparr>cfg_can_write_anywhere := anywhere, cfg_can_write_dotfiles := dotfiles,
         cfg_prohibited_write_file_extensions := extensions\<rparr>"

text \<open>The name of each class in the source.\<close>

fun class_name :: "variant \<Rightarrow> string" where
  "class_name BaseRestrictedPath = ''BaseRestrictedPath''"
| "class_name StringRestrictedPath = ''StringRestrictedPath''"
| "class_name SafeStringRestrictedPath = ''SafeStringRestrictedPath''"
| "class_name SafeWriteStringRestrictedPath = ''SafeWriteStringRestrictedPath''"
| "class_name ResolvedRestrictedPath = ''ResolvedRestrictedPath''"
| "class_name SafeResolvedRestrictedPath = ''SafeResolvedRestrictedPath''"
| "class_name SafeWriteResolvedRestrictedPath = ''SafeWriteResolvedRestrictedPath''"

section \<open>Example inputs\<close>

definition ex_cfg :: latex_config where
  "ex_cfg =
     \<lparr>cfg_tex_cwd = ''/home/u/doc'', cfg_TEXMFOUTPUT = Some ''/tmp/out'',
      cfg_TEXMF_OUTPUT_DIRECTORY = None,
      cfg_can_read_anywhere = False, cfg_can_read_dotfiles = True,
      cfg_can_write_anywhere = False, cfg_can_write_dotfiles = False,
      cfg_prohibited_write_file_extensions = [''.bat'', ''.exe'']\<rparr>"

text \<open>A file system without links: a relative path resolves under the working
  directory of \<open>ex_cfg\<close>.\<close>

definition ex_fs :: filesystem where
  "ex_fs =
     \<lparr>fs_resolve = (\<lambda>p. if is_absolute p then p
                         else \<lparr>is_absolute = True, comps = [''home'', ''u'', ''doc''] @ comps p\<rparr>),
      fs_is_resolved = is_absolute\<rparr>"

text \<open>A second file system, in which every path resolves into \<open>/etc\<close>.\<close>

definition ex_fs_moved :: filesystem where
  "ex_fs_moved =
     \<lparr>fs_resolve = (\<lambda>p. \<lparr>is_absolute = True, comps = ''etc'' # comps p\<rparr>),
      fs_is_resolved = (\<lambda>p. False)\<rparr>"

definition ex_file :: path where
  "ex_file = \<lparr>is_absolute = False, comps = [''a.tex'']\<rparr>"

text \<open>A file system with two links in the working directory: \<open>notes.txt\<close> leads to
  \<open>.secret\<close> and \<open>out.txt\<close> to \<open>Install.BAT\<close>.\<close>

definition ex_fs_links :: filesystem where
  "ex_fs_links =
     \<lparr>fs_resolve =
        (\<lambda>p. if p = \<lparr>is_absolute = False, comps = [''notes.txt'']\<rparr>
             then \<lparr>is_absolute = True, comps = [''home'', ''u'', ''doc'', ''.secret'']\<rparr>
             else if p = \<lparr>is_absolute = False, comps = [''out.txt'']\<rparr>
             then \<lparr>is_absolute = True, comps = [''home'', ''u'', ''doc'', ''Install.BAT'']\<rparr>
             else fs_resolve ex_fs p),
      fs_is_resolved = is_absolute\<rparr>"

text \<open>The configuration of the example with one prohibited extension, in upper case,
  and a file with that extension.\<close>

definition ex_cfg_upper :: latex_config where
  "ex_cfg_upper = ex_cfg\<lparr>cfg_prohibited_write_file_extensions := [''.BAT'']\<rparr>"

definition ex_payload :: path where
  "ex_payload = \<lparr>is_absolute = False, comps = [''payload.BAT'']\<rparr>"

section \<open>Properties\<close>

subsection \<open>The working-directory context restores the current directory\<close>

lemma cwd_free_keeps:
  assumes "cwd_free body" "body s = (r, s')"
  shows "os_cwd s' = os_cwd s \<and> cwd_stack s' = cwd_stack s"
proof -
  have "body (s\<lparr>os_cwd := os_cwd s, cwd_stack := cwd_stack s\<rparr>)
        = (case body s of (r, s') \<Rightarrow> (r, s'\<lparr>os_cwd := os_cwd s, cwd_stack := cwd_stack s\<rparr>))"
    using assms(1) unfolding cwd_free_def by blast
  then have "(r, s') = (r, s'\<lparr>os_cwd := os_cwd s, cwd_stack := cwd_stack s\<rparr>)"
    using assms(2) by simp
  then have eq: "s'\<lparr>os_cwd := os_cwd s, cwd_stack := cwd_stack s\<rparr> = s'" by simp
  have "os_cwd (s'\<lparr>os_cwd := os_cwd s, cwd_stack := cwd_stack s\<rparr>) = os_cwd s"
       "cwd_stack (s'\<lparr>os_cwd := os_cwd s, cwd_stack := cwd_stack s\<rparr>) = cwd_stack s"
    by simp_all
  then show ?thesis unfolding eq by simp
qed

lemma with_cd_tex_cwd_id:
  assumes "cwd_free body"
  shows "with_cd_tex_cwd cfg body s = body s"
proof -
  obtain r s' where b: "body s = (r, s')" by (cases "body s")
  have k: "os_cwd s' = os_cwd s" "cwd_stack s' = cwd_stack s"
    using cwd_free_keeps[OF assms b] by auto
  have e: "\<And>d st. body (s\<lparr>os_cwd := d, cwd_stack := st\<rparr>) = (r, s'\<lparr>os_cwd := d, cwd_stack := st\<rparr>)"
    using assms b unfolding cwd_free_def by simp
  show ?thesis
  proof (cases "os_cwd s = cfg_tex_cwd cfg")
    case True
    have enter: "cd_enter cfg s = s\<lparr>os_cwd := os_cwd s, cwd_stack := cwd_stack s @ [None]\<rparr>"
      using True by (simp add: cd_enter_def)
    have "body (cd_enter cfg s) = (r, s'\<lparr>os_cwd := os_cwd s, cwd_stack := cwd_stack s @ [None]\<rparr>)"
      unfolding enter by (rule e)
    then show ?thesis using b k by (simp add: with_cd_tex_cwd_def cd_exit_def)
  next
    case False
    have enter: "cd_enter cfg s
                 = s\<lparr>os_cwd := cfg_tex_cwd cfg, cwd_stack := cwd_stack s @ [Some (os_cwd s)]\<rparr>"
      using False by (simp add: cd_enter_def)
    have "body (cd_enter cfg s)
          = (r, s'\<lparr>os_cwd := cfg_tex_cwd cfg, cwd_stack := cwd_stack s @ [Some (os_cwd s)]\<rparr>)"
      unfolding enter by (rule e)
    then show ?thesis using b k by (simp add: with_cd_tex_cwd_def cd_exit_def)
  qed
qed

lemma resolve_eq: "resolve fs cfg p s = (fs_resolve fs p, s\<lparr>resolve_calls := Suc (resolve_calls s)\<rparr>)"
  unfolding resolve_def by (rule trans[OF with_cd_tex_cwd_id]) (simp_all add: cwd_free_def)

lemma at_cwd_sel [simp]:
  "tex_readable_dir_cache (at_cwd d st s) = tex_readable_dir_cache s"
  "tex_readable_file_cache (at_cwd d st s) = tex_readable_file_cache s"
  "tex_writable_dir_cache (at_cwd d st s) = tex_writable_dir_cache s"
  "tex_writable_file_cache (at_cwd d st s) = tex_writable_file_cache s"
  "attr_tex_cwd (at_cwd d st s) = attr_tex_cwd s"
  "attr_TEXMFOUTPUT (at_cwd d st s) = attr_TEXMFOUTPUT s"
  "attr_TEXMF_OUTPUT_DIRECTORY (at_cwd d st s) = attr_TEXMF_OUTPUT_DIRECTORY s"
  "attr_tex_openout_roots (at_cwd d st s) = attr_tex_openout_roots s"
  "attr_tex_paranoid_roots (at_cwd d st s) = attr_tex_paranoid_roots s"
  "attr_tex_paranoid_roots_resolved (at_cwd d st s) = attr_tex_paranoid_roots_resolved s"
  "attr_tex_paranoid_roots_with_resolved (at_cwd d st s) = attr_tex_paranoid_roots_with_resolved s"
  "attr_tex_texmfoutput_roots (at_cwd d st s) = attr_tex_texmfoutput_roots s"
  "resolve_calls (at_cwd d st s) = resolve_calls s"
  "fs_log (at_cwd d st s) = fs_log s"
  "os_cwd (at_cwd d st s) = d"
  "cwd_stack (at_cwd d st s) = st"
  by (simp_all add: at_cwd_def)

lemma at_cwd_upd [simp]:
  "(at_cwd d st s)\<lparr>tex_readable_dir_cache := a\<rparr> = at_cwd d st (s\<lparr>tex_readable_dir_cache := a\<rparr>)"
  "(at_cwd d st s)\<lparr>tex_readable_file_cache := a\<rparr> = at_cwd d st (s\<lparr>tex_readable_file_cache := a\<rparr>)"
  "(at_cwd d st s)\<lparr>tex_writable_dir_cache := a\<rparr> = at_cwd d st (s\<lparr>tex_writable_dir_cache := a\<rparr>)"
  "(at_cwd d st s)\<lparr>tex_writable_file_cache := a\<rparr> = at_cwd d st (s\<lparr>tex_writable_file_cache := a\<rparr>)"
  "(at_cwd d st s)\<lparr>attr_tex_cwd := m1\<rparr> = at_cwd d st (s\<lparr>attr_tex_cwd := m1\<rparr>)"
  "(at_cwd d st s)\<lparr>attr_TEXMFOUTPUT := m2\<rparr> = at_cwd d st (s\<lparr>attr_TEXMFOUTPUT := m2\<rparr>)"
  "(at_cwd d st s)\<lparr>attr_TEXMF_OUTPUT_DIRECTORY := m2\<rparr>
     = at_cwd d st (s\<lparr>attr_TEXMF_OUTPUT_DIRECTORY := m2\<rparr>)"
  "(at_cwd d st s)\<lparr>attr_tex_openout_roots := m3\<rparr>
     = at_cwd d st (s\<lparr>attr_tex_openout_roots := m3\<rparr>)"
  "(at_cwd d st s)\<lparr>attr_tex_paranoid_roots := m3\<rparr>
     = at_cwd d st (s\<lparr>attr_tex_paranoid_roots := m3\<rparr>)"
  "(at_cwd d st s)\<lparr>attr_tex_paranoid_roots_resolved := m3\<rparr>
     = at_cwd d st (s\<lparr>attr_tex_paranoid_roots_resolved := m3\<rparr>)"
  "(at_cwd d st s)\<lparr>attr_tex_paranoid_roots_with_resolved := m3\<rparr>
     = at_cwd d st (s\<lparr>attr_tex_paranoid_roots_with_resolved := m3\<rparr>)"
  "(at_cwd d st s)\<lparr>attr_tex_texmfoutput_roots := m3\<rparr>
     = at_cwd d st (s\<lparr>attr_tex_texmfoutput_roots := m3\<rparr>)"
  "(at_cwd d st s)\<lparr>resolve_calls := n\<rparr> = at_cwd d st (s\<lparr>resolve_calls := n\<rparr>)"
  "(at_cwd d st s)\<lparr>fs_log := l\<rparr> = at_cwd d st (s\<lparr>fs_log := l\<rparr>)"
  by (simp_all add: at_cwd_def)

lemma cwd_freeI: "(\<And>s d st. body (at_cwd d st s) = apsnd (at_cwd d st) (body s)) \<Longrightarrow> cwd_free body"
  by (auto simp: cwd_free_def at_cwd_def apsnd_def map_prod_def split: prod.splits)

lemma tex_cwd_at_cwd [simp]: "tex_cwd cfg c (at_cwd d st s) = apsnd (at_cwd d st) (tex_cwd cfg c s)"
  by (simp add: tex_cwd_def Let_def split: sum.splits)

lemma TEXMFOUTPUT_at_cwd [simp]: "TEXMFOUTPUT cfg c (at_cwd d st s) = apsnd (at_cwd d st) (TEXMFOUTPUT cfg c s)"
  by (simp add: TEXMFOUTPUT_def Let_def split: sum.splits)

lemma TEXMF_OUTPUT_DIRECTORY_at_cwd [simp]:
  "TEXMF_OUTPUT_DIRECTORY cfg c (at_cwd d st s) = apsnd (at_cwd d st) (TEXMF_OUTPUT_DIRECTORY cfg c s)"
  by (simp add: TEXMF_OUTPUT_DIRECTORY_def Let_def split: sum.splits)

lemma tex_texmfoutput_roots_at_cwd [simp]:
  "tex_texmfoutput_roots cfg c (at_cwd d st s) = apsnd (at_cwd d st) (tex_texmfoutput_roots cfg c s)"
  by (simp add: tex_texmfoutput_roots_def Let_def split: sum.splits prod.splits option.splits)

lemma tex_paranoid_roots_at_cwd [simp]:
  "tex_paranoid_roots cfg c (at_cwd d st s) = apsnd (at_cwd d st) (tex_paranoid_roots cfg c s)"
  by (simp add: tex_paranoid_roots_def Let_def split: sum.splits prod.splits option.splits)

lemma tex_openout_roots_at_cwd [simp]:
  "tex_openout_roots cfg c (at_cwd d st s) = apsnd (at_cwd d st) (tex_openout_roots cfg c s)"
  by (simp add: tex_openout_roots_def Let_def split: sum.splits prod.splits option.splits)

lemma resolve_at_cwd [simp]: "resolve fs cfg p (at_cwd d st s) = apsnd (at_cwd d st) (resolve fs cfg p s)"
  by (simp add: resolve_eq)

lemma resolve_all_at_cwd [simp]:
  "resolve_all fs cfg ps acc (at_cwd d st s) = apsnd (at_cwd d st) (resolve_all fs cfg ps acc s)"
  by (induction ps arbitrary: acc s) (simp_all add: resolve_eq)

lemma tex_paranoid_roots_resolved_at_cwd [simp]:
  "tex_paranoid_roots_resolved fs cfg c (at_cwd d st s) = apsnd (at_cwd d st) (tex_paranoid_roots_resolved fs cfg c s)"
  by (simp add: tex_paranoid_roots_resolved_def split: sum.splits prod.splits)

lemma String_tex_readable_dir_at_cwd [simp]:
  "String_tex_readable_dir cfg c p (at_cwd d st s) = apsnd (at_cwd d st) (String_tex_readable_dir cfg c p s)"
  by (auto simp: String_tex_readable_dir_def put_readable_dir_def split: option.splits prod.splits)

lemma String_tex_writable_dir_at_cwd [simp]:
  "String_tex_writable_dir cfg c p (at_cwd d st s) = apsnd (at_cwd d st) (String_tex_writable_dir cfg c p s)"
  by (auto simp: String_tex_writable_dir_def put_writable_dir_def split: option.splits prod.splits)

lemma String_tex_readable_file_at_cwd [simp]:
  "String_tex_readable_file cfg c p (at_cwd d st s) = apsnd (at_cwd d st) (String_tex_readable_file cfg c p s)"
  by (auto simp: String_tex_readable_file_def put_readable_file_def split: option.splits prod.splits)

lemma String_tex_writable_file_at_cwd [simp]:
  "String_tex_writable_file cfg c p (at_cwd d st s) = apsnd (at_cwd d st) (String_tex_writable_file cfg c p s)"
  by (auto simp: String_tex_writable_file_def put_writable_file_def Let_def split: option.splits prod.splits)

lemma Resolved_tex_readable_dir_at_cwd [simp]:
  "Resolved_tex_readable_dir fs cfg c p (at_cwd d st s) = apsnd (at_cwd d st) (Resolved_tex_readable_dir fs cfg c p s)"
  by (auto simp: Resolved_tex_readable_dir_def put_readable_dir_def resolve_eq split: option.splits prod.splits)

lemma Resolved_tex_writable_dir_at_cwd [simp]:
  "Resolved_tex_writable_dir fs cfg c p (at_cwd d st s) = apsnd (at_cwd d st) (Resolved_tex_writable_dir fs cfg c p s)"
  by (auto simp: Resolved_tex_writable_dir_def put_writable_dir_def resolve_eq split: option.splits prod.splits)

lemma Resolved_tex_readable_file_at_cwd [simp]:
  "Resolved_tex_readable_file fs cfg c p (at_cwd d st s) = apsnd (at_cwd d st) (Resolved_tex_readable_file fs cfg c p s)"
  by (auto simp: Resolved_tex_readable_file_def put_readable_file_def resolve_eq split: option.splits prod.splits)

lemma Resolved_tex_writable_file_at_cwd [simp]:
  "Resolved_tex_writable_file fs cfg c p (at_cwd d st s) = apsnd (at_cwd d st) (Resolved_tex_writable_file fs cfg c p s)"
  by (auto simp: Resolved_tex_writable_file_def put_writable_file_def resolve_eq Let_def split: option.splits prod.splits)

lemma returned_apsnd [simp]: "returned (apsnd f r) = apsnd f (returned r)"
  by (cases r) (simp add: returned_def)

lemma tex_readable_dir_at_cwd [simp]:
  "tex_readable_dir fs cfg c p (at_cwd d st s) = apsnd (at_cwd d st) (tex_readable_dir fs cfg c p s)"
  by (simp add: tex_readable_dir_def split: predicates.splits)

lemma tex_readable_file_at_cwd [simp]:
  "tex_readable_file fs cfg c p (at_cwd d st s) = apsnd (at_cwd d st) (tex_readable_file fs cfg c p s)"
  by (simp add: tex_readable_file_def split: predicates.splits)

lemma tex_writable_dir_at_cwd [simp]:
  "tex_writable_dir fs cfg c p (at_cwd d st s) = apsnd (at_cwd d st) (tex_writable_dir fs cfg c p s)"
  by (simp add: tex_writable_dir_def split: predicates.splits)

lemma tex_writable_file_at_cwd [simp]:
  "tex_writable_file fs cfg c p (at_cwd d st s) = apsnd (at_cwd d st) (tex_writable_file fs cfg c p s)"
  by (simp add: tex_writable_file_def split: predicates.splits)

lemma checked_at_cwd [simp]:
  "checked (apsnd (at_cwd d st) v) fs cfg c p what call = apsnd (at_cwd d st) (checked v fs cfg c p what call)"
  by (auto simp: checked_def resolve_eq split: prod.splits sum.splits option.splits)

lemma mkdir_eq:
  "mkdir fs cfg c p s = checked (tex_writable_dir fs cfg c p s) fs cfg c p ''Cannot create directory'' Fs_mkdir"
  unfolding mkdir_def by (rule trans[OF with_cd_tex_cwd_id]) (auto intro!: cwd_freeI)

lemma open_path_eq:
  "open_path fs cfg c p mode s =
     (if CHR ''r'' \<in> set mode then
         checked (tex_readable_file fs cfg c p s) fs cfg c p ''Cannot read file'' (\<lambda>q. Fs_open q mode)
       else if \<exists>char \<in> set ''wxa''. char \<in> set mode then
         checked (tex_writable_file fs cfg c p s) fs cfg c p ''Cannot write file'' (\<lambda>q. Fs_open q mode)
       else (Inl NotImplementedError, s))"
  unfolding open_path_def by (rule trans[OF with_cd_tex_cwd_id]) (auto intro!: cwd_freeI)

subsection \<open>Importing the package\<close>

text \<open>
  C9.  Every combination of strategy and strictness should be constructible from the
  package.  Importing the package runs its import statement, which lists
  \<open>SafeOutputStringRestrictedPath\<close> and \<open>SafeOutputResolvedRestrictedPath\<close>; the module
  defines \<open>SafeWriteStringRestrictedPath\<close> and \<open>SafeWriteResolvedRestrictedPath\<close> instead,
  so the import raises \<open>ImportError\<close> at the first of the two names and the package
  provides no class at all.
\<close>

theorem import_latexrestricted_fails:
  "import_latexrestricted = Inl (ImportError ''SafeOutputStringRestrictedPath'')"
  by (simp add: import_latexrestricted_def restricted_pathlib_names_def init_imports_def)

subsection \<open>The root methods return the configured directories\<close>

lemma holds_simps [simp]: "holds None v" "holds (Some x) v = (x = v)"
  by (auto simp: holds_def)

lemma lookup_mro_holds:
  "\<forall>k. holds (attr k) v \<Longrightarrow> holds (lookup_mro attr ks) v"
proof (induction ks)
  case Nil
  then show ?case by simp
next
  case (Cons k ks)
  have "holds (attr k) v" using Cons.prems by blast
  then show ?case using Cons.IH[OF Cons.prems] by (cases "attr k") auto
qed

lemma lookup_mro_None: "\<forall>k. attr k = None \<Longrightarrow> lookup_mro attr ks = None"
  by (induction ks) auto

lemma class_getattr_cases:
  assumes "\<forall>k. holds (attr k) v"
  shows "class_getattr attr c = Inr v \<or> class_getattr attr c = Inl AttributeError"
  using lookup_mro_holds[OF assms, where ks="mro c"]
  by (cases "lookup_mro attr (mro c)") (auto simp: class_getattr_def)

lemma holds_ensure [simp]: "\<forall>k. holds (m k) v \<Longrightarrow> holds (ensure c v m k) v"
  by (simp add: ensure_def)

lemma tex_cwd_eq:
  assumes "\<forall>k. holds (attr_tex_cwd s k) (tex_cwd_value cfg)"
  shows "tex_cwd cfg c s
         = (tex_cwd_value cfg, s\<lparr>attr_tex_cwd := ensure c (tex_cwd_value cfg) (attr_tex_cwd s)\<rparr>)"
  using lookup_mro_holds[OF assms, where ks="mro c"]
  by (cases "lookup_mro (attr_tex_cwd s) (mro c)")
     (auto simp: tex_cwd_def class_getattr_def ensure_def Let_def tex_cwd_value_def)

lemma TEXMFOUTPUT_eq:
  assumes "\<forall>k. holds (attr_TEXMFOUTPUT s k) (TEXMFOUTPUT_value cfg)"
  shows "TEXMFOUTPUT cfg c s
         = (TEXMFOUTPUT_value cfg,
            s\<lparr>attr_TEXMFOUTPUT := ensure c (TEXMFOUTPUT_value cfg) (attr_TEXMFOUTPUT s)\<rparr>)"
  using lookup_mro_holds[OF assms, where ks="mro c"]
  by (cases "lookup_mro (attr_TEXMFOUTPUT s) (mro c)")
     (auto simp: TEXMFOUTPUT_def class_getattr_def ensure_def Let_def TEXMFOUTPUT_value_def
           split: option.splits)

lemma TEXMF_OUTPUT_DIRECTORY_eq:
  assumes "\<forall>k. holds (attr_TEXMF_OUTPUT_DIRECTORY s k) (TEXMF_OUTPUT_DIRECTORY_value cfg)"
  shows "TEXMF_OUTPUT_DIRECTORY cfg c s
         = (TEXMF_OUTPUT_DIRECTORY_value cfg,
            s\<lparr>attr_TEXMF_OUTPUT_DIRECTORY :=
                 ensure c (TEXMF_OUTPUT_DIRECTORY_value cfg) (attr_TEXMF_OUTPUT_DIRECTORY s)\<rparr>)"
  using lookup_mro_holds[OF assms, where ks="mro c"]
  by (cases "lookup_mro (attr_TEXMF_OUTPUT_DIRECTORY s) (mro c)")
     (auto simp: TEXMF_OUTPUT_DIRECTORY_def class_getattr_def ensure_def Let_def
           TEXMF_OUTPUT_DIRECTORY_value_def split: option.splits)

lemma cls_okD:
  assumes "cls_ok cfg s"
  shows "\<forall>k. holds (attr_tex_cwd s k) (tex_cwd_value cfg)"
    "\<forall>k. holds (attr_TEXMFOUTPUT s k) (TEXMFOUTPUT_value cfg)"
    "\<forall>k. holds (attr_TEXMF_OUTPUT_DIRECTORY s k) (TEXMF_OUTPUT_DIRECTORY_value cfg)"
    "\<forall>k. holds (attr_tex_openout_roots s k) (openout_roots_value cfg)"
    "\<forall>k. holds (attr_tex_paranoid_roots s k) (paranoid_roots_value cfg)"
    "\<forall>k. attr_tex_paranoid_roots_with_resolved s k = None"
    "\<forall>k. holds (attr_tex_texmfoutput_roots s k) (texmfoutput_roots_value cfg)"
  using assms by (simp_all add: cls_ok_def)

lemma tex_cwd_ok:
  assumes "cls_ok cfg s" "tex_cwd cfg c s = (r, s')"
  shows "r = tex_cwd_value cfg \<and> cls_ok cfg s' \<and> only_attrs s s'"
  using assms(2) cls_okD[OF assms(1)]
  by (auto simp: tex_cwd_eq cls_ok_def only_attrs_def)

lemma TEXMFOUTPUT_ok:
  assumes "cls_ok cfg s" "TEXMFOUTPUT cfg c s = (r, s')"
  shows "r = TEXMFOUTPUT_value cfg \<and> cls_ok cfg s' \<and> only_attrs s s'"
  using assms(2) cls_okD[OF assms(1)]
  by (auto simp: TEXMFOUTPUT_eq cls_ok_def only_attrs_def)

lemma TEXMF_OUTPUT_DIRECTORY_ok:
  assumes "cls_ok cfg s" "TEXMF_OUTPUT_DIRECTORY cfg c s = (r, s')"
  shows "r = TEXMF_OUTPUT_DIRECTORY_value cfg \<and> cls_ok cfg s' \<and> only_attrs s s'"
  using assms(2) cls_okD[OF assms(1)]
  by (auto simp: TEXMF_OUTPUT_DIRECTORY_eq cls_ok_def only_attrs_def)

lemma tex_openout_roots_ok:
  assumes "cls_ok cfg s" "tex_openout_roots cfg c s = (r, s')"
  shows "r = openout_roots_value cfg \<and> cls_ok cfg s' \<and> only_attrs s s'"
proof -
  note d = cls_okD[OF assms(1)]
  from class_getattr_cases[OF d(4), where c=c] show ?thesis
  proof
    assume "class_getattr (attr_tex_openout_roots s) c = Inr (openout_roots_value cfg)"
    then show ?thesis using assms by (auto simp: tex_openout_roots_def only_attrs_def)
  next
    assume "class_getattr (attr_tex_openout_roots s) c = Inl AttributeError"
    then show ?thesis using assms(2) d
      by (auto simp: tex_openout_roots_def Let_def tex_cwd_eq TEXMFOUTPUT_eq
            TEXMF_OUTPUT_DIRECTORY_eq openout_roots_value_def cls_ok_def only_attrs_def
            split: option.splits if_splits)
  qed
qed

lemma tex_paranoid_roots_ok:
  assumes "cls_ok cfg s" "tex_paranoid_roots cfg c s = (r, s')"
  shows "r = paranoid_roots_value cfg \<and> cls_ok cfg s' \<and> only_attrs s s'"
proof -
  note d = cls_okD[OF assms(1)]
  from class_getattr_cases[OF d(5), where c=c] show ?thesis
  proof
    assume "class_getattr (attr_tex_paranoid_roots s) c = Inr (paranoid_roots_value cfg)"
    then show ?thesis using assms by (auto simp: tex_paranoid_roots_def only_attrs_def)
  next
    assume "class_getattr (attr_tex_paranoid_roots s) c = Inl AttributeError"
    then show ?thesis using assms(2) d
      by (auto simp: tex_paranoid_roots_def Let_def tex_cwd_eq TEXMFOUTPUT_eq
            TEXMF_OUTPUT_DIRECTORY_eq paranoid_roots_value_def cls_ok_def only_attrs_def
            set_add_def split: option.splits if_splits)
  qed
qed

lemma tex_texmfoutput_roots_ok:
  assumes "cls_ok cfg s" "tex_texmfoutput_roots cfg c s = (r, s')"
  shows "r = texmfoutput_roots_value cfg \<and> cls_ok cfg s' \<and> only_attrs s s'"
proof -
  note d = cls_okD[OF assms(1)]
  from class_getattr_cases[OF d(7), where c=c] show ?thesis
  proof
    assume "class_getattr (attr_tex_texmfoutput_roots s) c = Inr (texmfoutput_roots_value cfg)"
    then show ?thesis using assms by (auto simp: tex_texmfoutput_roots_def only_attrs_def)
  next
    assume "class_getattr (attr_tex_texmfoutput_roots s) c = Inl AttributeError"
    then show ?thesis using assms(2) d
      by (auto simp: tex_texmfoutput_roots_def Let_def TEXMFOUTPUT_eq
            TEXMF_OUTPUT_DIRECTORY_eq texmfoutput_roots_value_def cls_ok_def only_attrs_def
            set_add_def split: option.splits if_splits)
  qed
qed

lemma resolve_all_eq:
  "resolve_all fs cfg ps acc s
   = (fold (\<lambda>p a. set_add (fs_resolve fs p) a) ps acc,
      s\<lparr>resolve_calls := resolve_calls s + length ps\<rparr>)"
  by (induction ps arbitrary: acc s) (simp_all add: resolve_eq)

lemma only_attrs_keeps: "only_attrs s s' \<Longrightarrow> keeps_caches s s'"
  by (simp add: only_attrs_def keeps_caches_def)

lemma tex_paranoid_roots_resolved_ok:
  assumes "cls_ok cfg s" "tex_paranoid_roots_resolved fs cfg c s = (r, s')"
  shows "cls_ok cfg s' \<and> keeps_caches s s'"
proof (cases "class_getattr (attr_tex_paranoid_roots_resolved s) c")
  case (Inr x)
  then show ?thesis using assms by (auto simp: tex_paranoid_roots_resolved_def keeps_caches_def)
next
  case (Inl e)
  obtain roots s1 where r: "tex_paranoid_roots cfg c s = (roots, s1)"
    by (cases "tex_paranoid_roots cfg c s")
  from tex_paranoid_roots_ok[OF assms(1) r] have "cls_ok cfg s1" "only_attrs s s1" by auto
  then show ?thesis using assms(2) Inl r
    by (auto simp: tex_paranoid_roots_resolved_def resolve_all_eq cls_ok_def only_attrs_def
          keeps_caches_def)
qed

lemma tex_paranoid_roots_with_resolved_eq:
  assumes "cls_ok cfg s"
  shows "tex_paranoid_roots_with_resolved fs cfg c s = (Inl AttributeError, s)"
proof -
  have "lookup_mro (attr_tex_paranoid_roots_with_resolved s) (mro c) = None"
    using cls_okD(6)[OF assms] by (rule lookup_mro_None)
  then show ?thesis
    by (simp add: tex_paranoid_roots_with_resolved_def class_getattr_def)
qed

subsection \<open>What each method leaves unchanged\<close>

lemma tex_cwd_frame: "tex_cwd cfg c s = (r, s') \<Longrightarrow> only_attrs s s'"
  by (auto simp: tex_cwd_def Let_def only_attrs_def split: sum.splits)

lemma TEXMFOUTPUT_frame: "TEXMFOUTPUT cfg c s = (r, s') \<Longrightarrow> only_attrs s s'"
  by (auto simp: TEXMFOUTPUT_def Let_def only_attrs_def split: sum.splits)

lemma TEXMF_OUTPUT_DIRECTORY_frame: "TEXMF_OUTPUT_DIRECTORY cfg c s = (r, s') \<Longrightarrow> only_attrs s s'"
  by (auto simp: TEXMF_OUTPUT_DIRECTORY_def Let_def only_attrs_def split: sum.splits)

lemma tex_openout_roots_frame: "tex_openout_roots cfg c s = (r, s') \<Longrightarrow> only_attrs s s'"
  by (auto simp: tex_openout_roots_def Let_def only_attrs_def
           split: sum.splits prod.splits option.splits if_splits
           dest!: tex_cwd_frame TEXMFOUTPUT_frame TEXMF_OUTPUT_DIRECTORY_frame)

lemma tex_paranoid_roots_frame: "tex_paranoid_roots cfg c s = (r, s') \<Longrightarrow> only_attrs s s'"
  by (auto simp: tex_paranoid_roots_def Let_def only_attrs_def
           split: sum.splits prod.splits option.splits if_splits
           dest!: tex_cwd_frame TEXMFOUTPUT_frame TEXMF_OUTPUT_DIRECTORY_frame)

lemma tex_texmfoutput_roots_frame: "tex_texmfoutput_roots cfg c s = (r, s') \<Longrightarrow> only_attrs s s'"
  by (auto simp: tex_texmfoutput_roots_def Let_def only_attrs_def
           split: sum.splits prod.splits option.splits if_splits
           dest!: tex_cwd_frame TEXMFOUTPUT_frame TEXMF_OUTPUT_DIRECTORY_frame)

lemma tex_paranoid_roots_resolved_frame:
  "tex_paranoid_roots_resolved fs cfg c s = (r, s') \<Longrightarrow> keeps_caches s s'"
  by (auto simp: tex_paranoid_roots_resolved_def resolve_all_eq keeps_caches_def only_attrs_def
           split: sum.splits prod.splits dest!: tex_paranoid_roots_frame)

lemma tex_paranoid_roots_with_resolved_frame:
  "tex_paranoid_roots_with_resolved fs cfg c s = (r, s') \<Longrightarrow> keeps_caches s s'"
  by (auto simp: tex_paranoid_roots_with_resolved_def keeps_caches_def only_attrs_def
           split: sum.splits prod.splits error.splits
           dest!: tex_paranoid_roots_frame tex_paranoid_roots_resolved_frame)

lemma map_le_fresh: "m \<subseteq>\<^sub>m m' \<Longrightarrow> m k = None \<Longrightarrow> m \<subseteq>\<^sub>m m'(k \<mapsto> v)"
  by (auto simp: map_le_def dom_def)

lemma frame_refl [simp]: "frame rd rf wd wfl s s"
  by (simp add: frame_def)

lemma frame_trans:
  "frame rd rf wd wfl s s1 \<Longrightarrow> frame rd rf wd wfl s1 s2 \<Longrightarrow> frame rd rf wd wfl s s2"
  by (auto simp: frame_def intro: map_le_trans split: if_splits)

lemma frame_weaken:
  "frame rd rf wd wfl s s' \<Longrightarrow> (rd \<longrightarrow> rd') \<Longrightarrow> (rf \<longrightarrow> rf') \<Longrightarrow> (wd \<longrightarrow> wd') \<Longrightarrow> (wfl \<longrightarrow> wfl')
   \<Longrightarrow> frame rd' rf' wd' wfl' s s'"
  by (auto simp: frame_def split: if_splits)

lemma keeps_caches_frame: "keeps_caches s s' \<Longrightarrow> frame rd rf wd wfl s s'"
  by (simp add: keeps_caches_def frame_def)

lemma only_attrs_frame: "only_attrs s s' \<Longrightarrow> frame rd rf wd wfl s s'"
  by (simp add: only_attrs_def frame_def)

lemma String_tex_readable_dir_frame:
  "String_tex_readable_dir cfg c p s = (d, s') \<Longrightarrow> frame True False False False s s'"
  by (auto simp: String_tex_readable_dir_def put_readable_dir_def frame_def only_attrs_def
           split: option.splits if_splits prod.splits
           dest!: tex_texmfoutput_roots_frame intro!: map_le_fresh)

lemma String_tex_writable_dir_frame:
  "String_tex_writable_dir cfg c p s = (d, s') \<Longrightarrow> frame False False True False s s'"
  by (auto simp: String_tex_writable_dir_def put_writable_dir_def frame_def only_attrs_def
           split: option.splits if_splits prod.splits
           dest!: tex_texmfoutput_roots_frame intro!: map_le_fresh)

lemma String_tex_readable_file_frame:
  "String_tex_readable_file cfg c p s = (d, s') \<Longrightarrow> frame True True False False s s'"
  by (auto simp: String_tex_readable_file_def put_readable_file_def frame_def
           split: option.splits if_splits prod.splits
           dest!: String_tex_readable_dir_frame intro!: map_le_fresh)

lemma String_tex_writable_file_frame:
  "String_tex_writable_file cfg c p s = (d, s') \<Longrightarrow> frame False False True True s s'"
  by (auto simp: String_tex_writable_file_def put_writable_file_def frame_def Let_def
           split: option.splits if_splits prod.splits
           dest!: String_tex_writable_dir_frame intro!: map_le_fresh)

lemma Resolved_tex_readable_dir_frame:
  "Resolved_tex_readable_dir fs cfg c p s = (d, s') \<Longrightarrow> frame True False False False s s'"
  by (auto simp: Resolved_tex_readable_dir_def put_readable_dir_def frame_def keeps_caches_def
           resolve_eq
           split: option.splits if_splits prod.splits
           dest!: tex_paranoid_roots_resolved_frame intro!: map_le_fresh)

lemma Resolved_tex_writable_dir_frame:
  "Resolved_tex_writable_dir fs cfg c p s = (d, s') \<Longrightarrow> frame False False True False s s'"
  by (auto simp: Resolved_tex_writable_dir_def put_writable_dir_def frame_def keeps_caches_def
           resolve_eq
           split: option.splits if_splits prod.splits
           dest!: tex_paranoid_roots_resolved_frame intro!: map_le_fresh)

lemma Resolved_tex_readable_file_frame:
  "Resolved_tex_readable_file fs cfg c p s = (d, s') \<Longrightarrow> frame True True False False s s'"
  by (auto simp: Resolved_tex_readable_file_def put_readable_file_def frame_def resolve_eq
           split: option.splits if_splits prod.splits
           dest!: Resolved_tex_readable_dir_frame intro!: map_le_fresh)

lemma Resolved_tex_writable_file_frame:
  "Resolved_tex_writable_file fs cfg c p s = (d, s') \<Longrightarrow> frame False False True True s s'"
  by (auto simp: Resolved_tex_writable_file_def put_writable_file_def frame_def resolve_eq Let_def
           split: option.splits if_splits prod.splits
           dest!: Resolved_tex_writable_dir_frame intro!: map_le_fresh)

lemma tex_readable_dir_frame:
  "tex_readable_dir fs cfg c p s = (d, s') \<Longrightarrow> frame True False False False s s'"
  using String_tex_readable_dir_frame[OF prod.collapse[symmetric], where cfg=cfg and c=c and p=p and s=s]
        Resolved_tex_readable_dir_frame[OF prod.collapse[symmetric], where fs=fs and cfg=cfg and c=c and p=p and s=s]
  by (auto simp: tex_readable_dir_def returned_def split: predicates.splits)

lemma tex_readable_file_frame:
  "tex_readable_file fs cfg c p s = (d, s') \<Longrightarrow> frame True True False False s s'"
  using String_tex_readable_file_frame[OF prod.collapse[symmetric], where cfg=cfg and c=c and p=p and s=s]
        Resolved_tex_readable_file_frame[OF prod.collapse[symmetric], where fs=fs and cfg=cfg and c=c and p=p and s=s]
  by (auto simp: tex_readable_file_def returned_def split: predicates.splits)

lemma tex_writable_dir_frame:
  "tex_writable_dir fs cfg c p s = (d, s') \<Longrightarrow> frame False False True False s s'"
  using String_tex_writable_dir_frame[OF prod.collapse[symmetric], where cfg=cfg and c=c and p=p and s=s]
        Resolved_tex_writable_dir_frame[OF prod.collapse[symmetric], where fs=fs and cfg=cfg and c=c and p=p and s=s]
  by (auto simp: tex_writable_dir_def returned_def split: predicates.splits)

lemma tex_writable_file_frame:
  "tex_writable_file fs cfg c p s = (d, s') \<Longrightarrow> frame False False True True s s'"
  using String_tex_writable_file_frame[OF prod.collapse[symmetric], where cfg=cfg and c=c and p=p and s=s]
        Resolved_tex_writable_file_frame[OF prod.collapse[symmetric], where fs=fs and cfg=cfg and c=c and p=p and s=s]
  by (auto simp: tex_writable_file_def returned_def split: predicates.splits)

subsection \<open>Invariants of the caches and of the class attributes\<close>

lemma set_texmfoutput_roots_value:
  "set (texmfoutput_roots_value cfg) = absolute_access_roots cfg"
  by (auto simp: texmfoutput_roots_value_def absolute_access_roots_def Let_def set_add_def
        TEXMF_OUTPUT_DIRECTORY_value_def TEXMFOUTPUT_value_def split: option.splits if_splits)

lemma dotdot_in_parts: "(''..'' \<in> set (parts p)) = (\<exists>x \<in> set (comps p). x = ''..'')"
  by (auto simp: parts_def)

lemma decision_ok_simps [simp]:
  "decision_ok cfg (True, None)"
  "decision_ok cfg (False, Some reason_dotdot)"
  "decision_ok cfg (False, Some reason_location)"
  "decision_ok cfg (False, Some reason_dotfiles)"
  by (simp_all add: decision_ok_def reason_templates_def)

lemma decision_ok_extension:
  "ext \<in> set (cfg_prohibited_write_file_extensions cfg)
   \<Longrightarrow> decision_ok cfg (False, Some (reason_extension ext))"
  by (simp add: decision_ok_def reason_templates_def)

lemma decision_ok_lexical_dir_rule [simp]: "decision_ok cfg (lexical_dir_rule a R p)"
  by (simp add: lexical_dir_rule_def)

lemma find_in_set: "List.find P xs = Some x \<Longrightarrow> x \<in> set xs"
  by (auto simp: find_Some_iff)

lemma decision_ok_lexical_readable_file_rule [simp]:
  "decision_ok cfg (lexical_readable_file_rule cfg c p)"
  by (simp add: lexical_readable_file_rule_def)

lemma decision_ok_lexical_writable_file_rule [simp]:
  "decision_ok cfg (lexical_writable_file_rule cfg c p)"
  by (auto simp: lexical_writable_file_rule_def tex_prohibited_write_file_extensions_def
        split: option.splits intro!: decision_ok_extension dest: find_in_set)

lemma inv_only_attrs: "inv cfg s \<Longrightarrow> cls_ok cfg s' \<Longrightarrow> keeps_caches s s' \<Longrightarrow> inv cfg s'"
  by (simp add: inv_def keeps_caches_def lexical_caches_ok_def cached_decisions_ok_def)

lemma inv_put_readable_dir:
  assumes "inv cfg s" "decision_ok cfg d"
    "predicates_of c = String_predicates \<Longrightarrow>
       d = lexical_dir_rule (tex_can_read_anywhere cfg c) (absolute_access_roots cfg) p"
  shows "inv cfg (s\<lparr>tex_readable_dir_cache := (tex_readable_dir_cache s)(cache_key c p \<mapsto> d)\<rparr>)"
  using assms
  by (auto simp: inv_def cls_ok_def lexical_caches_ok_def cached_decisions_ok_def cache_key_def)

lemma inv_put_writable_dir:
  assumes "inv cfg s" "decision_ok cfg d"
    "predicates_of c = String_predicates \<Longrightarrow>
       d = lexical_dir_rule (tex_can_write_anywhere cfg c) (absolute_access_roots cfg) p"
  shows "inv cfg (s\<lparr>tex_writable_dir_cache := (tex_writable_dir_cache s)(cache_key c p \<mapsto> d)\<rparr>)"
  using assms
  by (auto simp: inv_def cls_ok_def lexical_caches_ok_def cached_decisions_ok_def cache_key_def)

lemma inv_put_readable_file:
  assumes "inv cfg s" "decision_ok cfg d"
    "predicates_of c = String_predicates \<Longrightarrow> d = lexical_readable_file_rule cfg c p"
  shows "inv cfg (s\<lparr>tex_readable_file_cache := (tex_readable_file_cache s)(cache_key c p \<mapsto> d)\<rparr>)"
  using assms
  by (auto simp: inv_def cls_ok_def lexical_caches_ok_def cached_decisions_ok_def cache_key_def)

lemma inv_put_writable_file:
  assumes "inv cfg s" "decision_ok cfg d"
    "predicates_of c = String_predicates \<Longrightarrow> d = lexical_writable_file_rule cfg c p"
  shows "inv cfg (s\<lparr>tex_writable_file_cache := (tex_writable_file_cache s)(cache_key c p \<mapsto> d)\<rparr>)"
  using assms
  by (auto simp: inv_def cls_ok_def lexical_caches_ok_def cached_decisions_ok_def cache_key_def)

lemma inv_cached:
  assumes "inv cfg s"
  shows "tex_readable_dir_cache s k = Some d \<Longrightarrow> decision_ok cfg d"
    "tex_readable_file_cache s k = Some d \<Longrightarrow> decision_ok cfg d"
    "tex_writable_dir_cache s k = Some d \<Longrightarrow> decision_ok cfg d"
    "tex_writable_file_cache s k = Some d \<Longrightarrow> decision_ok cfg d"
  using assms unfolding inv_def cached_decisions_ok_def by blast+

lemma inv_lexical_cached:
  assumes "inv cfg s" "predicates_of c = String_predicates"
  shows "tex_readable_dir_cache s (cache_key c p) = Some d \<Longrightarrow>
           d = lexical_dir_rule (tex_can_read_anywhere cfg c) (absolute_access_roots cfg) p"
    "tex_readable_file_cache s (cache_key c p) = Some d \<Longrightarrow> d = lexical_readable_file_rule cfg c p"
    "tex_writable_dir_cache s (cache_key c p) = Some d \<Longrightarrow>
           d = lexical_dir_rule (tex_can_write_anywhere cfg c) (absolute_access_roots cfg) p"
    "tex_writable_file_cache s (cache_key c p) = Some d \<Longrightarrow> d = lexical_writable_file_rule cfg c p"
proof -
  have h: "holds (tex_readable_dir_cache s (c, p))
          (lexical_dir_rule (tex_can_read_anywhere cfg c) (absolute_access_roots cfg) p)"
    "holds (tex_readable_file_cache s (c, p)) (lexical_readable_file_rule cfg c p)"
    "holds (tex_writable_dir_cache s (c, p))
          (lexical_dir_rule (tex_can_write_anywhere cfg c) (absolute_access_roots cfg) p)"
    "holds (tex_writable_file_cache s (c, p)) (lexical_writable_file_rule cfg c p)"
    using assms unfolding inv_def lexical_caches_ok_def by blast+
  show "tex_readable_dir_cache s (cache_key c p) = Some d \<Longrightarrow>
           d = lexical_dir_rule (tex_can_read_anywhere cfg c) (absolute_access_roots cfg) p"
    "tex_readable_file_cache s (cache_key c p) = Some d \<Longrightarrow> d = lexical_readable_file_rule cfg c p"
    "tex_writable_dir_cache s (cache_key c p) = Some d \<Longrightarrow>
           d = lexical_dir_rule (tex_can_write_anywhere cfg c) (absolute_access_roots cfg) p"
    "tex_writable_file_cache s (cache_key c p) = Some d \<Longrightarrow> d = lexical_writable_file_rule cfg c p"
    using h by (simp_all add: cache_key_def)
qed

lemma String_tex_readable_dir_ok:
  assumes "inv cfg s" "predicates_of c = String_predicates"
    "String_tex_readable_dir cfg c p s = (d, s')"
  shows "d = lexical_dir_rule (tex_can_read_anywhere cfg c) (absolute_access_roots cfg) p
         \<and> inv cfg s'"
proof (cases "tex_readable_dir_cache s (cache_key c p)")
  case (Some d0)
  then show ?thesis using assms inv_lexical_cached(1)[OF assms(1,2) Some]
    by (simp add: String_tex_readable_dir_def)
next
  case None
  obtain roots s1 where r: "tex_texmfoutput_roots cfg c s = (roots, s1)"
    by (cases "tex_texmfoutput_roots cfg c s")
  have c: "cls_ok cfg s" using assms(1) by (simp add: inv_def)
  from tex_texmfoutput_roots_ok[OF c r]
  have r1: "roots = texmfoutput_roots_value cfg" and i1: "inv cfg s1"
    using inv_only_attrs[OF assms(1)] only_attrs_keeps by auto
  have d: "d = lexical_dir_rule (tex_can_read_anywhere cfg c) (absolute_access_roots cfg) p"
    using assms(3) None r r1
    by (auto simp: String_tex_readable_dir_def put_readable_dir_def lexical_dir_rule_def
          dotdot_in_parts set_texmfoutput_roots_value split: if_splits)
  have "s' = s\<lparr>tex_readable_dir_cache := (tex_readable_dir_cache s)(cache_key c p \<mapsto> d)\<rparr>
        \<or> s' = s1\<lparr>tex_readable_dir_cache := (tex_readable_dir_cache s1)(cache_key c p \<mapsto> d)\<rparr>"
    using assms(3) None r
    by (auto simp: String_tex_readable_dir_def put_readable_dir_def split: if_splits)
  then have "inv cfg s'"
    using inv_put_readable_dir[OF assms(1), of d c p] inv_put_readable_dir[OF i1, of d c p] d
    by auto
  then show ?thesis using d by simp
qed

lemma String_tex_writable_dir_ok:
  assumes "inv cfg s" "predicates_of c = String_predicates"
    "String_tex_writable_dir cfg c p s = (d, s')"
  shows "d = lexical_dir_rule (tex_can_write_anywhere cfg c) (absolute_access_roots cfg) p
         \<and> inv cfg s'"
proof (cases "tex_writable_dir_cache s (cache_key c p)")
  case (Some d0)
  then show ?thesis using assms inv_lexical_cached(3)[OF assms(1,2) Some]
    by (simp add: String_tex_writable_dir_def)
next
  case None
  obtain roots s1 where r: "tex_texmfoutput_roots cfg c s = (roots, s1)"
    by (cases "tex_texmfoutput_roots cfg c s")
  have c: "cls_ok cfg s" using assms(1) by (simp add: inv_def)
  from tex_texmfoutput_roots_ok[OF c r]
  have r1: "roots = texmfoutput_roots_value cfg" and i1: "inv cfg s1"
    using inv_only_attrs[OF assms(1)] only_attrs_keeps by auto
  have d: "d = lexical_dir_rule (tex_can_write_anywhere cfg c) (absolute_access_roots cfg) p"
    using assms(3) None r r1
    by (auto simp: String_tex_writable_dir_def put_writable_dir_def lexical_dir_rule_def
          dotdot_in_parts set_texmfoutput_roots_value split: if_splits)
  have "s' = s\<lparr>tex_writable_dir_cache := (tex_writable_dir_cache s)(cache_key c p \<mapsto> d)\<rparr>
        \<or> s' = s1\<lparr>tex_writable_dir_cache := (tex_writable_dir_cache s1)(cache_key c p \<mapsto> d)\<rparr>"
    using assms(3) None r
    by (auto simp: String_tex_writable_dir_def put_writable_dir_def split: if_splits)
  then have "inv cfg s'"
    using inv_put_writable_dir[OF assms(1), of d c p] inv_put_writable_dir[OF i1, of d c p] d
    by auto
  then show ?thesis using d by simp
qed

lemma String_tex_readable_file_ok:
  assumes "inv cfg s" "predicates_of c = String_predicates"
    "String_tex_readable_file cfg c p s = (d, s')"
  shows "d = lexical_readable_file_rule cfg c p \<and> inv cfg s'"
proof (cases "tex_readable_file_cache s (cache_key c p)")
  case (Some d0)
  then show ?thesis using assms inv_lexical_cached(2)[OF assms(1,2) Some]
    by (simp add: String_tex_readable_file_def)
next
  case None
  obtain d1 s1 where r: "String_tex_readable_dir cfg c (parent p) s = (d1, s1)"
    by (cases "String_tex_readable_dir cfg c (parent p) s")
  from String_tex_readable_dir_ok[OF assms(1,2) r]
  have d1: "d1 = lexical_dir_rule (tex_can_read_anywhere cfg c) (absolute_access_roots cfg)
                   (parent p)"
    and i1: "inv cfg s1" by auto
  have d: "d = lexical_readable_file_rule cfg c p"
    using assms(3) None r d1
    by (auto simp: String_tex_readable_file_def put_readable_file_def
          lexical_readable_file_rule_def split: if_splits)
  have "s' = s\<lparr>tex_readable_file_cache := (tex_readable_file_cache s)(cache_key c p \<mapsto> d)\<rparr>
        \<or> s' = s1\<lparr>tex_readable_file_cache := (tex_readable_file_cache s1)(cache_key c p \<mapsto> d)\<rparr>"
    using assms(3) None r
    by (auto simp: String_tex_readable_file_def put_readable_file_def split: if_splits)
  then have "inv cfg s'"
    using inv_put_readable_file[OF assms(1), of d c p] inv_put_readable_file[OF i1, of d c p] d
    by auto
  then show ?thesis using d by simp
qed

lemma String_tex_writable_file_ok:
  assumes "inv cfg s" "predicates_of c = String_predicates"
    "String_tex_writable_file cfg c p s = (d, s')"
  shows "d = lexical_writable_file_rule cfg c p \<and> inv cfg s'"
proof (cases "tex_writable_file_cache s (cache_key c p)")
  case (Some d0)
  then show ?thesis using assms inv_lexical_cached(4)[OF assms(1,2) Some]
    by (simp add: String_tex_writable_file_def)
next
  case None
  obtain d1 s1 where r: "String_tex_writable_dir cfg c (parent p) s = (d1, s1)"
    by (cases "String_tex_writable_dir cfg c (parent p) s")
  from String_tex_writable_dir_ok[OF assms(1,2) r]
  have d1: "d1 = lexical_dir_rule (tex_can_write_anywhere cfg c) (absolute_access_roots cfg)
                   (parent p)"
    and i1: "inv cfg s1" by auto
  have d: "d = lexical_writable_file_rule cfg c p"
    using assms(3) None r d1
    by (auto simp: String_tex_writable_file_def put_writable_file_def Let_def
          lexical_writable_file_rule_def split: if_splits option.splits)
  have "s' = s\<lparr>tex_writable_file_cache := (tex_writable_file_cache s)(cache_key c p \<mapsto> d)\<rparr>
        \<or> s' = s1\<lparr>tex_writable_file_cache := (tex_writable_file_cache s1)(cache_key c p \<mapsto> d)\<rparr>"
    using assms(3) None r
    by (auto simp: String_tex_writable_file_def put_writable_file_def Let_def
          split: if_splits option.splits)
  then have "inv cfg s'"
    using inv_put_writable_file[OF assms(1), of d c p] inv_put_writable_file[OF i1, of d c p] d
    by auto
  then show ?thesis using d by simp
qed

lemma inv_resolve_calls [simp]: "inv cfg (s\<lparr>resolve_calls := n\<rparr>) = inv cfg s"
  by (simp add: inv_def cls_ok_def lexical_caches_ok_def cached_decisions_ok_def)

lemma Resolved_tex_readable_dir_ok:
  assumes "inv cfg s" "predicates_of c = Resolved_predicates"
    "Resolved_tex_readable_dir fs cfg c p s = (d, s')"
  shows "decision_ok cfg d \<and> inv cfg s'"
proof (cases "tex_readable_dir_cache s (cache_key c p)")
  case (Some d0)
  then show ?thesis using assms inv_cached(1)[OF assms(1) Some]
    by (simp add: Resolved_tex_readable_dir_def)
next
  case None
  let ?s0 = "s\<lparr>resolve_calls := Suc (resolve_calls s)\<rparr>"
  obtain roots s1 where r: "tex_paranoid_roots_resolved fs cfg c ?s0 = (roots, s1)"
    by (cases "tex_paranoid_roots_resolved fs cfg c ?s0")
  have i0: "inv cfg ?s0" using assms(1) by simp
  then have "cls_ok cfg ?s0" by (simp add: inv_def)
  from tex_paranoid_roots_resolved_ok[OF this r] have i1: "inv cfg s1"
    using inv_only_attrs[OF i0] by auto
  have d: "decision_ok cfg d"
    using assms(3) None r
    by (auto simp: Resolved_tex_readable_dir_def put_readable_dir_def resolve_eq
          split: if_splits)
  have "s' = s\<lparr>tex_readable_dir_cache := (tex_readable_dir_cache s)(cache_key c p \<mapsto> d)\<rparr>
        \<or> s' = s1\<lparr>tex_readable_dir_cache := (tex_readable_dir_cache s1)(cache_key c p \<mapsto> d)\<rparr>"
    using assms(3) None r
    by (auto simp: Resolved_tex_readable_dir_def put_readable_dir_def resolve_eq split: if_splits)
  then have "inv cfg s'"
    using inv_put_readable_dir[OF assms(1) d, of c p] inv_put_readable_dir[OF i1 d, of c p]
      assms(2) by auto
  then show ?thesis using d by simp
qed

lemma Resolved_tex_writable_dir_ok:
  assumes "inv cfg s" "predicates_of c = Resolved_predicates"
    "Resolved_tex_writable_dir fs cfg c p s = (d, s')"
  shows "decision_ok cfg d \<and> inv cfg s'"
proof (cases "tex_writable_dir_cache s (cache_key c p)")
  case (Some d0)
  then show ?thesis using assms inv_cached(3)[OF assms(1) Some]
    by (simp add: Resolved_tex_writable_dir_def)
next
  case None
  let ?s0 = "s\<lparr>resolve_calls := Suc (resolve_calls s)\<rparr>"
  obtain roots s1 where r: "tex_paranoid_roots_resolved fs cfg c ?s0 = (roots, s1)"
    by (cases "tex_paranoid_roots_resolved fs cfg c ?s0")
  have i0: "inv cfg ?s0" using assms(1) by simp
  then have "cls_ok cfg ?s0" by (simp add: inv_def)
  from tex_paranoid_roots_resolved_ok[OF this r] have i1: "inv cfg s1"
    using inv_only_attrs[OF i0] by auto
  have d: "decision_ok cfg d"
    using assms(3) None r
    by (auto simp: Resolved_tex_writable_dir_def put_writable_dir_def resolve_eq
          split: if_splits)
  have "s' = s\<lparr>tex_writable_dir_cache := (tex_writable_dir_cache s)(cache_key c p \<mapsto> d)\<rparr>
        \<or> s' = s1\<lparr>tex_writable_dir_cache := (tex_writable_dir_cache s1)(cache_key c p \<mapsto> d)\<rparr>"
    using assms(3) None r
    by (auto simp: Resolved_tex_writable_dir_def put_writable_dir_def resolve_eq split: if_splits)
  then have "inv cfg s'"
    using inv_put_writable_dir[OF assms(1) d, of c p] inv_put_writable_dir[OF i1 d, of c p]
      assms(2) by auto
  then show ?thesis using d by simp
qed

lemma Resolved_tex_readable_file_ok:
  assumes "inv cfg s" "predicates_of c = Resolved_predicates"
    "Resolved_tex_readable_file fs cfg c p s = (d, s')"
  shows "decision_ok cfg d \<and> inv cfg s'"
proof (cases "tex_readable_file_cache s (cache_key c p)")
  case (Some d0)
  then show ?thesis using assms inv_cached(2)[OF assms(1) Some]
    by (simp add: Resolved_tex_readable_file_def)
next
  case None
  let ?s0 = "s\<lparr>resolve_calls := Suc (resolve_calls s)\<rparr>"
  obtain d1 s1 where r:
    "Resolved_tex_readable_dir fs cfg c (parent (fs_resolve fs p)) ?s0 = (d1, s1)"
    by (cases "Resolved_tex_readable_dir fs cfg c (parent (fs_resolve fs p)) ?s0")
  have i0: "inv cfg ?s0" using assms(1) by simp
  from Resolved_tex_readable_dir_ok[OF i0 assms(2) r]
  have d1: "decision_ok cfg d1" and i1: "inv cfg s1" by auto
  have d: "decision_ok cfg d"
    using assms(3) None r d1
    by (auto simp: Resolved_tex_readable_file_def put_readable_file_def resolve_eq
          split: if_splits)
  have "s' = ?s0\<lparr>tex_readable_file_cache := (tex_readable_file_cache ?s0)(cache_key c p \<mapsto> d)\<rparr>
        \<or> s' = s1\<lparr>tex_readable_file_cache := (tex_readable_file_cache s1)(cache_key c p \<mapsto> d)\<rparr>"
    using assms(3) None r
    by (auto simp: Resolved_tex_readable_file_def put_readable_file_def resolve_eq
          split: if_splits)
  then have "inv cfg s'"
    using inv_put_readable_file[OF i0 d, of c p] inv_put_readable_file[OF i1 d, of c p]
      assms(2) by auto
  then show ?thesis using d by simp
qed

lemma Resolved_tex_writable_file_ok:
  assumes "inv cfg s" "predicates_of c = Resolved_predicates"
    "Resolved_tex_writable_file fs cfg c p s = (d, s')"
  shows "decision_ok cfg d \<and> inv cfg s'"
proof (cases "tex_writable_file_cache s (cache_key c p)")
  case (Some d0)
  then show ?thesis using assms inv_cached(4)[OF assms(1) Some]
    by (simp add: Resolved_tex_writable_file_def)
next
  case None
  let ?s0 = "s\<lparr>resolve_calls := Suc (resolve_calls s)\<rparr>"
  obtain d1 s1 where r:
    "Resolved_tex_writable_dir fs cfg c (parent (fs_resolve fs p)) ?s0 = (d1, s1)"
    by (cases "Resolved_tex_writable_dir fs cfg c (parent (fs_resolve fs p)) ?s0")
  have i0: "inv cfg ?s0" using assms(1) by simp
  from Resolved_tex_writable_dir_ok[OF i0 assms(2) r]
  have d1: "decision_ok cfg d1" and i1: "inv cfg s1" by auto
  have d: "decision_ok cfg d"
    using assms(3) None r d1
    by (auto simp: Resolved_tex_writable_file_def put_writable_file_def resolve_eq Let_def
          tex_prohibited_write_file_extensions_def
          split: if_splits option.splits intro!: decision_ok_extension dest: find_in_set)
  have "s' = ?s0\<lparr>tex_writable_file_cache := (tex_writable_file_cache ?s0)(cache_key c p \<mapsto> d)\<rparr>
        \<or> s' = s1\<lparr>tex_writable_file_cache := (tex_writable_file_cache s1)(cache_key c p \<mapsto> d)\<rparr>"
    using assms(3) None r
    by (auto simp: Resolved_tex_writable_file_def put_writable_file_def resolve_eq Let_def
          split: if_splits option.splits)
  then have "inv cfg s'"
    using inv_put_writable_file[OF i0 d, of c p] inv_put_writable_file[OF i1 d, of c p]
      assms(2) by auto
  then show ?thesis using d by simp
qed

subsection \<open>The operations without the working-directory context\<close>

lemma read_bytes_eq:
  "read_bytes fs cfg c p s = checked (tex_readable_file fs cfg c p s) fs cfg c p ''Cannot read file'' Fs_read_bytes"
  unfolding read_bytes_def by (rule trans[OF with_cd_tex_cwd_id]) (auto intro!: cwd_freeI)

lemma read_text_eq:
  "read_text fs cfg c p s = checked (tex_readable_file fs cfg c p s) fs cfg c p ''Cannot read file'' Fs_read_text"
  unfolding read_text_def by (rule trans[OF with_cd_tex_cwd_id]) (auto intro!: cwd_freeI)

lemma rmdir_eq:
  "rmdir fs cfg c p s = checked (tex_writable_dir fs cfg c p s) fs cfg c p ''Cannot delete directory'' Fs_rmdir"
  unfolding rmdir_def by (rule trans[OF with_cd_tex_cwd_id]) (auto intro!: cwd_freeI)

lemma touch_eq:
  "touch fs cfg c p s = checked (tex_writable_file fs cfg c p s) fs cfg c p ''Cannot create file'' Fs_touch"
  unfolding touch_def by (rule trans[OF with_cd_tex_cwd_id]) (auto intro!: cwd_freeI)

lemma unlink_eq:
  "unlink fs cfg c p s = checked (tex_writable_file fs cfg c p s) fs cfg c p ''Cannot delete file'' Fs_unlink"
  unfolding unlink_def by (rule trans[OF with_cd_tex_cwd_id]) (auto intro!: cwd_freeI)

lemma write_bytes_eq:
  "write_bytes fs cfg c p s = checked (tex_writable_file fs cfg c p s) fs cfg c p ''Cannot write file'' Fs_write_bytes"
  unfolding write_bytes_def by (rule trans[OF with_cd_tex_cwd_id]) (auto intro!: cwd_freeI)

lemma write_text_eq:
  "write_text fs cfg c p s = checked (tex_writable_file fs cfg c p s) fs cfg c p ''Cannot write file'' Fs_write_text"
  unfolding write_text_def by (rule trans[OF with_cd_tex_cwd_id]) (auto intro!: cwd_freeI)

lemma rename_eq:
  "rename fs cfg c p tc target s =
     (case tex_writable_file fs cfg c p s of
         (Inl e, s1) \<Rightarrow> (Inl e, s1)
       | (Inr (is_writable, reason), s1) \<Rightarrow>
           if \<not> is_writable then
             (Inl (PathSecurityError
                     (''Cannot rename file \"'' @ as_posix p @ ''\":  '' @ str_of_reason reason)), s1)
           else
             (case tex_writable_file fs cfg tc target s1 of
                (Inl e, s2) \<Rightarrow> (Inl e, s2)
              | (Inr (target_is_writable, target_reason), s2) \<Rightarrow>
                  if \<not> target_is_writable then
                    (Inl (PathSecurityError
                            (''Cannot create renamed file \"'' @ as_posix target @ ''\":  ''
                             @ str_of_reason target_reason)), s2)
                  else move Fs_rename fs cfg c p target s2))"
  unfolding rename_def
  by (rule trans[OF with_cd_tex_cwd_id])
     (auto intro!: cwd_freeI simp: resolve_eq move_def split: prod.splits sum.splits option.splits)

lemma replace_eq:
  "replace fs cfg c p tc target s =
     (case tex_writable_file fs cfg c p s of
         (Inl e, s1) \<Rightarrow> (Inl e, s1)
       | (Inr (is_writable, reason), s1) \<Rightarrow>
           if \<not> is_writable then
             (Inl (PathSecurityError
                     (''Cannot replace file \"'' @ as_posix p @ ''\":  '' @ str_of_reason reason)), s1)
           else
             (case tex_writable_file fs cfg tc target s1 of
                (Inl e, s2) \<Rightarrow> (Inl e, s2)
              | (Inr (target_is_writable, target_reason), s2) \<Rightarrow>
                  if \<not> target_is_writable then
                    (Inl (PathSecurityError
                            (''Cannot create replacement file \"'' @ as_posix target @ ''\":  ''
                             @ str_of_reason target_reason)), s2)
                  else move Fs_replace fs cfg c p target s2))"
  unfolding replace_def
  by (rule trans[OF with_cd_tex_cwd_id])
     (auto intro!: cwd_freeI simp: resolve_eq move_def split: prod.splits sum.splits option.splits)

subsection \<open>Every reachable state satisfies the invariants\<close>

lemma inv_fs_log [simp]: "inv cfg (s\<lparr>fs_log := l\<rparr>) = inv cfg s"
  by (simp add: inv_def cls_ok_def lexical_caches_ok_def cached_decisions_ok_def)

lemma inv_initial_world: "inv cfg (initial_world d)"
  by (simp add: inv_def cls_ok_def lexical_caches_ok_def cached_decisions_ok_def initial_world_def)

lemma tex_readable_dir_inv:
  assumes "inv cfg s" "tex_readable_dir fs cfg c p s = (r, s')"
  shows "inv cfg s' \<and> (\<forall>d. r = Inr d \<longrightarrow> decision_ok cfg d)"
proof (cases "predicates_of c")
  case Base_predicates
  then show ?thesis using assms by (auto simp: tex_readable_dir_def)
next
  case String_predicates
  from String_tex_readable_dir_ok[OF assms(1) String_predicates prod.collapse[symmetric], where p=p]
  have "inv cfg (snd (String_tex_readable_dir cfg c p s))"
    "decision_ok cfg (fst (String_tex_readable_dir cfg c p s))" by simp_all
  then show ?thesis using assms String_predicates
    by (auto simp: tex_readable_dir_def returned_def)
next
  case Resolved_predicates
  then show ?thesis using assms
      Resolved_tex_readable_dir_ok[OF assms(1) Resolved_predicates prod.collapse[symmetric],
        where p=p and fs=fs]
    by (auto simp: tex_readable_dir_def returned_def)
qed

lemma tex_readable_file_inv:
  assumes "inv cfg s" "tex_readable_file fs cfg c p s = (r, s')"
  shows "inv cfg s' \<and> (\<forall>d. r = Inr d \<longrightarrow> decision_ok cfg d)"
proof (cases "predicates_of c")
  case Base_predicates
  then show ?thesis using assms by (auto simp: tex_readable_file_def)
next
  case String_predicates
  from String_tex_readable_file_ok[OF assms(1) String_predicates prod.collapse[symmetric], where p=p]
  have "inv cfg (snd (String_tex_readable_file cfg c p s))"
    "decision_ok cfg (fst (String_tex_readable_file cfg c p s))" by simp_all
  then show ?thesis using assms String_predicates
    by (auto simp: tex_readable_file_def returned_def)
next
  case Resolved_predicates
  then show ?thesis using assms
      Resolved_tex_readable_file_ok[OF assms(1) Resolved_predicates prod.collapse[symmetric],
        where p=p and fs=fs]
    by (auto simp: tex_readable_file_def returned_def)
qed

lemma tex_writable_dir_inv:
  assumes "inv cfg s" "tex_writable_dir fs cfg c p s = (r, s')"
  shows "inv cfg s' \<and> (\<forall>d. r = Inr d \<longrightarrow> decision_ok cfg d)"
proof (cases "predicates_of c")
  case Base_predicates
  then show ?thesis using assms by (auto simp: tex_writable_dir_def)
next
  case String_predicates
  from String_tex_writable_dir_ok[OF assms(1) String_predicates prod.collapse[symmetric], where p=p]
  have "inv cfg (snd (String_tex_writable_dir cfg c p s))"
    "decision_ok cfg (fst (String_tex_writable_dir cfg c p s))" by simp_all
  then show ?thesis using assms String_predicates
    by (auto simp: tex_writable_dir_def returned_def)
next
  case Resolved_predicates
  then show ?thesis using assms
      Resolved_tex_writable_dir_ok[OF assms(1) Resolved_predicates prod.collapse[symmetric],
        where p=p and fs=fs]
    by (auto simp: tex_writable_dir_def returned_def)
qed

lemma tex_writable_file_inv:
  assumes "inv cfg s" "tex_writable_file fs cfg c p s = (r, s')"
  shows "inv cfg s' \<and> (\<forall>d. r = Inr d \<longrightarrow> decision_ok cfg d)"
proof (cases "predicates_of c")
  case Base_predicates
  then show ?thesis using assms by (auto simp: tex_writable_file_def)
next
  case String_predicates
  from String_tex_writable_file_ok[OF assms(1) String_predicates prod.collapse[symmetric], where p=p]
  have "inv cfg (snd (String_tex_writable_file cfg c p s))"
    "decision_ok cfg (fst (String_tex_writable_file cfg c p s))" by simp_all
  then show ?thesis using assms String_predicates
    by (auto simp: tex_writable_file_def returned_def)
next
  case Resolved_predicates
  then show ?thesis using assms
      Resolved_tex_writable_file_ok[OF assms(1) Resolved_predicates prod.collapse[symmetric],
        where p=p and fs=fs]
    by (auto simp: tex_writable_file_def returned_def)
qed

lemma checked_inv: "inv cfg (snd v) \<Longrightarrow> inv cfg (snd (checked v fs cfg c p what call))"
  by (auto simp: checked_def resolve_eq split: prod.splits sum.splits option.splits)

lemma move_inv: "inv cfg s \<Longrightarrow> inv cfg (snd (move call fs cfg c p target s))"
  by (auto simp: move_def split: option.splits)

lemma tex_writable_file_inv':
  "tex_writable_file fs cfg c p s = (r, s') \<Longrightarrow> inv cfg s \<Longrightarrow> inv cfg s'"
  using tex_writable_file_inv by blast

lemma rename_inv: "inv cfg s \<Longrightarrow> inv cfg (snd (rename fs cfg c p tc target s))"
  by (auto simp: rename_eq split: prod.splits sum.splits
           intro!: move_inv intro: tex_writable_file_inv')

lemma replace_inv: "inv cfg s \<Longrightarrow> inv cfg (snd (replace fs cfg c p tc target s))"
  by (auto simp: replace_eq split: prod.splits sum.splits
           intro!: move_inv intro: tex_writable_file_inv')

lemma step_inv:
  assumes "step cfg s s'" "inv cfg s"
  shows "inv cfg s'"
  using assms
proof (cases rule: step.cases)
  case (s_resolve fs p)
  then show ?thesis using assms(2) by (simp add: resolve_eq)
next
  case (s_tex_cwd c)
  then show ?thesis
    using assms(2) tex_cwd_ok[OF _ prod.collapse[symmetric], of cfg s c] inv_only_attrs[OF assms(2)]
    by (auto simp: inv_def dest: only_attrs_keeps)
next
  case (s_TEXMFOUTPUT c)
  then show ?thesis
    using assms(2) TEXMFOUTPUT_ok[OF _ prod.collapse[symmetric], of cfg s c]
      inv_only_attrs[OF assms(2)]
    by (auto simp: inv_def dest: only_attrs_keeps)
next
  case (s_TEXMF_OUTPUT_DIRECTORY c)
  then show ?thesis
    using assms(2) TEXMF_OUTPUT_DIRECTORY_ok[OF _ prod.collapse[symmetric], of cfg s c]
      inv_only_attrs[OF assms(2)]
    by (auto simp: inv_def dest: only_attrs_keeps)
next
  case (s_tex_openout_roots c)
  then show ?thesis
    using assms(2) tex_openout_roots_ok[OF _ prod.collapse[symmetric], of cfg s c]
      inv_only_attrs[OF assms(2)]
    by (auto simp: inv_def dest: only_attrs_keeps)
next
  case (s_tex_paranoid_roots c)
  then show ?thesis
    using assms(2) tex_paranoid_roots_ok[OF _ prod.collapse[symmetric], of cfg s c]
      inv_only_attrs[OF assms(2)]
    by (auto simp: inv_def dest: only_attrs_keeps)
next
  case (s_tex_paranoid_roots_resolved fs c)
  then show ?thesis
    using assms(2) tex_paranoid_roots_resolved_ok[OF _ prod.collapse[symmetric], of cfg s fs c]
      inv_only_attrs[OF assms(2)]
    by (auto simp: inv_def)
next
  case (s_tex_paranoid_roots_with_resolved fs c)
  then show ?thesis
    using assms(2) by (simp add: tex_paranoid_roots_with_resolved_eq inv_def)
next
  case (s_tex_texmfoutput_roots c)
  then show ?thesis
    using assms(2) tex_texmfoutput_roots_ok[OF _ prod.collapse[symmetric], of cfg s c]
      inv_only_attrs[OF assms(2)]
    by (auto simp: inv_def dest: only_attrs_keeps)
next
  case (s_tex_readable_dir fs c p)
  then show ?thesis using tex_readable_dir_inv[OF assms(2) prod.collapse[symmetric]] by simp
next
  case (s_tex_readable_file fs c p)
  then show ?thesis using tex_readable_file_inv[OF assms(2) prod.collapse[symmetric]] by simp
next
  case (s_tex_writable_dir fs c p)
  then show ?thesis using tex_writable_dir_inv[OF assms(2) prod.collapse[symmetric]] by simp
next
  case (s_tex_writable_file fs c p)
  then show ?thesis using tex_writable_file_inv[OF assms(2) prod.collapse[symmetric]] by simp
next
  case (s_mkdir fs c p)
  then show ?thesis
    using tex_writable_dir_inv[OF assms(2) prod.collapse[symmetric]]
    by (simp add: mkdir_eq checked_inv)
next
  case (s_open fs c p mode)
  then show ?thesis
    using tex_readable_file_inv[OF assms(2) prod.collapse[symmetric]]
      tex_writable_file_inv[OF assms(2) prod.collapse[symmetric]] assms(2)
    by (simp add: open_path_eq checked_inv)
next
  case (s_read_bytes fs c p)
  then show ?thesis
    using tex_readable_file_inv[OF assms(2) prod.collapse[symmetric]]
    by (simp add: read_bytes_eq checked_inv)
next
  case (s_read_text fs c p)
  then show ?thesis
    using tex_readable_file_inv[OF assms(2) prod.collapse[symmetric]]
    by (simp add: read_text_eq checked_inv)
next
  case (s_rename fs c p tc target)
  then show ?thesis using rename_inv[OF assms(2)] by simp
next
  case (s_replace fs c p tc target)
  then show ?thesis using replace_inv[OF assms(2)] by simp
next
  case (s_rmdir fs c p)
  then show ?thesis
    using tex_writable_dir_inv[OF assms(2) prod.collapse[symmetric]]
    by (simp add: rmdir_eq checked_inv)
next
  case (s_touch fs c p)
  then show ?thesis
    using tex_writable_file_inv[OF assms(2) prod.collapse[symmetric]]
    by (simp add: touch_eq checked_inv)
next
  case (s_unlink fs c p)
  then show ?thesis
    using tex_writable_file_inv[OF assms(2) prod.collapse[symmetric]]
    by (simp add: unlink_eq checked_inv)
next
  case (s_write_bytes fs c p)
  then show ?thesis
    using tex_writable_file_inv[OF assms(2) prod.collapse[symmetric]]
    by (simp add: write_bytes_eq checked_inv)
next
  case (s_write_text fs c p)
  then show ?thesis
    using tex_writable_file_inv[OF assms(2) prod.collapse[symmetric]]
    by (simp add: write_text_eq checked_inv)
next
  case s_unsupported
  then show ?thesis using assms(2) by (simp add: unsupported_def)
qed

lemma run_inv: "run cfg s s' \<Longrightarrow> inv cfg s \<Longrightarrow> inv cfg s'"
  by (induction rule: run.induct) (auto intro: step_inv)

lemma reachable_inv: "reachable cfg s \<Longrightarrow> inv cfg s"
  unfolding reachable_def using run_inv inv_initial_world by blast

subsection \<open>The root methods and the lexical directory predicates\<close>

lemma reachable_initial: "reachable cfg (initial_world d)"
  unfolding reachable_def by (blast intro: run_refl)

lemma reachable_step: "reachable cfg s \<Longrightarrow> step cfg s s' \<Longrightarrow> reachable cfg s'"
  unfolding reachable_def by (blast intro: run_step)

text \<open>
  C10.  In every state a run can reach, and for every class, a call of
  \<open>tex_paranoid_roots_with_resolved\<close> raises \<open>AttributeError\<close>: the attribute it reads is
  set on no class, and its handler catches \<open>KeyError\<close> only.  The state is left as it
  was, so the union of the paranoid roots and their resolved forms is neither computed
  nor stored.
\<close>

theorem tex_paranoid_roots_with_resolved_raises:
  assumes "reachable cfg s"
  shows "tex_paranoid_roots_with_resolved fs cfg c s = (Inl AttributeError, s)
         \<and> attr_tex_paranoid_roots_with_resolved s = Map.empty"
proof -
  have c: "cls_ok cfg s" using reachable_inv[OF assms] by (simp add: inv_def)
  then have "attr_tex_paranoid_roots_with_resolved s = Map.empty"
    by (auto simp: cls_ok_def)
  then show ?thesis using tex_paranoid_roots_with_resolved_eq[OF c] by simp
qed

text \<open>The state after a call of \<open>tex_paranoid_roots_resolved\<close>, which fills the other
  root attributes, is such a state.\<close>

theorem tex_paranoid_roots_with_resolved_raises_witness:
  "reachable ex_cfg
     (snd (tex_paranoid_roots_resolved ex_fs ex_cfg ResolvedRestrictedPath (initial_world ''/'')))
   \<and> tex_paranoid_roots_with_resolved ex_fs ex_cfg ResolvedRestrictedPath
       (snd (tex_paranoid_roots_resolved ex_fs ex_cfg ResolvedRestrictedPath (initial_world ''/'')))
     = (Inl AttributeError,
        snd (tex_paranoid_roots_resolved ex_fs ex_cfg ResolvedRestrictedPath (initial_world ''/'')))"
proof -
  have r: "reachable ex_cfg
     (snd (tex_paranoid_roots_resolved ex_fs ex_cfg ResolvedRestrictedPath (initial_world ''/'')))"
    by (rule reachable_step[OF reachable_initial s_tex_paranoid_roots_resolved])
  show ?thesis using r tex_paranoid_roots_with_resolved_raises[OF r] by simp
qed

text \<open>
  C8.  \<open>tex_openout_roots\<close> returns a list whose first element is the output directory
  (\<open>TEXMF_OUTPUT_DIRECTORY\<close>) when it is configured and the working directory otherwise,
  followed by the output-fallback directory (\<open>TEXMFOUTPUT\<close>) exactly when that is
  configured and differs, as a path, from the first element.  This holds in every
  reachable state, whichever class computed the attribute first.
\<close>

theorem tex_openout_roots_order:
  assumes "reachable cfg s"
  shows "fst (tex_openout_roots cfg c s) =
     (let first = (case cfg_TEXMF_OUTPUT_DIRECTORY cfg of
                     Some t \<Rightarrow> path_of_str t
                   | None \<Rightarrow> path_of_str (cfg_tex_cwd cfg))
      in first # (case cfg_TEXMFOUTPUT cfg of
                    Some t \<Rightarrow> if path_of_str t \<noteq> first then [path_of_str t] else []
                  | None \<Rightarrow> []))"
proof -
  have c: "cls_ok cfg s" using reachable_inv[OF assms] by (simp add: inv_def)
  from tex_openout_roots_ok[OF c prod.collapse[symmetric]]
  have "fst (tex_openout_roots cfg c s) = openout_roots_value cfg" by simp
  then show ?thesis
    by (simp add: openout_roots_value_def TEXMF_OUTPUT_DIRECTORY_value_def TEXMFOUTPUT_value_def
          tex_cwd_value_def Let_def split: option.splits)
qed

text \<open>With the fallback configured and no output directory, the list is the working
  directory followed by the fallback.\<close>

theorem tex_openout_roots_order_witness:
  "reachable ex_cfg (initial_world ''/'')
   \<and> fst (tex_openout_roots ex_cfg SafeStringRestrictedPath (initial_world ''/''))
     = [\<lparr>is_absolute = True, comps = [''home'', ''u'', ''doc'']\<rparr>,
        \<lparr>is_absolute = True, comps = [''tmp'', ''out'']\<rparr>]"
  using reachable_initial[of ex_cfg "''/''"]
    tex_openout_roots_order[OF reachable_initial, of ex_cfg SafeStringRestrictedPath "''/''"]
  by (simp add: ex_cfg_def path_of_str_def startswith_def)

text \<open>
  C1.  For every path and every class that runs the lexical predicates, in every
  reachable state, \<open>tex_readable_dir\<close> (and \<open>tex_writable_dir\<close>, with the write policy)
  returns the decision of the directory rule: allowed under the anywhere policy;
  otherwise denied with the \<open>..\<close> reason when a component is \<open>..\<close>; otherwise, for an
  absolute path, allowed exactly when it lies under the output directory or the
  output-fallback directory, and denied with the location reason when not; otherwise
  (a relative path) allowed.  The working directory is not among the roots.
\<close>

theorem lexical_directory_predicates:
  assumes "reachable cfg s" "predicates_of c = String_predicates"
  shows "fst (tex_readable_dir fs cfg c p s)
           = Inr (lexical_dir_rule (tex_can_read_anywhere cfg c) (absolute_access_roots cfg) p)
         \<and> fst (tex_writable_dir fs cfg c p s)
           = Inr (lexical_dir_rule (tex_can_write_anywhere cfg c) (absolute_access_roots cfg) p)"
  using String_tex_readable_dir_ok[OF reachable_inv[OF assms(1)] assms(2) prod.collapse[symmetric],
          where p=p]
        String_tex_writable_dir_ok[OF reachable_inv[OF assms(1)] assms(2) prod.collapse[symmetric],
          where p=p]
        assms(2)
  by (simp add: tex_readable_dir_def tex_writable_dir_def returned_def)

text \<open>A path under the output-fallback directory of the example is allowed.\<close>

theorem lexical_directory_predicates_witness:
  "reachable ex_cfg (initial_world ''/'')
   \<and> predicates_of StringRestrictedPath = String_predicates
   \<and> fst (tex_readable_dir ex_fs ex_cfg StringRestrictedPath
            \<lparr>is_absolute = True, comps = [''tmp'', ''out'', ''a'']\<rparr> (initial_world ''/''))
     = Inr (True, None)
   \<and> fst (tex_writable_dir ex_fs ex_cfg StringRestrictedPath
            \<lparr>is_absolute = True, comps = [''tmp'', ''out'', ''a'']\<rparr> (initial_world ''/''))
     = Inr (True, None)"
  using reachable_initial[of ex_cfg "''/''"]
    lexical_directory_predicates[OF reachable_initial, of StringRestrictedPath ex_fs ex_cfg
      "\<lparr>is_absolute = True, comps = [''tmp'', ''out'', ''a'']\<rparr>" "''/''"]
  by (simp add: lexical_dir_rule_def absolute_access_roots_def ex_cfg_def path_of_str_def
        startswith_def is_relative_to_def)

subsection \<open>Cached decisions are kept and reused\<close>

lemma caches_grow_refl [simp]: "caches_grow s s"
  by (simp add: caches_grow_def)

lemma caches_grow_trans: "caches_grow s s1 \<Longrightarrow> caches_grow s1 s2 \<Longrightarrow> caches_grow s s2"
  by (auto simp: caches_grow_def intro: map_le_trans)

lemma frame_caches_grow: "frame rd rf wd wfl s s' \<Longrightarrow> caches_grow s s'"
  by (auto simp: frame_def caches_grow_def split: if_splits)

lemma caches_grow_upd [simp]:
  "caches_grow s (s'\<lparr>fs_log := l\<rparr>) = caches_grow s s'"
  "caches_grow s (s'\<lparr>resolve_calls := n\<rparr>) = caches_grow s s'"
  by (simp_all add: caches_grow_def)

lemma checked_caches_grow:
  "caches_grow s (snd v) \<Longrightarrow> caches_grow s (snd (checked v fs cfg c p what call))"
  by (auto simp: checked_def resolve_eq split: prod.splits sum.splits option.splits)

lemma move_caches_grow: "caches_grow s s1 \<Longrightarrow> caches_grow s (snd (move call fs cfg c p target s1))"
  by (auto simp: move_def split: option.splits)

lemma only_attrs_grow: "only_attrs s s' \<Longrightarrow> caches_grow s s'"
  by (simp add: only_attrs_def caches_grow_def)

lemma keeps_caches_grow: "keeps_caches s s' \<Longrightarrow> caches_grow s s'"
  by (simp add: keeps_caches_def caches_grow_def)

lemma rename_states:
  assumes "tex_writable_file fs cfg c p s = (r1, s1)"
    "tex_writable_file fs cfg tc target s1 = (r2, s2)"
  shows "snd (rename fs cfg c p tc target s) = s1 \<or> snd (rename fs cfg c p tc target s) = s2
         \<or> snd (rename fs cfg c p tc target s) = snd (move Fs_rename fs cfg c p target s2)"
  using assms by (auto simp: rename_eq split: sum.splits prod.splits)

lemma replace_states:
  assumes "tex_writable_file fs cfg c p s = (r1, s1)"
    "tex_writable_file fs cfg tc target s1 = (r2, s2)"
  shows "snd (replace fs cfg c p tc target s) = s1 \<or> snd (replace fs cfg c p tc target s) = s2
         \<or> snd (replace fs cfg c p tc target s) = snd (move Fs_replace fs cfg c p target s2)"
  using assms by (auto simp: replace_eq split: sum.splits prod.splits)

lemma rename_caches_grow: "caches_grow s (snd (rename fs cfg c p tc target s))"
proof -
  obtain r1 s1 where a: "tex_writable_file fs cfg c p s = (r1, s1)"
    by (cases "tex_writable_file fs cfg c p s")
  obtain r2 s2 where b: "tex_writable_file fs cfg tc target s1 = (r2, s2)"
    by (cases "tex_writable_file fs cfg tc target s1")
  have g1: "caches_grow s s1" using tex_writable_file_frame[OF a] by (rule frame_caches_grow)
  have "caches_grow s1 s2" using tex_writable_file_frame[OF b] by (rule frame_caches_grow)
  then have g2: "caches_grow s s2" using g1 by (blast intro: caches_grow_trans)
  show ?thesis using rename_states[OF a b] g1 g2 move_caches_grow[OF g2] by auto
qed

lemma replace_caches_grow: "caches_grow s (snd (replace fs cfg c p tc target s))"
proof -
  obtain r1 s1 where a: "tex_writable_file fs cfg c p s = (r1, s1)"
    by (cases "tex_writable_file fs cfg c p s")
  obtain r2 s2 where b: "tex_writable_file fs cfg tc target s1 = (r2, s2)"
    by (cases "tex_writable_file fs cfg tc target s1")
  have g1: "caches_grow s s1" using tex_writable_file_frame[OF a] by (rule frame_caches_grow)
  have "caches_grow s1 s2" using tex_writable_file_frame[OF b] by (rule frame_caches_grow)
  then have g2: "caches_grow s s2" using g1 by (blast intro: caches_grow_trans)
  show ?thesis using replace_states[OF a b] g1 g2 move_caches_grow[OF g2] by auto
qed

lemma step_caches_grow:
  assumes "step cfg s s'"
  shows "caches_grow s s'"
  using assms
proof (cases rule: step.cases)
  case (s_resolve fs p)
  then show ?thesis by (simp add: resolve_eq)
next
  case (s_tex_cwd c)
  then show ?thesis
    by (simp add: only_attrs_grow tex_cwd_frame[OF prod.collapse[symmetric]])
next
  case (s_TEXMFOUTPUT c)
  then show ?thesis
    by (simp add: only_attrs_grow TEXMFOUTPUT_frame[OF prod.collapse[symmetric]])
next
  case (s_TEXMF_OUTPUT_DIRECTORY c)
  then show ?thesis
    by (simp add: only_attrs_grow TEXMF_OUTPUT_DIRECTORY_frame[OF prod.collapse[symmetric]])
next
  case (s_tex_openout_roots c)
  then show ?thesis
    by (simp add: only_attrs_grow tex_openout_roots_frame[OF prod.collapse[symmetric]])
next
  case (s_tex_paranoid_roots c)
  then show ?thesis
    by (simp add: only_attrs_grow tex_paranoid_roots_frame[OF prod.collapse[symmetric]])
next
  case (s_tex_paranoid_roots_resolved fs c)
  then show ?thesis
    by (simp add: keeps_caches_grow tex_paranoid_roots_resolved_frame[OF prod.collapse[symmetric]])
next
  case (s_tex_paranoid_roots_with_resolved fs c)
  then show ?thesis
    by (simp add: keeps_caches_grow tex_paranoid_roots_with_resolved_frame[OF prod.collapse[symmetric]])
next
  case (s_tex_texmfoutput_roots c)
  then show ?thesis
    by (simp add: only_attrs_grow tex_texmfoutput_roots_frame[OF prod.collapse[symmetric]])
next
  case (s_tex_readable_dir fs c p)
  then show ?thesis
    by (simp add: frame_caches_grow[OF tex_readable_dir_frame[OF prod.collapse[symmetric]]])
next
  case (s_tex_readable_file fs c p)
  then show ?thesis
    by (simp add: frame_caches_grow[OF tex_readable_file_frame[OF prod.collapse[symmetric]]])
next
  case (s_tex_writable_dir fs c p)
  then show ?thesis
    by (simp add: frame_caches_grow[OF tex_writable_dir_frame[OF prod.collapse[symmetric]]])
next
  case (s_tex_writable_file fs c p)
  then show ?thesis
    by (simp add: frame_caches_grow[OF tex_writable_file_frame[OF prod.collapse[symmetric]]])
next
  case (s_mkdir fs c p)
  then show ?thesis
    by (simp add: mkdir_eq checked_caches_grow
          frame_caches_grow[OF tex_writable_dir_frame[OF prod.collapse[symmetric]]])
next
  case (s_open fs c p mode)
  then show ?thesis
    by (simp add: open_path_eq checked_caches_grow
          frame_caches_grow[OF tex_readable_file_frame[OF prod.collapse[symmetric]]]
          frame_caches_grow[OF tex_writable_file_frame[OF prod.collapse[symmetric]]])
next
  case (s_read_bytes fs c p)
  then show ?thesis
    by (simp add: read_bytes_eq checked_caches_grow
          frame_caches_grow[OF tex_readable_file_frame[OF prod.collapse[symmetric]]])
next
  case (s_read_text fs c p)
  then show ?thesis
    by (simp add: read_text_eq checked_caches_grow
          frame_caches_grow[OF tex_readable_file_frame[OF prod.collapse[symmetric]]])
next
  case (s_rename fs c p tc target)
  then show ?thesis using rename_caches_grow by simp
next
  case (s_replace fs c p tc target)
  then show ?thesis using replace_caches_grow by simp
next
  case (s_rmdir fs c p)
  then show ?thesis
    by (simp add: rmdir_eq checked_caches_grow
          frame_caches_grow[OF tex_writable_dir_frame[OF prod.collapse[symmetric]]])
next
  case (s_touch fs c p)
  then show ?thesis
    by (simp add: touch_eq checked_caches_grow
          frame_caches_grow[OF tex_writable_file_frame[OF prod.collapse[symmetric]]])
next
  case (s_unlink fs c p)
  then show ?thesis
    by (simp add: unlink_eq checked_caches_grow
          frame_caches_grow[OF tex_writable_file_frame[OF prod.collapse[symmetric]]])
next
  case (s_write_bytes fs c p)
  then show ?thesis
    by (simp add: write_bytes_eq checked_caches_grow
          frame_caches_grow[OF tex_writable_file_frame[OF prod.collapse[symmetric]]])
next
  case (s_write_text fs c p)
  then show ?thesis
    by (simp add: write_text_eq checked_caches_grow
          frame_caches_grow[OF tex_writable_file_frame[OF prod.collapse[symmetric]]])
next
  case s_unsupported
  then show ?thesis by (simp add: unsupported_def)
qed

lemma run_caches_grow: "run cfg s s' \<Longrightarrow> caches_grow s s'"
  by (induction rule: run.induct) (auto intro: caches_grow_trans step_caches_grow)

lemma map_le_Some: "m \<subseteq>\<^sub>m m' \<Longrightarrow> m k = Some v \<Longrightarrow> m' k = Some v"
  by (auto simp: map_le_def dom_def)

lemma String_tex_readable_dir_stored:
  "String_tex_readable_dir cfg c p s = (d, s') \<Longrightarrow> tex_readable_dir_cache s' (cache_key c p) = Some d"
  by (auto simp: String_tex_readable_dir_def put_readable_dir_def
           split: option.splits if_splits prod.splits)

lemma String_tex_readable_file_stored:
  "String_tex_readable_file cfg c p s = (d, s') \<Longrightarrow> tex_readable_file_cache s' (cache_key c p) = Some d"
  by (auto simp: String_tex_readable_file_def put_readable_file_def
           split: option.splits if_splits prod.splits)

lemma String_tex_writable_dir_stored:
  "String_tex_writable_dir cfg c p s = (d, s') \<Longrightarrow> tex_writable_dir_cache s' (cache_key c p) = Some d"
  by (auto simp: String_tex_writable_dir_def put_writable_dir_def
           split: option.splits if_splits prod.splits)

lemma String_tex_writable_file_stored:
  "String_tex_writable_file cfg c p s = (d, s') \<Longrightarrow> tex_writable_file_cache s' (cache_key c p) = Some d"
  by (auto simp: String_tex_writable_file_def put_writable_file_def Let_def
           split: option.splits if_splits prod.splits)

lemma Resolved_tex_readable_dir_stored:
  "Resolved_tex_readable_dir fs cfg c p s = (d, s') \<Longrightarrow> tex_readable_dir_cache s' (cache_key c p) = Some d"
  by (auto simp: Resolved_tex_readable_dir_def put_readable_dir_def
           split: option.splits if_splits prod.splits)

lemma Resolved_tex_readable_file_stored:
  "Resolved_tex_readable_file fs cfg c p s = (d, s') \<Longrightarrow> tex_readable_file_cache s' (cache_key c p) = Some d"
  by (auto simp: Resolved_tex_readable_file_def put_readable_file_def
           split: option.splits if_splits prod.splits)

lemma Resolved_tex_writable_dir_stored:
  "Resolved_tex_writable_dir fs cfg c p s = (d, s') \<Longrightarrow> tex_writable_dir_cache s' (cache_key c p) = Some d"
  by (auto simp: Resolved_tex_writable_dir_def put_writable_dir_def
           split: option.splits if_splits prod.splits)

lemma Resolved_tex_writable_file_stored:
  "Resolved_tex_writable_file fs cfg c p s = (d, s') \<Longrightarrow> tex_writable_file_cache s' (cache_key c p) = Some d"
  by (auto simp: Resolved_tex_writable_file_def put_writable_file_def Let_def
           split: option.splits if_splits prod.splits)

lemma tex_readable_dir_again:
  assumes "tex_readable_dir fs cfg c p s = (r, s1)" "caches_grow s1 s2"
  shows "tex_readable_dir fs' cfg c p s2 = (r, s2)"
proof (cases "predicates_of c")
  case Base_predicates
  then show ?thesis using assms by (auto simp: tex_readable_dir_def)
next
  case String_predicates
  let ?d = "fst (String_tex_readable_dir cfg c p s)"
  have d: "String_tex_readable_dir cfg c p s = (?d, s1)" "r = Inr ?d"
    using assms(1) String_predicates by (auto simp: tex_readable_dir_def returned_def)
  have "tex_readable_dir_cache s2 (cache_key c p) = Some ?d"
    using String_tex_readable_dir_stored[OF d(1)] assms(2)
    by (auto simp: caches_grow_def intro: map_le_Some)
  then show ?thesis using String_predicates d(2)
    by (simp add: tex_readable_dir_def returned_def String_tex_readable_dir_def)
next
  case Resolved_predicates
  let ?d = "fst (Resolved_tex_readable_dir fs cfg c p s)"
  have d: "Resolved_tex_readable_dir fs cfg c p s = (?d, s1)" "r = Inr ?d"
    using assms(1) Resolved_predicates by (auto simp: tex_readable_dir_def returned_def)
  have "tex_readable_dir_cache s2 (cache_key c p) = Some ?d"
    using Resolved_tex_readable_dir_stored[OF d(1)] assms(2)
    by (auto simp: caches_grow_def intro: map_le_Some)
  then show ?thesis using Resolved_predicates d(2)
    by (simp add: tex_readable_dir_def returned_def Resolved_tex_readable_dir_def)
qed

lemma tex_readable_file_again:
  assumes "tex_readable_file fs cfg c p s = (r, s1)" "caches_grow s1 s2"
  shows "tex_readable_file fs' cfg c p s2 = (r, s2)"
proof (cases "predicates_of c")
  case Base_predicates
  then show ?thesis using assms by (auto simp: tex_readable_file_def)
next
  case String_predicates
  let ?d = "fst (String_tex_readable_file cfg c p s)"
  have d: "String_tex_readable_file cfg c p s = (?d, s1)" "r = Inr ?d"
    using assms(1) String_predicates by (auto simp: tex_readable_file_def returned_def)
  have "tex_readable_file_cache s2 (cache_key c p) = Some ?d"
    using String_tex_readable_file_stored[OF d(1)] assms(2)
    by (auto simp: caches_grow_def intro: map_le_Some)
  then show ?thesis using String_predicates d(2)
    by (simp add: tex_readable_file_def returned_def String_tex_readable_file_def)
next
  case Resolved_predicates
  let ?d = "fst (Resolved_tex_readable_file fs cfg c p s)"
  have d: "Resolved_tex_readable_file fs cfg c p s = (?d, s1)" "r = Inr ?d"
    using assms(1) Resolved_predicates by (auto simp: tex_readable_file_def returned_def)
  have "tex_readable_file_cache s2 (cache_key c p) = Some ?d"
    using Resolved_tex_readable_file_stored[OF d(1)] assms(2)
    by (auto simp: caches_grow_def intro: map_le_Some)
  then show ?thesis using Resolved_predicates d(2)
    by (simp add: tex_readable_file_def returned_def Resolved_tex_readable_file_def)
qed

lemma tex_writable_dir_again:
  assumes "tex_writable_dir fs cfg c p s = (r, s1)" "caches_grow s1 s2"
  shows "tex_writable_dir fs' cfg c p s2 = (r, s2)"
proof (cases "predicates_of c")
  case Base_predicates
  then show ?thesis using assms by (auto simp: tex_writable_dir_def)
next
  case String_predicates
  let ?d = "fst (String_tex_writable_dir cfg c p s)"
  have d: "String_tex_writable_dir cfg c p s = (?d, s1)" "r = Inr ?d"
    using assms(1) String_predicates by (auto simp: tex_writable_dir_def returned_def)
  have "tex_writable_dir_cache s2 (cache_key c p) = Some ?d"
    using String_tex_writable_dir_stored[OF d(1)] assms(2)
    by (auto simp: caches_grow_def intro: map_le_Some)
  then show ?thesis using String_predicates d(2)
    by (simp add: tex_writable_dir_def returned_def String_tex_writable_dir_def)
next
  case Resolved_predicates
  let ?d = "fst (Resolved_tex_writable_dir fs cfg c p s)"
  have d: "Resolved_tex_writable_dir fs cfg c p s = (?d, s1)" "r = Inr ?d"
    using assms(1) Resolved_predicates by (auto simp: tex_writable_dir_def returned_def)
  have "tex_writable_dir_cache s2 (cache_key c p) = Some ?d"
    using Resolved_tex_writable_dir_stored[OF d(1)] assms(2)
    by (auto simp: caches_grow_def intro: map_le_Some)
  then show ?thesis using Resolved_predicates d(2)
    by (simp add: tex_writable_dir_def returned_def Resolved_tex_writable_dir_def)
qed

lemma tex_writable_file_again:
  assumes "tex_writable_file fs cfg c p s = (r, s1)" "caches_grow s1 s2"
  shows "tex_writable_file fs' cfg c p s2 = (r, s2)"
proof (cases "predicates_of c")
  case Base_predicates
  then show ?thesis using assms by (auto simp: tex_writable_file_def)
next
  case String_predicates
  let ?d = "fst (String_tex_writable_file cfg c p s)"
  have d: "String_tex_writable_file cfg c p s = (?d, s1)" "r = Inr ?d"
    using assms(1) String_predicates by (auto simp: tex_writable_file_def returned_def)
  have "tex_writable_file_cache s2 (cache_key c p) = Some ?d"
    using String_tex_writable_file_stored[OF d(1)] assms(2)
    by (auto simp: caches_grow_def intro: map_le_Some)
  then show ?thesis using String_predicates d(2)
    by (simp add: tex_writable_file_def returned_def String_tex_writable_file_def)
next
  case Resolved_predicates
  let ?d = "fst (Resolved_tex_writable_file fs cfg c p s)"
  have d: "Resolved_tex_writable_file fs cfg c p s = (?d, s1)" "r = Inr ?d"
    using assms(1) Resolved_predicates by (auto simp: tex_writable_file_def returned_def)
  have "tex_writable_file_cache s2 (cache_key c p) = Some ?d"
    using Resolved_tex_writable_file_stored[OF d(1)] assms(2)
    by (auto simp: caches_grow_def intro: map_le_Some)
  then show ?thesis using Resolved_predicates d(2)
    by (simp add: tex_writable_file_def returned_def Resolved_tex_writable_file_def)
qed

text \<open>
  C7.  For every class and path and each of the four predicates: once a call has
  returned, every later call for the same class and path, after any further calls
  of any methods and whatever the file system has become, returns the same decision and
  leaves the state exactly as it finds it.  No call of \<open>resolve\<close> is counted, so only
  the first call resolves; the cached decision is never dropped or replaced.  The
  call directly after the first is the case of an empty run in between.
\<close>

theorem cached_decision_reused:
  "(run cfg (snd (tex_readable_dir fs cfg c p s)) s2 \<longrightarrow>
      tex_readable_dir fs' cfg c p s2 = (fst (tex_readable_dir fs cfg c p s), s2))
   \<and> (run cfg (snd (tex_readable_file fs cfg c p s)) s2 \<longrightarrow>
      tex_readable_file fs' cfg c p s2 = (fst (tex_readable_file fs cfg c p s), s2))
   \<and> (run cfg (snd (tex_writable_dir fs cfg c p s)) s2 \<longrightarrow>
      tex_writable_dir fs' cfg c p s2 = (fst (tex_writable_dir fs cfg c p s), s2))
   \<and> (run cfg (snd (tex_writable_file fs cfg c p s)) s2 \<longrightarrow>
      tex_writable_file fs' cfg c p s2 = (fst (tex_writable_file fs cfg c p s), s2))"
  by (auto intro: tex_readable_dir_again[OF prod.collapse[symmetric] run_caches_grow]
        tex_readable_file_again[OF prod.collapse[symmetric] run_caches_grow]
        tex_writable_dir_again[OF prod.collapse[symmetric] run_caches_grow]
        tex_writable_file_again[OF prod.collapse[symmetric] run_caches_grow])

lemmas ex_eval =
  tex_readable_dir_def tex_readable_file_def tex_writable_dir_def tex_writable_file_def
  returned_def Resolved_tex_readable_dir_def Resolved_tex_readable_file_def
  Resolved_tex_writable_dir_def Resolved_tex_writable_file_def
  String_tex_readable_dir_def String_tex_readable_file_def
  String_tex_writable_dir_def String_tex_writable_file_def
  put_readable_dir_def put_readable_file_def put_writable_dir_def put_writable_file_def
  tex_paranoid_roots_resolved_def tex_paranoid_roots_def tex_texmfoutput_roots_def tex_cwd_def
  TEXMFOUTPUT_def TEXMF_OUTPUT_DIRECTORY_def class_getattr_def initial_world_def ex_cfg_def
  ex_fs_def ex_fs_moved_def ex_file_def resolve_eq path_of_str_def startswith_def endswith_def
  set_add_def Let_def cache_key_def is_relative_to_def name_def parent_def parts_def
  tex_prohibited_write_file_extensions_def lower_def lower_char_def

lemma ex_first_calls:
  "fst (tex_readable_dir ex_fs ex_cfg ResolvedRestrictedPath ex_file (initial_world ''/''))
     = Inr (True, None)"
  "fst (tex_readable_file ex_fs ex_cfg ResolvedRestrictedPath ex_file (initial_world ''/''))
     = Inr (True, None)"
  "fst (tex_writable_dir ex_fs ex_cfg ResolvedRestrictedPath ex_file (initial_world ''/''))
     = Inr (True, None)"
  "fst (tex_writable_file ex_fs ex_cfg ResolvedRestrictedPath ex_file (initial_world ''/''))
     = Inr (True, None)"
  by (simp_all add: ex_eval)

lemma ex_moved_calls:
  "fst (tex_readable_file ex_fs_moved ex_cfg ResolvedRestrictedPath ex_file (initial_world ''/''))
     = Inr (False, Some reason_location)"
  by (simp_all add: ex_eval)

text \<open>
  In the example, \<open>a.tex\<close> is first decided on a file system that resolves it under the
  working directory.  Then the file system changes so that everything resolves into
  \<open>/etc\<close> (where a first decision would deny), and another file is deleted.  The
  decision for \<open>a.tex\<close> is still the first one, and the call changes nothing.
\<close>

theorem cached_decision_reused_witness:
  "run ex_cfg
     (snd (tex_readable_dir ex_fs ex_cfg ResolvedRestrictedPath ex_file (initial_world ''/'')))
     (snd (tex_readable_dir ex_fs ex_cfg ResolvedRestrictedPath ex_file (initial_world ''/'')))
   \<and> tex_readable_dir ex_fs_moved ex_cfg ResolvedRestrictedPath ex_file
       (snd (tex_readable_dir ex_fs ex_cfg ResolvedRestrictedPath ex_file (initial_world ''/'')))
     = (Inr (True, None),
        snd (tex_readable_dir ex_fs ex_cfg ResolvedRestrictedPath ex_file (initial_world ''/'')))
   \<and> run ex_cfg
     (snd (tex_readable_file ex_fs ex_cfg ResolvedRestrictedPath ex_file (initial_world ''/'')))
     (snd (unlink ex_fs_moved ex_cfg ResolvedRestrictedPath
             \<lparr>is_absolute = False, comps = [''b.aux'']\<rparr>
             (snd (tex_readable_file ex_fs ex_cfg ResolvedRestrictedPath ex_file
                     (initial_world ''/'')))))
   \<and> tex_readable_file ex_fs_moved ex_cfg ResolvedRestrictedPath ex_file
       (snd (unlink ex_fs_moved ex_cfg ResolvedRestrictedPath
               \<lparr>is_absolute = False, comps = [''b.aux'']\<rparr>
               (snd (tex_readable_file ex_fs ex_cfg ResolvedRestrictedPath ex_file
                       (initial_world ''/'')))))
     = (Inr (True, None),
        snd (unlink ex_fs_moved ex_cfg ResolvedRestrictedPath
               \<lparr>is_absolute = False, comps = [''b.aux'']\<rparr>
               (snd (tex_readable_file ex_fs ex_cfg ResolvedRestrictedPath ex_file
                       (initial_world ''/'')))))
   \<and> fst (tex_readable_file ex_fs_moved ex_cfg ResolvedRestrictedPath ex_file (initial_world ''/''))
     = Inr (False, Some reason_location)
   \<and> run ex_cfg
     (snd (tex_writable_dir ex_fs ex_cfg ResolvedRestrictedPath ex_file (initial_world ''/'')))
     (snd (tex_writable_dir ex_fs ex_cfg ResolvedRestrictedPath ex_file (initial_world ''/'')))
   \<and> tex_writable_dir ex_fs_moved ex_cfg ResolvedRestrictedPath ex_file
       (snd (tex_writable_dir ex_fs ex_cfg ResolvedRestrictedPath ex_file (initial_world ''/'')))
     = (Inr (True, None),
        snd (tex_writable_dir ex_fs ex_cfg ResolvedRestrictedPath ex_file (initial_world ''/'')))
   \<and> run ex_cfg
     (snd (tex_writable_file ex_fs ex_cfg ResolvedRestrictedPath ex_file (initial_world ''/'')))
     (snd (tex_writable_file ex_fs ex_cfg ResolvedRestrictedPath ex_file (initial_world ''/'')))
   \<and> tex_writable_file ex_fs_moved ex_cfg ResolvedRestrictedPath ex_file
       (snd (tex_writable_file ex_fs ex_cfg ResolvedRestrictedPath ex_file (initial_world ''/'')))
     = (Inr (True, None),
        snd (tex_writable_file ex_fs ex_cfg ResolvedRestrictedPath ex_file (initial_world ''/'')))"
proof -
  let ?i = "initial_world ''/''"
  let ?c = ResolvedRestrictedPath
  let ?s1 = "snd (tex_readable_file ex_fs ex_cfg ?c ex_file ?i)"
  let ?s2 = "snd (unlink ex_fs_moved ex_cfg ?c \<lparr>is_absolute = False, comps = [''b.aux'']\<rparr> ?s1)"
  have r: "run ex_cfg ?s1 ?s2" by (rule run_step[OF run_refl s_unlink])
  note t1 = cached_decision_reused[where cfg=ex_cfg and fs=ex_fs and c="?c" and p=ex_file
      and s="?i" and fs'=ex_fs_moved
      and ?s2.0="snd (tex_readable_dir ex_fs ex_cfg ?c ex_file ?i)"]
  note t2 = cached_decision_reused[where cfg=ex_cfg and fs=ex_fs and c="?c" and p=ex_file
      and s="?i" and fs'=ex_fs_moved and ?s2.0="?s2"]
  note t3 = cached_decision_reused[where cfg=ex_cfg and fs=ex_fs and c="?c" and p=ex_file
      and s="?i" and fs'=ex_fs_moved
      and ?s2.0="snd (tex_writable_dir ex_fs ex_cfg ?c ex_file ?i)"]
  note t4 = cached_decision_reused[where cfg=ex_cfg and fs=ex_fs and c="?c" and p=ex_file
      and s="?i" and fs'=ex_fs_moved
      and ?s2.0="snd (tex_writable_file ex_fs ex_cfg ?c ex_file ?i)"]
  show ?thesis
    using r t1 t2 t3 t4 run_refl[of ex_cfg] ex_first_calls ex_moved_calls by simp
qed

subsection \<open>Paths with a parent reference, and the shape of decisions\<close>

lemma lexical_predicates_rules:
  assumes "reachable cfg s" "predicates_of c = String_predicates"
  shows "fst (tex_readable_dir fs cfg c p s)
           = Inr (lexical_dir_rule (tex_can_read_anywhere cfg c) (absolute_access_roots cfg) p)"
    "fst (tex_writable_dir fs cfg c p s)
           = Inr (lexical_dir_rule (tex_can_write_anywhere cfg c) (absolute_access_roots cfg) p)"
    "fst (tex_readable_file fs cfg c p s) = Inr (lexical_readable_file_rule cfg c p)"
    "fst (tex_writable_file fs cfg c p s) = Inr (lexical_writable_file_rule cfg c p)"
  using String_tex_readable_dir_ok[OF reachable_inv[OF assms(1)] assms(2) prod.collapse[symmetric],
          where p=p]
        String_tex_writable_dir_ok[OF reachable_inv[OF assms(1)] assms(2) prod.collapse[symmetric],
          where p=p]
        String_tex_readable_file_ok[OF reachable_inv[OF assms(1)] assms(2) prod.collapse[symmetric],
          where p=p]
        String_tex_writable_file_ok[OF reachable_inv[OF assms(1)] assms(2) prod.collapse[symmetric],
          where p=p]
        assms(2)
  by (simp_all add: tex_readable_dir_def tex_writable_dir_def tex_readable_file_def
        tex_writable_file_def returned_def)

text \<open>
  C5, as amended.  For every class that runs the lexical predicates, in every reachable
  state, when the relevant anywhere boolean is false: \<open>tex_readable_dir\<close> and
  \<open>tex_writable_dir\<close> deny a path with a component \<open>..\<close> with the \<open>..\<close> reason;
  \<open>tex_readable_file\<close> and \<open>tex_writable_file\<close> check the file name first and return the
  reason of that check when it denies (the prohibited extension for writing, then the
  dotfile), and otherwise deny with the \<open>..\<close> reason when a component of the parent of the
  path is \<open>..\<close>.
\<close>

theorem lexical_dotdot_denied:
  assumes "reachable cfg s" "predicates_of c = String_predicates"
  shows "(\<not> tex_can_read_anywhere cfg c \<and> ''..'' \<in> set (parts p) \<longrightarrow>
            fst (tex_readable_dir fs cfg c p s) = Inr (False, Some reason_dotdot))
       \<and> (\<not> tex_can_write_anywhere cfg c \<and> ''..'' \<in> set (parts p) \<longrightarrow>
            fst (tex_writable_dir fs cfg c p s) = Inr (False, Some reason_dotdot))
       \<and> (\<not> tex_can_read_anywhere cfg c \<and> ''..'' \<in> set (parts (parent p)) \<longrightarrow>
            fst (tex_readable_file fs cfg c p s)
              = Inr (if \<not> tex_can_read_dotfiles cfg c \<and> startswith (name p) ''.''
                     then (False, Some reason_dotfiles) else (False, Some reason_dotdot)))
       \<and> (\<not> tex_can_write_anywhere cfg c \<and> ''..'' \<in> set (parts (parent p)) \<longrightarrow>
            fst (tex_writable_file fs cfg c p s)
              = Inr (case List.find (\<lambda>ext. endswith (lower (name p)) ext)
                            (tex_prohibited_write_file_extensions cfg c) of
                       Some ext \<Rightarrow> (False, Some (reason_extension ext))
                     | None \<Rightarrow>
                         if \<not> tex_can_write_dotfiles cfg c \<and> startswith (name p) ''.''
                         then (False, Some reason_dotfiles) else (False, Some reason_dotdot)))"
  using lexical_predicates_rules[OF assms]
  by (auto simp: lexical_dir_rule_def lexical_readable_file_rule_def
        lexical_writable_file_rule_def dotdot_in_parts split: option.splits)

text \<open>With the strict lexical class, \<open>../a\<close> is denied as a directory and \<open>../a/x.tex\<close>
  as a file, each with the \<open>..\<close> reason.\<close>

theorem lexical_dotdot_denied_witness:
  "reachable ex_cfg (initial_world ''/'')
   \<and> predicates_of SafeStringRestrictedPath = String_predicates
   \<and> \<not> tex_can_read_anywhere ex_cfg SafeStringRestrictedPath
   \<and> \<not> tex_can_write_anywhere ex_cfg SafeStringRestrictedPath
   \<and> ''..'' \<in> set (parts \<lparr>is_absolute = False, comps = [''..'', ''a'']\<rparr>)
   \<and> fst (tex_readable_dir ex_fs ex_cfg SafeStringRestrictedPath
            \<lparr>is_absolute = False, comps = [''..'', ''a'']\<rparr> (initial_world ''/''))
       = Inr (False, Some reason_dotdot)
   \<and> fst (tex_writable_dir ex_fs ex_cfg SafeStringRestrictedPath
            \<lparr>is_absolute = False, comps = [''..'', ''a'']\<rparr> (initial_world ''/''))
       = Inr (False, Some reason_dotdot)
   \<and> ''..'' \<in> set (parts (parent \<lparr>is_absolute = False, comps = [''..'', ''a'', ''x.tex'']\<rparr>))
   \<and> fst (tex_readable_file ex_fs ex_cfg SafeStringRestrictedPath
            \<lparr>is_absolute = False, comps = [''..'', ''a'', ''x.tex'']\<rparr> (initial_world ''/''))
       = Inr (False, Some reason_dotdot)
   \<and> fst (tex_writable_file ex_fs ex_cfg SafeStringRestrictedPath
            \<lparr>is_absolute = False, comps = [''..'', ''a'', ''x.tex'']\<rparr> (initial_world ''/''))
       = Inr (False, Some reason_dotdot)"
  using reachable_initial[of ex_cfg "''/''"]
    lexical_dotdot_denied[OF reachable_initial[of ex_cfg "''/''"], where c=SafeStringRestrictedPath and fs=ex_fs
      and p="\<lparr>is_absolute = False, comps = [''..'', ''a'']\<rparr>"]
    lexical_dotdot_denied[OF reachable_initial[of ex_cfg "''/''"], where c=SafeStringRestrictedPath and fs=ex_fs
      and p="\<lparr>is_absolute = False, comps = [''..'', ''a'', ''x.tex'']\<rparr>"]
  by (simp add: parts_def parent_def name_def startswith_def endswith_def ex_cfg_def lower_def
        lower_char_def tex_prohibited_write_file_extensions_def)

text \<open>
  C5 as stated fails for the file predicates.  With the strict lexical class, whose
  anywhere booleans are false, \<open>../.env\<close> contains \<open>..\<close> and is denied for reading with
  the dotfile reason, and \<open>../payload.bat\<close> contains \<open>..\<close> and is denied for writing with
  the extension reason: the checks of the file name come before the directory is
  looked at.
\<close>

theorem lexical_dotdot_other_reason:
  "''..'' \<in> set (parts \<lparr>is_absolute = False, comps = [''..'', ''.env'']\<rparr>)
   \<and> \<not> tex_can_read_anywhere ex_cfg SafeStringRestrictedPath
   \<and> fst (tex_readable_file ex_fs ex_cfg SafeStringRestrictedPath
            \<lparr>is_absolute = False, comps = [''..'', ''.env'']\<rparr> (initial_world ''/''))
       = Inr (False, Some reason_dotfiles)
   \<and> reason_dotfiles \<noteq> reason_dotdot
   \<and> ''..'' \<in> set (parts \<lparr>is_absolute = False, comps = [''..'', ''payload.bat'']\<rparr>)
   \<and> \<not> tex_can_write_anywhere ex_cfg SafeStringRestrictedPath
   \<and> fst (tex_writable_file ex_fs ex_cfg SafeStringRestrictedPath
            \<lparr>is_absolute = False, comps = [''..'', ''payload.bat'']\<rparr> (initial_world ''/''))
       = Inr (False, Some (reason_extension ''.bat''))
   \<and> reason_extension ''.bat'' \<noteq> reason_dotdot"
  by (simp add: ex_eval reason_dotfiles_def reason_dotdot_def reason_extension_def)

text \<open>
  C6, as amended.  In every reachable state, for every class of either validator and
  every path, each of the four predicates returns either \<open>(True, None)\<close> or
  \<open>(False, r)\<close> with \<open>r\<close> one of the reasons of the code: the \<open>..\<close> reason, written with
  \<open>..\<close> between double quotes, the location reason, the dotfile reason, or the extension
  reason for one of the configured extensions.
\<close>

theorem decisions_well_formed:
  assumes "reachable cfg s" "predicates_of c \<noteq> Base_predicates"
  shows "(\<exists>d. fst (tex_readable_dir fs cfg c p s) = Inr d \<and> decision_ok cfg d)
       \<and> (\<exists>d. fst (tex_readable_file fs cfg c p s) = Inr d \<and> decision_ok cfg d)
       \<and> (\<exists>d. fst (tex_writable_dir fs cfg c p s) = Inr d \<and> decision_ok cfg d)
       \<and> (\<exists>d. fst (tex_writable_file fs cfg c p s) = Inr d \<and> decision_ok cfg d)"
proof -
  note i = reachable_inv[OF assms(1)]
  have r: "\<And>r. (\<exists>d. r = Inr d) \<Longrightarrow> (\<forall>d. r = Inr d \<longrightarrow> decision_ok cfg d)
            \<Longrightarrow> (\<exists>d. r = Inr d \<and> decision_ok cfg d)" by blast
  have e: "\<exists>d. fst (tex_readable_dir fs cfg c p s) = Inr d"
    "\<exists>d. fst (tex_readable_file fs cfg c p s) = Inr d"
    "\<exists>d. fst (tex_writable_dir fs cfg c p s) = Inr d"
    "\<exists>d. fst (tex_writable_file fs cfg c p s) = Inr d"
    using assms(2)
    by (cases "predicates_of c";
        simp add: tex_readable_dir_def tex_readable_file_def tex_writable_dir_def
          tex_writable_file_def returned_def)+
  show ?thesis
    using r[OF e(1)] r[OF e(2)] r[OF e(3)] r[OF e(4)]
      tex_readable_dir_inv[OF i prod.collapse[symmetric], of fs c p]
      tex_readable_file_inv[OF i prod.collapse[symmetric], of fs c p]
      tex_writable_dir_inv[OF i prod.collapse[symmetric], of fs c p]
      tex_writable_file_inv[OF i prod.collapse[symmetric], of fs c p]
    by blast
qed

text \<open>The four decisions for \<open>../payload.bat\<close> with the resolved class of the example,
  on the file system in which everything resolves into \<open>/etc\<close>.\<close>

theorem decisions_well_formed_witness:
  "reachable ex_cfg (initial_world ''/'')
   \<and> predicates_of ResolvedRestrictedPath \<noteq> Base_predicates
   \<and> fst (tex_readable_dir ex_fs_moved ex_cfg ResolvedRestrictedPath
            \<lparr>is_absolute = False, comps = [''..'', ''payload.bat'']\<rparr> (initial_world ''/''))
       = Inr (False, Some reason_location)
   \<and> fst (tex_writable_file ex_fs_moved ex_cfg ResolvedRestrictedPath
            \<lparr>is_absolute = False, comps = [''..'', ''payload.bat'']\<rparr> (initial_world ''/''))
       = Inr (False, Some (reason_extension ''.bat''))
   \<and> decision_ok ex_cfg (False, Some reason_location)
   \<and> decision_ok ex_cfg (False, Some (reason_extension ''.bat''))"
  using reachable_initial[of ex_cfg "''/''"]
    decisions_well_formed[OF reachable_initial[of ex_cfg "''/''"], where c=ResolvedRestrictedPath and fs=ex_fs_moved
      and p="\<lparr>is_absolute = False, comps = [''..'', ''payload.bat'']\<rparr>"]
  by (simp add: ex_eval)

text \<open>
  C6 as stated fails on the first template.  The specification writes it with \<open>..\<close>
  between single quotes; the reason the code returns for \<open>../a\<close> has \<open>..\<close> between double
  quotes, and is none of the templates of the specification.
\<close>

theorem dotdot_reason_not_in_spec_templates:
  "fst (tex_readable_dir ex_fs ex_cfg SafeStringRestrictedPath
          \<lparr>is_absolute = False, comps = [''..'', ''a'']\<rparr> (initial_world ''/''))
     = Inr (False, Some reason_dotdot)
   \<and> reason_dotdot \<notin> spec_reason_templates"
  by (auto simp: ex_eval spec_reason_templates_def spec_reason_dotdot_def reason_dotdot_def
        reason_location_def reason_dotfiles_def reason_extension_def)

subsection \<open>The gated operations and the resolved file predicates\<close>

lemma move_log:
  "fs_log (snd (move call fs cfg c p target s)) = fs_log s
   \<or> fst (move call fs cfg c p target s) = Inr ()"
  by (auto simp: move_def split: option.splits)

text \<open>
  C3.  \<open>rename\<close> and \<open>replace\<close> call the writable-file predicate of the source and, when
  it allows, of the target, before any call of the underlying path class.  When the
  predicate of the source denies, the operation raises \<open>PathSecurityError\<close> with the
  source path and the reason of that decision; when the source is allowed and the
  predicate of the target denies, it raises \<open>PathSecurityError\<close> with the target path
  and the reason of that decision; in both cases the log of file-system calls is as
  before.  Whenever the log has changed, both predicates have allowed and the operation
  has returned.
\<close>

theorem rename_replace_gate:
  "(tex_writable_file fs cfg c p s = (Inr (False, r), s1) \<longrightarrow>
      rename fs cfg c p tc target s
        = (Inl (PathSecurityError
                  (''Cannot rename file \"'' @ as_posix p @ ''\":  '' @ str_of_reason r)), s1)
      \<and> fs_log s1 = fs_log s)
   \<and> (tex_writable_file fs cfg c p s = (Inr (True, r), s1)
      \<and> tex_writable_file fs cfg tc target s1 = (Inr (False, r'), s2) \<longrightarrow>
      rename fs cfg c p tc target s
        = (Inl (PathSecurityError
                  (''Cannot create renamed file \"'' @ as_posix target @ ''\":  ''
                   @ str_of_reason r')), s2)
      \<and> fs_log s2 = fs_log s)
   \<and> (fs_log (snd (rename fs cfg c p tc target s)) \<noteq> fs_log s \<longrightarrow>
      (\<exists>r s1 r' s2. tex_writable_file fs cfg c p s = (Inr (True, r), s1)
         \<and> tex_writable_file fs cfg tc target s1 = (Inr (True, r'), s2))
      \<and> fst (rename fs cfg c p tc target s) = Inr ())
   \<and> (tex_writable_file fs cfg c p s = (Inr (False, r), s1) \<longrightarrow>
      replace fs cfg c p tc target s
        = (Inl (PathSecurityError
                  (''Cannot replace file \"'' @ as_posix p @ ''\":  '' @ str_of_reason r)), s1)
      \<and> fs_log s1 = fs_log s)
   \<and> (tex_writable_file fs cfg c p s = (Inr (True, r), s1)
      \<and> tex_writable_file fs cfg tc target s1 = (Inr (False, r'), s2) \<longrightarrow>
      replace fs cfg c p tc target s
        = (Inl (PathSecurityError
                  (''Cannot create replacement file \"'' @ as_posix target @ ''\":  ''
                   @ str_of_reason r')), s2)
      \<and> fs_log s2 = fs_log s)
   \<and> (fs_log (snd (replace fs cfg c p tc target s)) \<noteq> fs_log s \<longrightarrow>
      (\<exists>r s1 r' s2. tex_writable_file fs cfg c p s = (Inr (True, r), s1)
         \<and> tex_writable_file fs cfg tc target s1 = (Inr (True, r'), s2))
      \<and> fst (replace fs cfg c p tc target s) = Inr ())"
proof -
  obtain v1 t1 where a: "tex_writable_file fs cfg c p s = (v1, t1)"
    by (cases "tex_writable_file fs cfg c p s")
  obtain v2 t2 where b: "tex_writable_file fs cfg tc target t1 = (v2, t2)"
    by (cases "tex_writable_file fs cfg tc target t1")
  have l1: "fs_log t1 = fs_log s" using tex_writable_file_frame[OF a] by (simp add: frame_def)
  have l2: "fs_log t2 = fs_log s"
    using tex_writable_file_frame[OF b] l1 by (simp add: frame_def)
  show ?thesis
    using a b l1 l2 move_log[of Fs_rename fs cfg c p target t2]
      move_log[of Fs_replace fs cfg c p target t2]
    by (auto simp: rename_eq replace_eq split: sum.splits)
qed

text \<open>
  In the example, with the resolved class: renaming \<open>a.tex\<close> to \<open>/etc/b.tex\<close> passes the
  check of the source and fails the check of the target, and no call is logged; replacing
  \<open>payload.bat\<close> fails the check of the source.
\<close>

theorem rename_replace_gate_witness:
  "fst (tex_writable_file ex_fs ex_cfg ResolvedRestrictedPath ex_file (initial_world ''/''))
     = Inr (True, None)
   \<and> fst (tex_writable_file ex_fs ex_cfg ResolvedRestrictedPath
            \<lparr>is_absolute = True, comps = [''etc'', ''b.tex'']\<rparr>
            (snd (tex_writable_file ex_fs ex_cfg ResolvedRestrictedPath ex_file
                    (initial_world ''/''))))
     = Inr (False, Some reason_location)
   \<and> fst (rename ex_fs ex_cfg ResolvedRestrictedPath ex_file ResolvedRestrictedPath
            \<lparr>is_absolute = True, comps = [''etc'', ''b.tex'']\<rparr> (initial_world ''/''))
     = Inl (PathSecurityError
         ''Cannot create renamed file \"/etc/b.tex\":  security settings do not permit access to this location'')
   \<and> fs_log (snd (rename ex_fs ex_cfg ResolvedRestrictedPath ex_file ResolvedRestrictedPath
            \<lparr>is_absolute = True, comps = [''etc'', ''b.tex'']\<rparr> (initial_world ''/'')))
     = []
   \<and> fst (tex_writable_file ex_fs ex_cfg ResolvedRestrictedPath
            \<lparr>is_absolute = False, comps = [''payload.bat'']\<rparr> (initial_world ''/''))
     = Inr (False, Some (reason_extension ''.bat''))
   \<and> fst (replace ex_fs ex_cfg ResolvedRestrictedPath
            \<lparr>is_absolute = False, comps = [''payload.bat'']\<rparr> ResolvedRestrictedPath ex_file
            (initial_world ''/''))
     = Inl (PathSecurityError
         ''Cannot replace file \"payload.bat\":  security settings prevent writing files with extension \".bat\"'')
   \<and> fs_log (snd (replace ex_fs ex_cfg ResolvedRestrictedPath
            \<lparr>is_absolute = False, comps = [''payload.bat'']\<rparr> ResolvedRestrictedPath ex_file
            (initial_world ''/'')))
     = []"
proof -
  let ?i = "initial_world ''/''"
  let ?c = ResolvedRestrictedPath
  let ?t = "\<lparr>is_absolute = True, comps = [''etc'', ''b.tex'']\<rparr>"
  let ?b = "\<lparr>is_absolute = False, comps = [''payload.bat'']\<rparr>"
  let ?s1 = "snd (tex_writable_file ex_fs ex_cfg ?c ex_file ?i)"
  let ?s2 = "snd (tex_writable_file ex_fs ex_cfg ?c ?t ?s1)"
  let ?u1 = "snd (tex_writable_file ex_fs ex_cfg ?c ?b ?i)"
  have a: "fst (tex_writable_file ex_fs ex_cfg ?c ex_file ?i) = Inr (True, None)"
    by (simp add: ex_eval)
  have b: "fst (tex_writable_file ex_fs ex_cfg ?c ?t ?s1) = Inr (False, Some reason_location)"
    by (simp add: ex_eval)
  have c: "fst (tex_writable_file ex_fs ex_cfg ?c ?b ?i) = Inr (False, Some (reason_extension ''.bat''))"
    by (simp add: ex_eval)
  have a': "tex_writable_file ex_fs ex_cfg ?c ex_file ?i = (Inr (True, None), ?s1)"
    using a by (simp add: prod_eq_iff)
  have b': "tex_writable_file ex_fs ex_cfg ?c ?t ?s1 = (Inr (False, Some reason_location), ?s2)"
    using b by (simp add: prod_eq_iff)
  have c': "tex_writable_file ex_fs ex_cfg ?c ?b ?i
            = (Inr (False, Some (reason_extension ''.bat'')), ?u1)"
    using c by (simp add: prod_eq_iff)
  note t1 = rename_replace_gate[where fs=ex_fs and cfg=ex_cfg and c="?c" and p=ex_file
      and tc="?c" and target="?t" and s="?i" and r=None and ?s1.0="?s1"
      and r'="Some reason_location" and ?s2.0="?s2"]
  note t2 = rename_replace_gate[where fs=ex_fs and cfg=ex_cfg and c="?c" and p="?b"
      and tc="?c" and target=ex_file and s="?i" and r="Some (reason_extension ''.bat'')"
      and ?s1.0="?u1"]
  have m1: "fst (rename ex_fs ex_cfg ?c ex_file ?c ?t ?i)
       = Inl (PathSecurityError (''Cannot create renamed file \"'' @ as_posix ?t @ ''\":  ''
                @ str_of_reason (Some reason_location)))"
    "fs_log (snd (rename ex_fs ex_cfg ?c ex_file ?c ?t ?i)) = fs_log ?i"
    using t1 a' b' by simp_all
  have m2: "fst (replace ex_fs ex_cfg ?c ?b ?c ex_file ?i)
       = Inl (PathSecurityError (''Cannot replace file \"'' @ as_posix ?b @ ''\":  ''
                @ str_of_reason (Some (reason_extension ''.bat''))))"
    "fs_log (snd (replace ex_fs ex_cfg ?c ?b ?c ex_file ?i)) = fs_log ?i"
    using t2 c' by simp_all
  show ?thesis
    using a b c m1 m2
    by (simp add: as_posix_def str_of_reason_def reason_location_def reason_extension_def
          initial_world_def)
qed

lemma read_policy_with_write_policy [simp]:
  "tex_can_read_anywhere (with_write_policy a b e cfg) c = tex_can_read_anywhere cfg c"
  "tex_can_read_dotfiles (with_write_policy a b e cfg) c = tex_can_read_dotfiles cfg c"
  by (cases c; simp add: with_write_policy_def)+

lemma fields_with_write_policy [simp]:
  "cfg_tex_cwd (with_write_policy a b e cfg) = cfg_tex_cwd cfg"
  "cfg_TEXMFOUTPUT (with_write_policy a b e cfg) = cfg_TEXMFOUTPUT cfg"
  "cfg_TEXMF_OUTPUT_DIRECTORY (with_write_policy a b e cfg) = cfg_TEXMF_OUTPUT_DIRECTORY cfg"
  by (simp_all add: with_write_policy_def)

lemma roots_with_write_policy [simp]:
  "tex_cwd (with_write_policy a b e cfg) = tex_cwd cfg"
  "TEXMFOUTPUT (with_write_policy a b e cfg) = TEXMFOUTPUT cfg"
  "TEXMF_OUTPUT_DIRECTORY (with_write_policy a b e cfg) = TEXMF_OUTPUT_DIRECTORY cfg"
  by (simp_all add: fun_eq_iff tex_cwd_def TEXMFOUTPUT_def TEXMF_OUTPUT_DIRECTORY_def
        split: sum.splits)

lemma root_sets_with_write_policy [simp]:
  "tex_paranoid_roots (with_write_policy a b e cfg) = tex_paranoid_roots cfg"
  "tex_texmfoutput_roots (with_write_policy a b e cfg) = tex_texmfoutput_roots cfg"
  unfolding fun_eq_iff tex_paranoid_roots_def tex_texmfoutput_roots_def roots_with_write_policy
  by simp_all

lemma resolve_with_write_policy [simp]:
  "resolve fs (with_write_policy a b e cfg) = resolve fs cfg"
  by (simp add: fun_eq_iff resolve_eq)

lemma resolve_all_with_write_policy [simp]:
  "resolve_all fs (with_write_policy a b e cfg) = resolve_all fs cfg"
  by (simp add: fun_eq_iff resolve_all_eq)

lemma tex_paranoid_roots_resolved_with_write_policy [simp]:
  "tex_paranoid_roots_resolved fs (with_write_policy a b e cfg) = tex_paranoid_roots_resolved fs cfg"
  unfolding fun_eq_iff tex_paranoid_roots_resolved_def root_sets_with_write_policy
    resolve_all_with_write_policy
  by simp

lemma readable_dir_with_write_policy [simp]:
  "String_tex_readable_dir (with_write_policy a b e cfg) = String_tex_readable_dir cfg"
  "Resolved_tex_readable_dir fs (with_write_policy a b e cfg) = Resolved_tex_readable_dir fs cfg"
  unfolding fun_eq_iff String_tex_readable_dir_def Resolved_tex_readable_dir_def
    read_policy_with_write_policy root_sets_with_write_policy resolve_with_write_policy
    tex_paranoid_roots_resolved_with_write_policy
  by simp_all

lemma readable_file_with_write_policy [simp]:
  "String_tex_readable_file (with_write_policy a b e cfg) = String_tex_readable_file cfg"
  "Resolved_tex_readable_file fs (with_write_policy a b e cfg) = Resolved_tex_readable_file fs cfg"
  unfolding fun_eq_iff String_tex_readable_file_def Resolved_tex_readable_file_def
    read_policy_with_write_policy readable_dir_with_write_policy resolve_with_write_policy
  by simp_all

lemma tex_readable_file_with_write_policy [simp]:
  "tex_readable_file fs (with_write_policy a b e cfg) = tex_readable_file fs cfg"
  unfolding fun_eq_iff tex_readable_file_def readable_file_with_write_policy by simp

lemma checked_with_write_policy [simp]:
  "checked v fs (with_write_policy a b e cfg) = checked v fs cfg"
  unfolding fun_eq_iff checked_def resolve_with_write_policy by simp

lemma checked_caches:
  "tex_readable_dir_cache (snd (checked v fs cfg c p what call)) = tex_readable_dir_cache (snd v)"
  "tex_readable_file_cache (snd (checked v fs cfg c p what call)) = tex_readable_file_cache (snd v)"
  "tex_writable_dir_cache (snd (checked v fs cfg c p what call)) = tex_writable_dir_cache (snd v)"
  "tex_writable_file_cache (snd (checked v fs cfg c p what call)) = tex_writable_file_cache (snd v)"
  by (auto simp: checked_def resolve_eq split: prod.splits sum.splits option.splits)

text \<open>
  C4.  For every class, path and mode that contains the character \<open>r\<close> (such as
  \<open>r+\<close>), \<open>open\<close> is the check of \<open>tex_readable_file\<close> followed by the call of the
  underlying \<open>open\<close> with that mode.  The writable predicates are not called: their caches
  are as before, and the outcome is the same under any other write settings of the
  configuration (write-anywhere, write-dotfiles, prohibited extensions).  A mode with
  none of \<open>r\<close>, \<open>w\<close>, \<open>x\<close>, \<open>a\<close> raises \<open>NotImplementedError\<close> and changes nothing.
\<close>

theorem open_read_mode_checks_readable_only:
  "(CHR ''r'' \<in> set mode \<longrightarrow>
      open_path fs cfg c p mode s
        = checked (tex_readable_file fs cfg c p s) fs cfg c p ''Cannot read file''
            (\<lambda>q. Fs_open q mode)
      \<and> tex_writable_dir_cache (snd (open_path fs cfg c p mode s)) = tex_writable_dir_cache s
      \<and> tex_writable_file_cache (snd (open_path fs cfg c p mode s)) = tex_writable_file_cache s
      \<and> open_path fs (with_write_policy a b e cfg) c p mode s = open_path fs cfg c p mode s)
   \<and> (\<not> (\<exists>char \<in> set ''rwxa''. char \<in> set mode) \<longrightarrow>
      open_path fs cfg c p mode s = (Inl NotImplementedError, s))"
  using tex_readable_file_frame[OF prod.collapse[symmetric], where fs=fs and cfg=cfg and c=c and p=p and s=s]
  by (auto simp: open_path_eq checked_caches frame_def)

text \<open>
  In the example \<open>.bat\<close> is a prohibited extension and \<open>tex_writable_file\<close> denies
  \<open>payload.bat\<close>, yet \<open>open\<close> with mode \<open>r+\<close> passes and reaches the underlying \<open>open\<close>.
  The mode \<open>b\<close> raises \<open>NotImplementedError\<close>.
\<close>

theorem open_read_mode_checks_readable_only_witness:
  "CHR ''r'' \<in> set ''r+''
   \<and> fst (open_path ex_fs ex_cfg StringRestrictedPath
            \<lparr>is_absolute = False, comps = [''payload.bat'']\<rparr> ''r+'' (initial_world ''/''))
     = Inr ()
   \<and> fs_log (snd (open_path ex_fs ex_cfg StringRestrictedPath
            \<lparr>is_absolute = False, comps = [''payload.bat'']\<rparr> ''r+'' (initial_world ''/'')))
     = [Fs_open \<lparr>is_absolute = False, comps = [''payload.bat'']\<rparr> ''r+'']
   \<and> tex_writable_file_cache (snd (open_path ex_fs ex_cfg StringRestrictedPath
            \<lparr>is_absolute = False, comps = [''payload.bat'']\<rparr> ''r+'' (initial_world ''/'')))
     = Map.empty
   \<and> fst (tex_writable_file ex_fs ex_cfg StringRestrictedPath
            \<lparr>is_absolute = False, comps = [''payload.bat'']\<rparr> (initial_world ''/''))
     = Inr (False, Some (reason_extension ''.bat''))
   \<and> \<not> (\<exists>char \<in> set ''rwxa''. char \<in> set ''b'')
   \<and> open_path ex_fs ex_cfg StringRestrictedPath
         \<lparr>is_absolute = False, comps = [''payload.bat'']\<rparr> ''b'' (initial_world ''/'')
     = (Inl NotImplementedError, initial_world ''/'')"
proof -
  let ?p = "\<lparr>is_absolute = False, comps = [''payload.bat'']\<rparr>"
  note t1 = open_read_mode_checks_readable_only[where mode="''r+''" and fs=ex_fs and cfg=ex_cfg
      and c=StringRestrictedPath and p="?p" and s="initial_world ''/''"]
  note t2 = open_read_mode_checks_readable_only[where mode="''b''" and fs=ex_fs and cfg=ex_cfg
      and c=StringRestrictedPath and p="?p" and s="initial_world ''/''"]
  have r: "CHR ''r'' \<in> set ''r+''" and n: "\<not> (\<exists>char \<in> set ''rwxa''. char \<in> set ''b'')"
    by simp_all
  have o: "open_path ex_fs ex_cfg StringRestrictedPath ?p ''r+'' (initial_world ''/'')
        = checked (tex_readable_file ex_fs ex_cfg StringRestrictedPath ?p (initial_world ''/''))
            ex_fs ex_cfg StringRestrictedPath ?p ''Cannot read file'' (\<lambda>q. Fs_open q ''r+'')"
    and w: "tex_writable_file_cache (snd (open_path ex_fs ex_cfg StringRestrictedPath ?p ''r+''
              (initial_world ''/''))) = tex_writable_file_cache (initial_world ''/'')"
    using t1 r by blast+
  have b: "open_path ex_fs ex_cfg StringRestrictedPath ?p ''b'' (initial_world ''/'')
        = (Inl NotImplementedError, initial_world ''/'')"
    using t2 n by blast
  have e: "fst (tex_writable_file ex_fs ex_cfg StringRestrictedPath ?p (initial_world ''/''))
        = Inr (False, Some (reason_extension ''.bat''))"
    by (simp add: ex_eval)
  show ?thesis
    unfolding o using r n b w e unfolding o
    by (simp add: ex_eval checked_def)
qed

lemma frame_resolve_calls: "frame rd rf wd wfl s s' \<Longrightarrow> resolve_calls s \<le> resolve_calls s'"
  by (simp add: frame_def)

lemma lower_name_endswith_lower:
  "lower ext = ext \<Longrightarrow> lower_name_endswith file_name ext = ends_case_insensitively file_name ext"
  by (simp add: lower_name_endswith_def ends_case_insensitively_def)

lemma resolved_writable_file_rule_lower:
  assumes "\<forall>ext \<in> set extensions. lower ext = ext"
  shows "resolved_writable_file_rule lower_name_endswith extensions write_dotfiles original
             resolved deny_extension deny_dotfile of_parent
           = resolved_writable_file_rule ends_case_insensitively extensions write_dotfiles
               original resolved deny_extension deny_dotfile of_parent"
proof -
  have "List.find (\<lambda>ext. lower_name_endswith original ext \<or> lower_name_endswith resolved ext)
            extensions
          = List.find (\<lambda>ext. ends_case_insensitively original ext
                              \<or> ends_case_insensitively resolved ext) extensions"
    using assms by (intro find_cong) (simp_all add: lower_name_endswith_lower)
  then show ?thesis by (simp add: resolved_writable_file_rule_def)
qed

lemma Resolved_file_predicates_uncached:
  assumes "predicates_of c = Resolved_predicates"
  shows "tex_readable_file_cache s (cache_key c p) = None \<Longrightarrow>
            fst (tex_readable_file fs cfg c p s)
              = resolved_readable_file_rule (tex_can_read_dotfiles cfg c)
                  (name p) (name (fs_resolve fs p))
                  (Inr (False, Some reason_dotfiles))
                  (fst (tex_readable_dir fs cfg c (parent (fs_resolve fs p))
                          (snd (resolve fs cfg p s))))
            \<and> resolve_calls s < resolve_calls (snd (tex_readable_file fs cfg c p s))"
    and "tex_writable_file_cache s (cache_key c p) = None \<Longrightarrow>
            fst (tex_writable_file fs cfg c p s)
              = resolved_writable_file_rule lower_name_endswith
                  (tex_prohibited_write_file_extensions cfg c)
                  (tex_can_write_dotfiles cfg c) (name p) (name (fs_resolve fs p))
                  (\<lambda>ext. Inr (False, Some (reason_extension ext)))
                  (Inr (False, Some reason_dotfiles))
                  (fst (tex_writable_dir fs cfg c (parent (fs_resolve fs p))
                          (snd (resolve fs cfg p s))))
            \<and> resolve_calls s < resolve_calls (snd (tex_writable_file fs cfg c p s))"
proof -
  let ?s0 = "s\<lparr>resolve_calls := Suc (resolve_calls s)\<rparr>"
  let ?q = "parent (fs_resolve fs p)"
  have r: "resolve_calls ?s0 \<le> resolve_calls (snd (Resolved_tex_readable_dir fs cfg c ?q ?s0))"
    by (rule frame_resolve_calls[OF Resolved_tex_readable_dir_frame[OF prod.collapse[symmetric]]])
  have w: "resolve_calls ?s0 \<le> resolve_calls (snd (Resolved_tex_writable_dir fs cfg c ?q ?s0))"
    by (rule frame_resolve_calls[OF Resolved_tex_writable_dir_frame[OF prod.collapse[symmetric]]])
  show "tex_readable_file_cache s (cache_key c p) = None \<Longrightarrow>
            fst (tex_readable_file fs cfg c p s)
              = resolved_readable_file_rule (tex_can_read_dotfiles cfg c)
                  (name p) (name (fs_resolve fs p))
                  (Inr (False, Some reason_dotfiles))
                  (fst (tex_readable_dir fs cfg c (parent (fs_resolve fs p))
                          (snd (resolve fs cfg p s))))
            \<and> resolve_calls s < resolve_calls (snd (tex_readable_file fs cfg c p s))"
    using assms r
    by (auto simp: tex_readable_file_def tex_readable_dir_def returned_def
          Resolved_tex_readable_file_def resolve_eq put_readable_file_def
          resolved_readable_file_rule_def Let_def
          split: prod.splits option.splits)
  show "tex_writable_file_cache s (cache_key c p) = None \<Longrightarrow>
            fst (tex_writable_file fs cfg c p s)
              = resolved_writable_file_rule lower_name_endswith
                  (tex_prohibited_write_file_extensions cfg c)
                  (tex_can_write_dotfiles cfg c) (name p) (name (fs_resolve fs p))
                  (\<lambda>ext. Inr (False, Some (reason_extension ext)))
                  (Inr (False, Some reason_dotfiles))
                  (fst (tex_writable_dir fs cfg c (parent (fs_resolve fs p))
                          (snd (resolve fs cfg p s))))
            \<and> resolve_calls s < resolve_calls (snd (tex_writable_file fs cfg c p s))"
    using assms w
    by (auto simp: tex_writable_file_def tex_writable_dir_def returned_def
          Resolved_tex_writable_file_def resolve_eq put_writable_file_def
          resolved_writable_file_rule_def lower_name_endswith_def Let_def
          split: prod.splits option.splits)
qed

text \<open>
  C2, as amended.  For every class that runs the resolved predicates and every path whose
  decision is not yet cached: \<open>tex_readable_file\<close> resolves the path; it denies with the
  dotfile reason when reading dotfiles is disabled and the original or the resolved file
  name starts with \<open>.\<close>, and otherwise returns what \<open>tex_readable_dir\<close> returns for the
  parent of the resolved path.  \<open>tex_writable_file\<close> resolves the path; it denies with the
  extension reason for the first prohibited extension, taken as it is configured, with
  which the original or the resolved file name, brought to lower case, ends; otherwise
  it denies with the dotfile reason under the same two-name check with the
  write-dotfiles policy, and otherwise returns what \<open>tex_writable_dir\<close> returns for the
  parent of the resolved path.  When every configured extension is in lower case, this
  comparison is the case-insensitive one.  (A cached decision is returned as it is, see
  C7.)
\<close>

theorem resolved_file_predicates:
  assumes "predicates_of c = Resolved_predicates"
  shows "(tex_readable_file_cache s (cache_key c p) = None \<longrightarrow>
            fst (tex_readable_file fs cfg c p s)
              = resolved_readable_file_rule (tex_can_read_dotfiles cfg c)
                  (name p) (name (fs_resolve fs p))
                  (Inr (False, Some reason_dotfiles))
                  (fst (tex_readable_dir fs cfg c (parent (fs_resolve fs p))
                          (snd (resolve fs cfg p s))))
            \<and> resolve_calls s < resolve_calls (snd (tex_readable_file fs cfg c p s)))
       \<and> (tex_writable_file_cache s (cache_key c p) = None \<longrightarrow>
            fst (tex_writable_file fs cfg c p s)
              = resolved_writable_file_rule lower_name_endswith
                  (tex_prohibited_write_file_extensions cfg c)
                  (tex_can_write_dotfiles cfg c) (name p) (name (fs_resolve fs p))
                  (\<lambda>ext. Inr (False, Some (reason_extension ext)))
                  (Inr (False, Some reason_dotfiles))
                  (fst (tex_writable_dir fs cfg c (parent (fs_resolve fs p))
                          (snd (resolve fs cfg p s))))
            \<and> ((\<forall>ext \<in> set (tex_prohibited_write_file_extensions cfg c). lower ext = ext) \<longrightarrow>
                 fst (tex_writable_file fs cfg c p s)
                   = resolved_writable_file_rule ends_case_insensitively
                       (tex_prohibited_write_file_extensions cfg c)
                       (tex_can_write_dotfiles cfg c) (name p) (name (fs_resolve fs p))
                       (\<lambda>ext. Inr (False, Some (reason_extension ext)))
                       (Inr (False, Some reason_dotfiles))
                       (fst (tex_writable_dir fs cfg c (parent (fs_resolve fs p))
                               (snd (resolve fs cfg p s)))))
            \<and> resolve_calls s < resolve_calls (snd (tex_writable_file fs cfg c p s)))"
proof (intro conjI impI)
  assume "tex_readable_file_cache s (cache_key c p) = None"
  from Resolved_file_predicates_uncached(1)[OF assms this]
  show "fst (tex_readable_file fs cfg c p s)
          = resolved_readable_file_rule (tex_can_read_dotfiles cfg c)
              (name p) (name (fs_resolve fs p))
              (Inr (False, Some reason_dotfiles))
              (fst (tex_readable_dir fs cfg c (parent (fs_resolve fs p))
                      (snd (resolve fs cfg p s))))"
    and "resolve_calls s < resolve_calls (snd (tex_readable_file fs cfg c p s))"
    by blast+
next
  assume "tex_writable_file_cache s (cache_key c p) = None"
  from Resolved_file_predicates_uncached(2)[OF assms this]
  show w: "fst (tex_writable_file fs cfg c p s)
          = resolved_writable_file_rule lower_name_endswith
              (tex_prohibited_write_file_extensions cfg c)
              (tex_can_write_dotfiles cfg c) (name p) (name (fs_resolve fs p))
              (\<lambda>ext. Inr (False, Some (reason_extension ext)))
              (Inr (False, Some reason_dotfiles))
              (fst (tex_writable_dir fs cfg c (parent (fs_resolve fs p))
                      (snd (resolve fs cfg p s))))"
    and "resolve_calls s < resolve_calls (snd (tex_writable_file fs cfg c p s))"
    by blast+
  assume "\<forall>ext \<in> set (tex_prohibited_write_file_extensions cfg c). lower ext = ext"
  from w resolved_writable_file_rule_lower[OF this]
  show "fst (tex_writable_file fs cfg c p s)
          = resolved_writable_file_rule ends_case_insensitively
              (tex_prohibited_write_file_extensions cfg c)
              (tex_can_write_dotfiles cfg c) (name p) (name (fs_resolve fs p))
              (\<lambda>ext. Inr (False, Some (reason_extension ext)))
              (Inr (False, Some reason_dotfiles))
              (fst (tex_writable_dir fs cfg c (parent (fs_resolve fs p))
                      (snd (resolve fs cfg p s))))"
    by simp
qed

text \<open>
  With the strict resolved class, \<open>notes.txt\<close> is denied for reading with the dotfile
  reason because of the name it resolves to, and \<open>out.txt\<close> is denied for writing with
  the extension reason because the name it resolves to ends, whatever the case, with
  \<open>.bat\<close>; the extensions of the example are in lower case.  With the resolved class,
  \<open>a.tex\<close> is allowed for reading as the working directory it resolves into is, and
  denied for writing with the location reason on the file system on which it resolves
  into \<open>/etc\<close>: both decisions are those of the directory predicates for the parent of
  the resolved path.
\<close>

theorem resolved_file_predicates_witness:
  "predicates_of SafeResolvedRestrictedPath = Resolved_predicates
   \<and> predicates_of ResolvedRestrictedPath = Resolved_predicates
   \<and> tex_readable_file_cache (initial_world ''/'')
       (cache_key SafeResolvedRestrictedPath \<lparr>is_absolute = False, comps = [''notes.txt'']\<rparr>)
     = None
   \<and> fst (tex_readable_file ex_fs_links ex_cfg SafeResolvedRestrictedPath
            \<lparr>is_absolute = False, comps = [''notes.txt'']\<rparr> (initial_world ''/''))
     = Inr (False, Some reason_dotfiles)
   \<and> resolve_calls (initial_world ''/'')
     < resolve_calls (snd (tex_readable_file ex_fs_links ex_cfg SafeResolvedRestrictedPath
            \<lparr>is_absolute = False, comps = [''notes.txt'']\<rparr> (initial_world ''/'')))
   \<and> tex_writable_file_cache (initial_world ''/'')
       (cache_key SafeResolvedRestrictedPath \<lparr>is_absolute = False, comps = [''out.txt'']\<rparr>)
     = None
   \<and> tex_prohibited_write_file_extensions ex_cfg SafeResolvedRestrictedPath = [''.bat'', ''.exe'']
   \<and> lower ''.bat'' = ''.bat'' \<and> lower ''.exe'' = ''.exe''
   \<and> fst (tex_writable_file ex_fs_links ex_cfg SafeResolvedRestrictedPath
            \<lparr>is_absolute = False, comps = [''out.txt'']\<rparr> (initial_world ''/''))
     = Inr (False, Some (reason_extension ''.bat''))
   \<and> tex_readable_file_cache (initial_world ''/'') (cache_key ResolvedRestrictedPath ex_file)
     = None
   \<and> fst (tex_readable_file ex_fs ex_cfg ResolvedRestrictedPath ex_file (initial_world ''/''))
     = fst (tex_readable_dir ex_fs ex_cfg ResolvedRestrictedPath (parent (fs_resolve ex_fs ex_file))
              (snd (resolve ex_fs ex_cfg ex_file (initial_world ''/''))))
   \<and> fst (tex_readable_file ex_fs ex_cfg ResolvedRestrictedPath ex_file (initial_world ''/''))
     = Inr (True, None)
   \<and> tex_writable_file_cache (initial_world ''/'') (cache_key ResolvedRestrictedPath ex_file)
     = None
   \<and> fst (tex_writable_file ex_fs_moved ex_cfg ResolvedRestrictedPath ex_file
            (initial_world ''/''))
     = fst (tex_writable_dir ex_fs_moved ex_cfg ResolvedRestrictedPath
              (parent (fs_resolve ex_fs_moved ex_file))
              (snd (resolve ex_fs_moved ex_cfg ex_file (initial_world ''/''))))
   \<and> fst (tex_writable_file ex_fs_moved ex_cfg ResolvedRestrictedPath ex_file
            (initial_world ''/''))
     = Inr (False, Some reason_location)"
proof -
  let ?i = "initial_world ''/''"
  let ?notes = "\<lparr>is_absolute = False, comps = [''notes.txt'']\<rparr>"
  let ?out = "\<lparr>is_absolute = False, comps = [''out.txt'']\<rparr>"
  have c: "predicates_of SafeResolvedRestrictedPath = Resolved_predicates"
    and c': "predicates_of ResolvedRestrictedPath = Resolved_predicates" by simp_all
  note t1 = resolved_file_predicates[OF c, where s="?i" and fs=ex_fs_links
      and cfg=ex_cfg and p="?notes"]
  note t2 = resolved_file_predicates[OF c, where s="?i" and fs=ex_fs_links
      and cfg=ex_cfg and p="?out"]
  note t3 = resolved_file_predicates[OF c', where s="?i" and fs=ex_fs
      and cfg=ex_cfg and p=ex_file]
  note t4 = resolved_file_predicates[OF c', where s="?i" and fs=ex_fs_moved
      and cfg=ex_cfg and p=ex_file]
  have n: "tex_readable_file_cache ?i (cache_key SafeResolvedRestrictedPath ?notes) = None"
    "tex_writable_file_cache ?i (cache_key SafeResolvedRestrictedPath ?out) = None"
    "tex_readable_file_cache ?i (cache_key ResolvedRestrictedPath ex_file) = None"
    "tex_writable_file_cache ?i (cache_key ResolvedRestrictedPath ex_file) = None"
    by (simp_all add: initial_world_def)
  have x: "tex_prohibited_write_file_extensions ex_cfg SafeResolvedRestrictedPath
             = [''.bat'', ''.exe'']"
    by (simp add: tex_prohibited_write_file_extensions_def ex_cfg_def)
  have l: "lower ''.bat'' = ''.bat''" "lower ''.exe'' = ''.exe''"
    by (simp_all add: lower_def lower_char_def)
  have l': "\<forall>ext \<in> set (tex_prohibited_write_file_extensions ex_cfg SafeResolvedRestrictedPath).
              lower ext = ext"
    unfolding x using l by simp
  have e: "resolved_readable_file_rule (tex_can_read_dotfiles ex_cfg SafeResolvedRestrictedPath)
             (name ?notes) (name (fs_resolve ex_fs_links ?notes))
             (Inr (False, Some reason_dotfiles)) x = Inr (False, Some reason_dotfiles)"
    for x :: "error + decision"
    by (simp add: resolved_readable_file_rule_def ex_fs_links_def name_def startswith_def)
  have f: "resolved_writable_file_rule ends_case_insensitively
             (tex_prohibited_write_file_extensions ex_cfg SafeResolvedRestrictedPath)
             (tex_can_write_dotfiles ex_cfg SafeResolvedRestrictedPath)
             (name ?out) (name (fs_resolve ex_fs_links ?out))
             (\<lambda>ext. Inr (False, Some (reason_extension ext)))
             (Inr (False, Some reason_dotfiles)) x = Inr (False, Some (reason_extension ''.bat''))"
    for x :: "error + decision"
    by (simp add: resolved_writable_file_rule_def ends_case_insensitively_def ex_fs_links_def
          name_def startswith_def endswith_def lower_def lower_char_def
          tex_prohibited_write_file_extensions_def ex_cfg_def)
  have g: "resolved_readable_file_rule (tex_can_read_dotfiles ex_cfg ResolvedRestrictedPath)
             (name ex_file) (name (fs_resolve ex_fs ex_file))
             (Inr (False, Some reason_dotfiles)) x = x"
    for x :: "error + decision"
    by (simp add: resolved_readable_file_rule_def ex_fs_def ex_file_def name_def startswith_def)
  have h: "resolved_writable_file_rule lower_name_endswith
             (tex_prohibited_write_file_extensions ex_cfg ResolvedRestrictedPath)
             (tex_can_write_dotfiles ex_cfg ResolvedRestrictedPath)
             (name ex_file) (name (fs_resolve ex_fs_moved ex_file))
             (\<lambda>ext. Inr (False, Some (reason_extension ext)))
             (Inr (False, Some reason_dotfiles)) x = x"
    for x :: "error + decision"
    by (simp add: resolved_writable_file_rule_def lower_name_endswith_def ex_fs_moved_def
          ex_file_def name_def startswith_def endswith_def lower_def lower_char_def
          tex_prohibited_write_file_extensions_def ex_cfg_def)
  have v: "fst (tex_readable_file ex_fs ex_cfg ResolvedRestrictedPath ex_file ?i)
             = Inr (True, None)"
    "fst (tex_writable_file ex_fs_moved ex_cfg ResolvedRestrictedPath ex_file ?i)
             = Inr (False, Some reason_location)"
    by (simp_all add: ex_eval)
  have r1: "fst (tex_readable_file ex_fs_links ex_cfg SafeResolvedRestrictedPath ?notes ?i)
              = Inr (False, Some reason_dotfiles)
            \<and> resolve_calls ?i < resolve_calls (snd (tex_readable_file ex_fs_links ex_cfg
                 SafeResolvedRestrictedPath ?notes ?i))"
    using t1[unfolded e] n(1) by blast
  have r2: "fst (tex_writable_file ex_fs_links ex_cfg SafeResolvedRestrictedPath ?out ?i)
              = Inr (False, Some (reason_extension ''.bat''))"
    using t2[unfolded f] n(2) l' by blast
  have r3: "fst (tex_readable_file ex_fs ex_cfg ResolvedRestrictedPath ex_file ?i)
     = fst (tex_readable_dir ex_fs ex_cfg ResolvedRestrictedPath (parent (fs_resolve ex_fs ex_file))
              (snd (resolve ex_fs ex_cfg ex_file ?i)))"
    using t3[unfolded g] n(3) by blast
  have r4: "fst (tex_writable_file ex_fs_moved ex_cfg ResolvedRestrictedPath ex_file ?i)
     = fst (tex_writable_dir ex_fs_moved ex_cfg ResolvedRestrictedPath
              (parent (fs_resolve ex_fs_moved ex_file))
              (snd (resolve ex_fs_moved ex_cfg ex_file ?i)))"
    using t4[unfolded h] n(4) by blast
  show ?thesis
    using c c' n x l r1 r2 r3 r4 v by blast
qed

text \<open>
  C2 as it stands does not hold: with the one prohibited extension \<open>.BAT\<close>, configured in
  upper case, the file name \<open>payload.BAT\<close> ends with the extension, with and without
  regard to case, and \<open>tex_writable_file\<close> allows the path.  The source compares
  \<open>payload.bat\<close> with \<open>.BAT\<close>.
\<close>

theorem resolved_writable_file_not_case_insensitive:
  "predicates_of ResolvedRestrictedPath = Resolved_predicates
   \<and> tex_writable_file_cache (initial_world ''/'') (cache_key ResolvedRestrictedPath ex_payload)
     = None
   \<and> tex_prohibited_write_file_extensions ex_cfg_upper ResolvedRestrictedPath = [''.BAT'']
   \<and> name ex_payload = ''payload.BAT''
   \<and> name (fs_resolve ex_fs ex_payload) = ''payload.BAT''
   \<and> endswith ''payload.BAT'' ''.BAT''
   \<and> ends_case_insensitively ''payload.BAT'' ''.BAT''
   \<and> resolved_writable_file_rule ends_case_insensitively
        (tex_prohibited_write_file_extensions ex_cfg_upper ResolvedRestrictedPath)
        (tex_can_write_dotfiles ex_cfg_upper ResolvedRestrictedPath)
        (name ex_payload) (name (fs_resolve ex_fs ex_payload))
        (\<lambda>ext. Inr (False, Some (reason_extension ext)))
        (Inr (False, Some reason_dotfiles))
        (fst (tex_writable_dir ex_fs ex_cfg_upper ResolvedRestrictedPath
                (parent (fs_resolve ex_fs ex_payload))
                (snd (resolve ex_fs ex_cfg_upper ex_payload (initial_world ''/'')))))
     = Inr (False, Some (reason_extension ''.BAT''))
   \<and> fst (tex_writable_file ex_fs ex_cfg_upper ResolvedRestrictedPath ex_payload
            (initial_world ''/''))
     = Inr (True, None)"
  by (simp add: ex_eval ex_cfg_upper_def ex_payload_def resolved_writable_file_rule_def
        ends_case_insensitively_def)

subsection \<open>The strict classes\<close>

lemma variant_for_defined_in_module:
  "class_name (variant_for resolved strict) \<in> set restricted_pathlib_names"
  by (cases resolved; cases strict; simp add: restricted_pathlib_names_def)

lemma variant_for_listed_in_import:
  "class_name (variant_for resolved strict) \<in> set init_imports"
  by (cases resolved; cases strict; simp add: init_imports_def)

lemma strict_variant_same_predicates:
  "predicates_of (variant_for resolved True) = predicates_of (variant_for resolved False)"
  "access_file_system_with_resolved_paths (variant_for resolved True)
     = access_file_system_with_resolved_paths (variant_for resolved False)"
  by (cases resolved; simp)+

lemma strict_variant_policy:
  "tex_can_read_anywhere cfg (variant_for resolved True) = False"
  "tex_can_read_dotfiles cfg (variant_for resolved True) = False"
  "tex_can_write_anywhere cfg (variant_for resolved True) = False"
  "tex_can_write_dotfiles cfg (variant_for resolved True) = False"
  "tex_prohibited_write_file_extensions cfg (variant_for resolved True)
     = tex_prohibited_write_file_extensions cfg (variant_for resolved False)"
  by (cases resolved; simp add: tex_prohibited_write_file_extensions_def)+

lemma ambient_variant_policy:
  "tex_can_read_anywhere cfg (variant_for resolved False) = cfg_can_read_anywhere cfg"
  "tex_can_read_dotfiles cfg (variant_for resolved False) = cfg_can_read_dotfiles cfg"
  "tex_can_write_anywhere cfg (variant_for resolved False) = cfg_can_write_anywhere cfg"
  "tex_can_write_dotfiles cfg (variant_for resolved False) = cfg_can_write_dotfiles cfg"
  by (cases resolved; simp)+

lemma absolute_access_roots_strict [simp]:
  "absolute_access_roots (strict_config cfg) = absolute_access_roots cfg"
  by (simp add: absolute_access_roots_def strict_config_def)

lemma lexical_rules_strict:
  "lexical_dir_rule (tex_can_read_anywhere cfg SafeStringRestrictedPath) R p
     = lexical_dir_rule (tex_can_read_anywhere (strict_config cfg) StringRestrictedPath) R p"
  "lexical_dir_rule (tex_can_write_anywhere cfg SafeStringRestrictedPath) R p
     = lexical_dir_rule (tex_can_write_anywhere (strict_config cfg) StringRestrictedPath) R p"
  "lexical_readable_file_rule cfg SafeStringRestrictedPath p
     = lexical_readable_file_rule (strict_config cfg) StringRestrictedPath p"
  "lexical_writable_file_rule cfg SafeStringRestrictedPath p
     = lexical_writable_file_rule (strict_config cfg) StringRestrictedPath p"
  by (simp_all add: lexical_readable_file_rule_def lexical_writable_file_rule_def
        tex_prohibited_write_file_extensions_def strict_config_def absolute_access_roots_def
        cong: option.case_cong)

text \<open>The strict lexical class decides every path as the lexical class does under a
  configuration whose four policy booleans are false.\<close>

lemma strict_lexical_variant_decides_as_strict_config:
  assumes "reachable cfg s" "reachable (strict_config cfg) s'"
  shows "fst (tex_readable_dir fs cfg SafeStringRestrictedPath p s)
           = fst (tex_readable_dir fs' (strict_config cfg) StringRestrictedPath p s')"
    "fst (tex_readable_file fs cfg SafeStringRestrictedPath p s)
           = fst (tex_readable_file fs' (strict_config cfg) StringRestrictedPath p s')"
    "fst (tex_writable_dir fs cfg SafeStringRestrictedPath p s)
           = fst (tex_writable_dir fs' (strict_config cfg) StringRestrictedPath p s')"
    "fst (tex_writable_file fs cfg SafeStringRestrictedPath p s)
           = fst (tex_writable_file fs' (strict_config cfg) StringRestrictedPath p s')"
  using lexical_predicates_rules[OF assms(1), where c=SafeStringRestrictedPath and fs=fs and p=p]
    lexical_predicates_rules[OF assms(2), where c=StringRestrictedPath and fs=fs' and p=p]
  by (simp_all add: lexical_rules_strict(3,4)) (simp_all add: strict_config_def)

end
